theory Spec2Isabelle
  imports Complex_Main "HOL-Library.Log_Nat"
begin

section \<open>Python floats\<close>

text \<open>
  Stock levels and quantities are Python floats: IEEE 754 binary64 values with the two
  infinities and NaN. \<open>Finite r\<close> is the float of value \<open>r\<close>; the two zeros are one
  value, since every comparison of the code treats them alike. Arithmetic computes the exact
  result and rounds it to the nearest binary64 value, ties to the even significand, and to
  an infinity beyond the largest float.
\<close>

datatype pyfloat = Finite real | PInf | NInf | NaN

text \<open>Rounding to the nearest integer, ties to the even one.\<close>

definition round_half_even :: "real \<Rightarrow> int" where
  "round_half_even x =
     (if x - of_int \<lfloor>x\<rfloor> < 1 / 2 then \<lfloor>x\<rfloor>
      else if 1 / 2 < x - of_int \<lfloor>x\<rfloor> then \<lfloor>x\<rfloor> + 1
      else if even \<lfloor>x\<rfloor> then \<lfloor>x\<rfloor> else \<lfloor>x\<rfloor> + 1)"

text \<open>The binary exponent of a positive real: \<open>2 powi e \<le> x < 2 powi (e + 1)\<close>.\<close>

definition exponent_of :: "real \<Rightarrow> int" where
  "exponent_of x = (if 1 \<le> x then bitlen \<lfloor>x\<rfloor> - 1 else - bitlen (\<lceil>1 / x\<rceil> - 1))"

text \<open>
  The exponent of the last place of the 53-bit significand; below the smallest normal
  number the spacing stays that of the subnormal numbers.
\<close>

definition ulp_exponent :: "real \<Rightarrow> int" where
  "ulp_exponent x = max (exponent_of \<bar>x\<bar> - 52) (- 1074)"

definition nearest :: "real \<Rightarrow> real" where
  "nearest x =
     of_int (round_half_even (x / (2::real) powi ulp_exponent x)) * (2::real) powi ulp_exponent x"

definition huge :: real where
  "huge = 2 ^ 1024"

definition round64 :: "real \<Rightarrow> pyfloat" where
  "round64 x =
     (if x = 0 then Finite 0
      else if huge \<le> \<bar>nearest x\<bar> then (if 0 < x then PInf else NInf)
      else Finite (nearest x))"

text \<open>\<^verbatim>\<open>-x\<close> and \<^verbatim>\<open>abs(x)\<close>\<close>

fun fneg :: "pyfloat \<Rightarrow> pyfloat" where
  "fneg (Finite a) = Finite (- a)"
| "fneg PInf = NInf"
| "fneg NInf = PInf"
| "fneg NaN = NaN"

fun fabs :: "pyfloat \<Rightarrow> pyfloat" where
  "fabs (Finite a) = Finite \<bar>a\<bar>"
| "fabs PInf = PInf"
| "fabs NInf = PInf"
| "fabs NaN = NaN"

text \<open>\<^verbatim>\<open>x + y\<close> and \<^verbatim>\<open>x - y\<close>\<close>

fun fadd :: "pyfloat \<Rightarrow> pyfloat \<Rightarrow> pyfloat" where
  "fadd (Finite a) (Finite b) = round64 (a + b)"
| "fadd NaN b = NaN"
| "fadd a NaN = NaN"
| "fadd PInf NInf = NaN"
| "fadd NInf PInf = NaN"
| "fadd PInf b = PInf"
| "fadd NInf b = NInf"
| "fadd a PInf = PInf"
| "fadd a NInf = NInf"

definition fsub :: "pyfloat \<Rightarrow> pyfloat \<Rightarrow> pyfloat" where
  "fsub a b = fadd a (fneg b)"

text \<open>\<^verbatim>\<open>x < y\<close>, \<^verbatim>\<open>x == y\<close> and \<^verbatim>\<open>x <= y\<close>: every comparison with NaN is false.\<close>

fun flt :: "pyfloat \<Rightarrow> pyfloat \<Rightarrow> bool" where
  "flt (Finite a) (Finite b) = (a < b)"
| "flt NaN b = False"
| "flt a NaN = False"
| "flt PInf b = False"
| "flt a NInf = False"
| "flt a PInf = True"
| "flt NInf b = True"

fun feq :: "pyfloat \<Rightarrow> pyfloat \<Rightarrow> bool" where
  "feq NaN b = False"
| "feq a NaN = False"
| "feq a b = (a = b)"

definition fle :: "pyfloat \<Rightarrow> pyfloat \<Rightarrow> bool" where
  "fle a b = (flt a b \<or> feq a b)"

text \<open>
  \<^verbatim>\<open>max(x, y)\<close> of two arguments: the second is returned only when it is greater than
  the first, so \<^verbatim>\<open>max(nan, 0.0)\<close> is NaN.
\<close>

definition py_max :: "pyfloat \<Rightarrow> pyfloat \<Rightarrow> pyfloat" where
  "py_max a b = (if flt a b then b else a)"

text \<open>The literal \<^verbatim>\<open>1e-6\<close>.\<close>

definition tolerance :: pyfloat where
  "tolerance = round64 (1 / 1000000)"

section \<open>Values, errors and documents\<close>

text \<open>
  The store holds JSON-like documents. A numeric field read with \<^verbatim>\<open>d.get(key, default)\<close>
  and passed to \<^verbatim>\<open>float(...)\<close> has five shapes that the code tells apart: the key is
  absent (the default is used), the value is \<^verbatim>\<open>None\<close> (\<^verbatim>\<open>float\<close> raises TypeError),
  the value is not numeric (\<^verbatim>\<open>float\<close> raises ValueError or TypeError), it is an integer
  (\<^verbatim>\<open>float\<close> rounds it), or it is a float, NaN and the infinities included (a string that
  \<^verbatim>\<open>float\<close> parses reads as the float it denotes). The integers of the store have 64 bits,
  so \<^verbatim>\<open>float\<close> cannot overflow on them.
\<close>

datatype json_num = KeyAbsent | JNone | JBad | JInt int | JFloat pyfloat

datatype error =
    ValueError string
  | TypeError string
  | AttributeError string
  | RuntimeError string
  | HTTPError string

text \<open>\<^verbatim>\<open>str(e)\<close>\<close>

fun str_of_error :: "error \<Rightarrow> string" where
  "str_of_error (ValueError s) = s"
| "str_of_error (TypeError s) = s"
| "str_of_error (AttributeError s) = s"
| "str_of_error (RuntimeError s) = s"
| "str_of_error (HTTPError s) = s"

text \<open>\<^verbatim>\<open>float(d.get(key, default))\<close>\<close>

fun py_float :: "json_num \<Rightarrow> pyfloat \<Rightarrow> error + pyfloat" where
  "py_float KeyAbsent d = Inr d"
| "py_float JNone d = Inl (TypeError ''float() argument must be a string or a real number'')"
| "py_float JBad d = Inl (ValueError ''could not convert string to float'')"
| "py_float (JInt n) d = Inr (round64 (of_int n))"
| "py_float (JFloat v) d = Inr v"

record product =
  product_name :: "string option"
  stock_qty :: json_num

record movement =
  mv_merchant_id :: string
  mv_product_id :: string
  mv_product_name :: "string option"
  movement_type :: string
  mv_quantity_change :: pyfloat
  old_stock :: pyfloat
  new_stock :: pyfloat
  mv_role :: string
  mv_timestamp :: int

record item =
  product_id :: string
  item_name :: "string option"
  quantity :: json_num

record timeline_entry =
  tl_status :: string
  tl_timestamp :: int
  tl_note :: string
  tl_actor :: string

text \<open>
  A timestamp field of an order: absent, a value that no parser of the code reads, or an
  instant (seconds since the epoch) that every parser of the code reads alike.
\<close>

datatype ts_field = TsAbsent | TsInvalid | TsAt int

record order =
  order_id :: string
  merchant_id :: string
  customer_phone :: string
  items :: "item list"
  total_amount :: json_num
  status :: string
  inventory_deducted :: bool
  timeline :: "timeline_entry list"
  created_at :: ts_field
  updated_at :: int
  expiry_time :: ts_field
  sent_reminders :: "int list"
  confirmed_at :: "int option"
  estimated_delivery :: "int option"
  cancellation_reason :: "string option"
  cancelled_by :: "string option"
  approved_by_admin :: "string option"

record merchant =
  phone :: "string option"

text \<open>What the driver does with a write to the products collection.\<close>

datatype write_outcome = Applied | Dropped | Raises

text \<open>
  What the WhatsApp Cloud API does with a request, retries included: it accepts the
  message, it answers with error 131030 (recipient not in the allowed list), or the request
  fails for good.
\<close>

datatype gateway_outcome = Delivers | RejectsRecipient | Fails


text \<open>Texts handed to the notification gateway, by kind.\<close>

datatype notification =
    ReminderText string int
  | MerchantExpiryText string
  | CustomerExpiryText string

text \<open>
  The state that the Inventory Engine, the Order State Machine and the scheduler share:
  the clock that \<^verbatim>\<open>datetime.now(timezone.utc)\<close> reads (in seconds), the collections of
  the store, the lock registry of the Inventory Engine, the country code that the gateway
  prefixes to ten-digit numbers, and the messages that the WhatsApp API has accepted. Three
  fields say how the collaborators behave: \<open>products_write\<close>, \<open>orders_write_raises\<close> and
  \<open>gateway\<close>; \<open>db_initialized\<close> is the flag \<^verbatim>\<open>_initialized\<close> of the database object, whose
  handle \<^verbatim>\<open>self.db\<close> exists exactly when the flag is set. Reads of the store do not fail.
  Calls to the logger are not part of the state.

  Every function below is one call running alone: the tasks that one call hands to
  \<^verbatim>\<open>asyncio.gather\<close> run in list order, and what other tasks do in between is an explicit
  argument where a property depends on it.
\<close>

record world =
  clock :: int
  db_initialized :: bool
  products :: "string \<times> string \<Rightarrow> product option"
  products_write :: write_outcome
  stock_movements :: "movement list"
  orders :: "string \<Rightarrow> order option"
  orders_write_raises :: bool
  locks :: "string set"
  merchants :: "string \<Rightarrow> merchant option"
  default_country_code :: string
  gateway :: gateway_outcome
  outbox :: "(string \<times> notification) list"

section \<open>Persistent store (db.py)\<close>

text \<open>
  \<^verbatim>\<open>DatabaseV6.get_product\<close>: looked up by merchant and product id; every driver error is
  caught there and turned into \<^verbatim>\<open>None\<close>. The fallback lookup by BSON id is not modelled.
  Both callers have checked the database handle before.
\<close>

definition db_get_product :: "string \<Rightarrow> string \<Rightarrow> world \<Rightarrow> product option" where
  "db_get_product m p w = products w (m, p)"

text \<open>
  \<^verbatim>\<open>DatabaseV6.update_product_stock\<close>: a value below zero and an unknown product raise;
  the driver then applies the write, drops it silently, or raises.
\<close>

definition db_update_product_stock ::
  "string \<Rightarrow> string \<Rightarrow> pyfloat \<Rightarrow> world \<Rightarrow> (error + bool) \<times> world" where
  "db_update_product_stock m p new_stock_v w =
     (if \<not> db_initialized w then (Inl (RuntimeError ''Database not initialized''), w)
      else if flt new_stock_v (Finite 0)
      then (Inl (ValueError ''Stock quantity cannot be negative''), w)
      else (case db_get_product m p w of
              None \<Rightarrow> (Inl (ValueError ''No product found''), w)
            | Some doc \<Rightarrow>
                (case products_write w of
                   Raises \<Rightarrow> (Inl (RuntimeError ''products.update_one failed''), w)
                 | Dropped \<Rightarrow> (Inr False, w)
                 | Applied \<Rightarrow>
                     (Inr True,
                      w\<lparr>products :=
                          (products w)((m, p) \<mapsto> doc\<lparr>stock_qty := JFloat new_stock_v\<rparr>)\<rparr>))))"

text \<open>
  \<^verbatim>\<open>DatabaseV6.get_collection\<close> is a plain function that returns the collection handle.
  The Inventory Engine awaits its result, and a collection handle is not awaitable: the
  \<^verbatim>\<open>await\<close> expression raises TypeError.
\<close>

definition await_get_collection :: "string \<Rightarrow> world \<Rightarrow> error + string" where
  "await_get_collection name w =
     (if \<not> db_initialized w then Inl (RuntimeError ''Database not initialized'')
      else Inl (TypeError ''object AsyncIOMotorCollection cannot be used in await expression''))"

section \<open>Inventory Engine (inventory_manager.py)\<close>

definition lock_key :: "string \<Rightarrow> string \<Rightarrow> string" where
  "lock_key m p = m @ '':'' @ p"

text \<open>\<^verbatim>\<open>_get_lock\<close>: the lock of a key is created on first use and kept.\<close>

definition get_lock :: "string \<Rightarrow> world \<Rightarrow> world" where
  "get_lock k w = (if k \<in> locks w then w else w\<lparr>locks := insert k (locks w)\<rparr>)"

text \<open>\<^verbatim>\<open>InventoryManagerV6.get_product\<close>\<close>

definition get_product :: "string \<Rightarrow> string \<Rightarrow> world \<Rightarrow> product option" where
  "get_product m p w = (if \<not> db_initialized w then None else db_get_product m p w)"

text \<open>\<^verbatim>\<open>get_product_stock\<close>: read-only; a missing or non-numeric stock reads as \<^verbatim>\<open>None\<close>.\<close>

definition get_product_stock :: "string \<Rightarrow> string \<Rightarrow> world \<Rightarrow> pyfloat option" where
  "get_product_stock m p w =
     (case get_product m p w of
        None \<Rightarrow> None
      | Some pdoc \<Rightarrow>
          (case stock_qty pdoc of
             KeyAbsent \<Rightarrow> None
           | JNone \<Rightarrow> None
           | JBad \<Rightarrow> None
           | JInt n \<Rightarrow> Some (round64 (of_int n))
           | JFloat v \<Rightarrow> Some v))"

text \<open>
  \<^verbatim>\<open>_log_stock_movement\<close>: builds the entry and asks for the collection to insert it;
  whatever is raised on the way is caught and logged.
\<close>

definition log_stock_movement ::
  "string \<Rightarrow> string \<Rightarrow> string option \<Rightarrow> string \<Rightarrow> pyfloat \<Rightarrow> pyfloat \<Rightarrow> pyfloat \<Rightarrow> string
   \<Rightarrow> world \<Rightarrow> world" where
  "log_stock_movement m p name mtype change old new role w =
     (if \<not> db_initialized w then w
      else (case await_get_collection ''stock_movements'' w of
              Inl e \<Rightarrow> w
            | Inr movements_collection \<Rightarrow>
                w\<lparr>stock_movements := stock_movements w @
                     [\<lparr>mv_merchant_id = m, mv_product_id = p, mv_product_name = name,
                       movement_type = mtype, mv_quantity_change = change,
                       old_stock = old, new_stock = new, mv_role = role,
                       mv_timestamp = clock w\<rparr>]\<rparr>))"

text \<open>
  The body of \<^verbatim>\<open>update_quantity\<close> inside \<^verbatim>\<open>async with lock: try:\<close>, steps 1 to 5.
  \<open>Inl\<close> is an exception raised inside the \<^verbatim>\<open>try\<close>.
\<close>

definition update_quantity_locked ::
  "string \<Rightarrow> string \<Rightarrow> pyfloat \<Rightarrow> string \<Rightarrow> string \<Rightarrow> world \<Rightarrow> (error + bool) \<times> world" where
  "update_quantity_locked m p quantity_change change_reason role w =
     (case get_product m p w of
        None \<Rightarrow> (Inr False, w)
      | Some pdoc \<Rightarrow>
          (case py_float (stock_qty pdoc) (Finite 0) of
             Inl e \<Rightarrow> (Inl e, w)
           | Inr current_stock \<Rightarrow>
               (let new_stock_v = fadd current_stock quantity_change;
                    final_stock = py_max new_stock_v (Finite 0)
                in if flt quantity_change (Finite 0) \<and> flt new_stock_v (Finite 0)
                   then (Inr False, w)
                   else (case db_update_product_stock m p final_stock w of
                           (Inl e, w1) \<Rightarrow> (Inl e, w1)
                         | (Inr _, w1) \<Rightarrow>
                             (case get_product m p w1 of
                                None \<Rightarrow>
                                  (Inl (AttributeError ''NoneType object has no attribute get''), w1)
                              | Some verified_product \<Rightarrow>
                                  (case py_float (stock_qty verified_product) (Finite (- 999)) of
                                     Inl e \<Rightarrow> (Inl e, w1)
                                   | Inr verified_stock \<Rightarrow>
                                       if flt tolerance (fabs (fsub verified_stock final_stock))
                                       then (Inr False, w1)
                                       else (Inr True,
                                             log_stock_movement m p (product_name pdoc)
                                               change_reason quantity_change current_stock
                                               final_stock role w1)))))))"

text \<open>
  \<^verbatim>\<open>update_quantity\<close>: the zero check comes before the lock is looked up; the
  \<^verbatim>\<open>except Exception\<close> of the body turns every exception into the return value \<^verbatim>\<open>False\<close>.
\<close>

definition update_quantity ::
  "string \<Rightarrow> string \<Rightarrow> pyfloat \<Rightarrow> string \<Rightarrow> string \<Rightarrow> world \<Rightarrow> (error + bool) \<times> world" where
  "update_quantity m p quantity_change change_reason role w =
     (if feq quantity_change (Finite 0) then (Inr True, w)
      else (case update_quantity_locked m p quantity_change change_reason role
                   (get_lock (lock_key m p) w) of
              (Inl e, w') \<Rightarrow> (Inr False, w')
            | (Inr b, w') \<Rightarrow> (Inr b, w')))"

text \<open>\<^verbatim>\<open>deduct_stock\<close> and \<^verbatim>\<open>return_stock\<close>: sign-handling wrappers.\<close>

definition deduct_stock ::
  "string \<Rightarrow> string \<Rightarrow> pyfloat \<Rightarrow> string \<Rightarrow> world \<Rightarrow> (error + bool) \<times> world" where
  "deduct_stock m p qty role w =
     (if flt qty (Finite 0) then update_quantity m p (fneg (fabs qty)) ''deduction'' role w
      else if feq qty (Finite 0) then (Inr True, w)
      else update_quantity m p (fneg qty) ''deduction'' role w)"

definition return_stock ::
  "string \<Rightarrow> string \<Rightarrow> pyfloat \<Rightarrow> string \<Rightarrow> world \<Rightarrow> (error + bool) \<times> world" where
  "return_stock m p qty role w =
     (if flt qty (Finite 0) then update_quantity m p (fabs qty) ''return'' role w
      else if feq qty (Finite 0) then (Inr True, w)
      else update_quantity m p qty ''return'' role w)"

text \<open>
  The body of \<^verbatim>\<open>adjust_stock_admin\<close> inside its \<^verbatim>\<open>try\<close>. \<^verbatim>\<open>DatabaseV6\<close> has no method
  \<^verbatim>\<open>record_admin_action\<close>, so the \<^verbatim>\<open>hasattr\<close> test fails and the audit record is skipped.
\<close>

definition adjust_stock_admin_locked ::
  "string \<Rightarrow> string \<Rightarrow> pyfloat \<Rightarrow> string \<Rightarrow> string \<Rightarrow> world \<Rightarrow> (error + bool) \<times> world" where
  "adjust_stock_admin_locked m p new_stock_v admin_user reason w =
     (case get_product m p w of
        None \<Rightarrow> (Inr False, w)
      | Some pdoc \<Rightarrow>
          (case py_float (stock_qty pdoc) (Finite 0) of
             Inl e \<Rightarrow> (Inl e, w)
           | Inr old_stock_v \<Rightarrow>
               (let final_new_stock = py_max new_stock_v (Finite 0)
                in (case db_update_product_stock m p final_new_stock w of
                      (Inl e, w1) \<Rightarrow> (Inl e, w1)
                    | (Inr _, w1) \<Rightarrow>
                        (case get_product m p w1 of
                           None \<Rightarrow>
                             (Inl (AttributeError ''NoneType object has no attribute get''), w1)
                         | Some verified_product \<Rightarrow>
                             (case py_float (stock_qty verified_product) (Finite (- 999)) of
                                Inl e \<Rightarrow> (Inl e, w1)
                              | Inr verified_stock \<Rightarrow>
                                  if flt tolerance (fabs (fsub verified_stock final_new_stock))
                                  then (Inr False, w1)
                                  else (Inr True,
                                        log_stock_movement m p (product_name pdoc) reason
                                          (fsub final_new_stock old_stock_v) old_stock_v
                                          final_new_stock ''admin'' w1)))))))"

definition adjust_stock_admin ::
  "string \<Rightarrow> string \<Rightarrow> pyfloat \<Rightarrow> string \<Rightarrow> string \<Rightarrow> world \<Rightarrow> (error + bool) \<times> world" where
  "adjust_stock_admin m p new_stock_v admin_user reason w =
     (case adjust_stock_admin_locked m p new_stock_v admin_user reason
             (get_lock (lock_key m p) w) of
        (Inl e, w') \<Rightarrow> (Inr False, w')
      | (Inr b, w') \<Rightarrow> (Inr b, w'))"

subsection \<open>Batch deduction with rollback\<close>

text \<open>The reason strings of the per-item results, by shape (they embed formatted floats).\<close>

datatype reason =
    ZeroQuantity
  | InsufficientStock string
  | InsufficientStockHave string pyfloat pyfloat
  | InvalidItemData string string
  | UnexpectedError string string
  | BatchStopped

record deduction_result =
  res_product_id :: string
  res_success :: bool
  res_reason :: "reason option"

record deduction_info =
  di_product_id :: string
  di_quantity :: pyfloat
  di_product_name :: string

text \<open>\<^verbatim>\<open>item.get("product_name", product_id)\<close>\<close>

definition name_of_item :: "item \<Rightarrow> string" where
  "name_of_item it = (case item_name it of None \<Rightarrow> product_id it | Some n \<Rightarrow> n)"

text \<open>
  The quantity of a line as phase 1 reads it: missing, non-numeric and negative raise. NaN
  is not below zero and passes.
\<close>

definition batch_quantity :: "json_num \<Rightarrow> error + pyfloat" where
  "batch_quantity j =
     (case j of
        KeyAbsent \<Rightarrow> Inl (ValueError ''missing quantity'')
      | JNone \<Rightarrow> Inl (ValueError ''missing quantity'')
      | _ \<Rightarrow>
          (case py_float j (Finite 0) of
             Inl e \<Rightarrow> Inl e
           | Inr q \<Rightarrow> if flt q (Finite 0) then Inl (ValueError ''Negative quantity'') else Inr q))"

text \<open>
  Phase 1 of \<^verbatim>\<open>batch_deduct_stock\<close>: the \<^verbatim>\<open>for\<close> loop with its three accumulators;
  every \<^verbatim>\<open>break\<close> returns them as they are.
\<close>

fun deduct_loop ::
  "string \<Rightarrow> string \<Rightarrow> item list \<Rightarrow> deduction_result list \<Rightarrow> deduction_info list \<Rightarrow> world
   \<Rightarrow> deduction_result list \<times> deduction_info list \<times> reason list \<times> world" where
  "deduct_loop m role [] results successful w = (results, successful, [], w)"
| "deduct_loop m role (it # rest) results successful w =
     (case batch_quantity (quantity it) of
        Inl e \<Rightarrow>
          (let reason = InvalidItemData (name_of_item it) (str_of_error e)
           in (results @ [\<lparr>res_product_id = product_id it, res_success = False,
                            res_reason = Some reason\<rparr>],
               successful, [reason], w))
      | Inr q \<Rightarrow>
          if feq q (Finite 0)
          then deduct_loop m role rest
                 (results @ [\<lparr>res_product_id = product_id it, res_success = True,
                              res_reason = Some ZeroQuantity\<rparr>])
                 successful w
          else (case update_quantity m (product_id it) (fneg q) ''batch_deduction'' role w of
                  (Inl e, w1) \<Rightarrow>
                    (let reason = UnexpectedError (name_of_item it) (str_of_error e)
                     in (results @ [\<lparr>res_product_id = product_id it, res_success = False,
                                      res_reason = Some reason\<rparr>],
                         successful, [reason], w1))
                | (Inr True, w1) \<Rightarrow>
                    deduct_loop m role rest
                      (results @ [\<lparr>res_product_id = product_id it, res_success = True,
                                   res_reason = None\<rparr>])
                      (successful @ [\<lparr>di_product_id = product_id it, di_quantity = q,
                                      di_product_name = name_of_item it\<rparr>])
                      w1
                | (Inr False, w1) \<Rightarrow>
                    (let reason =
                           (case get_product_stock m (product_id it) w1 of
                              None \<Rightarrow> InsufficientStock (name_of_item it)
                            | Some current_stock \<Rightarrow>
                                InsufficientStockHave (name_of_item it) q current_stock)
                     in (results @ [\<lparr>res_product_id = product_id it, res_success = False,
                                      res_reason = Some reason\<rparr>],
                         successful, [reason], w1))))"

text \<open>
  Phase 2: one compensating \<^verbatim>\<open>update_quantity\<close> per debited line. The tasks that
  \<^verbatim>\<open>asyncio.gather\<close> runs are taken in list order; each holds its own product lock.
\<close>

fun rollback_deductions ::
  "string \<Rightarrow> string \<Rightarrow> deduction_info list \<Rightarrow> world \<Rightarrow> (error + bool) list \<times> world" where
  "rollback_deductions m role [] w = ([], w)"
| "rollback_deductions m role (d # ds) w =
     (case update_quantity m (di_product_id d) (di_quantity d)
             ''batch_deduction_rollback'' role w of
        (r, w1) \<Rightarrow>
          (case rollback_deductions m role ds w1 of (rs, w2) \<Rightarrow> (r # rs, w2)))"

definition batch_deduct_stock ::
  "string \<Rightarrow> item list \<Rightarrow> string \<Rightarrow> world \<Rightarrow> (bool \<times> deduction_result list) \<times> world" where
  "batch_deduct_stock m its role w =
     (if its = [] then ((True, []), w)
      else (case deduct_loop m role its [] [] w of
              (results, successful, failure_reasons, w1) \<Rightarrow>
                if failure_reasons \<noteq> []
                then (case rollback_deductions m role successful w1 of
                        (rollback_results, w2) \<Rightarrow>
                          (let processed_ids = set (map res_product_id results)
                           in ((False,
                                results @
                                map (\<lambda>it. \<lparr>res_product_id = product_id it, res_success = False,
                                            res_reason = Some BatchStopped\<rparr>)
                                  (filter (\<lambda>it. product_id it \<notin> processed_ids) its)),
                               w2)))
                else ((True, results), w1)))"

subsection \<open>Sequences of engine operations\<close>

datatype engine_op =
    UpdateQuantity string string pyfloat string string
  | DeductStock string string pyfloat string
  | ReturnStock string string pyfloat string
  | BatchDeductStock string "item list" string
  | AdjustStockAdmin string string pyfloat string string

fun run_op :: "engine_op \<Rightarrow> world \<Rightarrow> world" where
  "run_op (UpdateQuantity m p d r role) w = snd (update_quantity m p d r role w)"
| "run_op (DeductStock m p q role) w = snd (deduct_stock m p q role w)"
| "run_op (ReturnStock m p q role) w = snd (return_stock m p q role w)"
| "run_op (BatchDeductStock m its role) w = snd (batch_deduct_stock m its role w)"
| "run_op (AdjustStockAdmin m p v admin reason) w = snd (adjust_stock_admin m p v admin reason w)"

fun run_ops :: "engine_op list \<Rightarrow> world \<Rightarrow> world" where
  "run_ops [] w = w"
| "run_ops (x # xs) w = run_ops xs (run_op x w)"

section \<open>Order State Machine (order_manager.py)\<close>

text \<open>\<^verbatim>\<open>OrderStatus\<close>: a string enumeration; the store may also hold legacy strings.\<close>

definition PENDING :: string where "PENDING = ''pending''"
definition ACCEPTED :: string where "ACCEPTED = ''accepted''"
definition DECLINED :: string where "DECLINED = ''declined''"
definition COMPLETED :: string where "COMPLETED = ''completed''"
definition CANCELLED :: string where "CANCELLED = ''cancelled''"
definition EXPIRED :: string where "EXPIRED = ''expired''"
definition REVIEW :: string where "REVIEW = ''review''"

text \<open>
  \<^verbatim>\<open>DatabaseV6.get_order\<close> raises when the database handle is missing and otherwise
  returns the document or \<^verbatim>\<open>None\<close>.
\<close>

definition db_get_order :: "string \<Rightarrow> world \<Rightarrow> error + order option" where
  "db_get_order oid w =
     (if \<not> db_initialized w then Inl (RuntimeError ''Database not initialized'')
      else Inr (orders w oid))"

text \<open>
  \<^verbatim>\<open>DatabaseV6.update_order\<close>: the update document (\<^verbatim>\<open>$set\<close>, \<^verbatim>\<open>$push\<close>,
  \<^verbatim>\<open>$addToSet\<close>) is given by its effect on the stored order; \<^verbatim>\<open>updated_at\<close> is always
  set. An order that is not found is only logged.
\<close>

definition db_update_order ::
  "string \<Rightarrow> (order \<Rightarrow> order) \<Rightarrow> world \<Rightarrow> (error + bool) \<times> world" where
  "db_update_order oid upd w =
     (if \<not> db_initialized w then (Inl (RuntimeError ''Database not initialized''), w)
      else if orders_write_raises w then (Inl (RuntimeError ''orders.update_one failed''), w)
      else (case orders w oid of
              None \<Rightarrow> (Inr False, w)
            | Some ord \<Rightarrow>
                (Inr True, w\<lparr>orders := (orders w)(oid \<mapsto> (upd ord)\<lparr>updated_at := clock w\<rparr>)\<rparr>)))"

text \<open>\<^verbatim>\<open>OrderManagerV6.update_order\<close>: logs and re-raises what the store raises.\<close>

definition update_order ::
  "string \<Rightarrow> (order \<Rightarrow> order) \<Rightarrow> world \<Rightarrow> (error + unit) \<times> world" where
  "update_order oid upd w =
     (if oid = [] then (Inl (ValueError ''order_id is required''), w)
      else (case db_update_order oid upd w of
              (Inl e, w1) \<Rightarrow> (Inl e, w1)
            | (Inr _, w1) \<Rightarrow> (Inr (), w1)))"


subsection \<open>Expiry\<close>

definition valid_pending_statuses :: "string list" where
  "valid_pending_statuses = [PENDING, ''pending_confirmation'']"

definition expired_entry :: "int \<Rightarrow> timeline_entry" where
  "expired_entry now =
     \<lparr>tl_status = EXPIRED, tl_timestamp = now,
      tl_note = ''Order expired due to no merchant response'', tl_actor = ''system''\<rparr>"

text \<open>
  \<^verbatim>\<open>expire_order\<close>: a missing order raises; an order outside the pending statuses is
  returned as it is; a failed write is logged and \<^verbatim>\<open>None\<close> is returned.
\<close>

definition expire_order :: "string \<Rightarrow> world \<Rightarrow> (error + order option) \<times> world" where
  "expire_order oid w =
     (if oid = [] then (Inl (ValueError ''order_id required''), w)
      else (case db_get_order oid w of
              Inl e \<Rightarrow> (Inl e, w)
            | Inr None \<Rightarrow> (Inl (ValueError (''Order '' @ oid @ '' not found'')), w)
            | Inr (Some ord) \<Rightarrow>
                if status ord \<notin> set valid_pending_statuses then (Inr (Some ord), w)
                else (case update_order oid
                             (\<lambda>doc. doc\<lparr>status := EXPIRED,
                                         timeline := timeline doc @ [expired_entry (clock w)]\<rparr>) w of
                        (Inl e, w1) \<Rightarrow> (Inr None, w1)
                      | (Inr _, w1) \<Rightarrow>
                          (case db_get_order oid w1 of
                             Inl e \<Rightarrow> (Inr None, w1)
                           | Inr updated_order \<Rightarrow> (Inr updated_order, w1)))))"

subsection \<open>Acceptance\<close>

text \<open>\<^verbatim>\<open>"expired" in str(e)\<close>: substring test.\<close>

fun starts_with :: "string \<Rightarrow> string \<Rightarrow> bool" where
  "starts_with [] s = True"
| "starts_with (c # cs) [] = False"
| "starts_with (c # cs) (d # ds) = (c = d \<and> starts_with cs ds)"

fun contains :: "string \<Rightarrow> string \<Rightarrow> bool" where
  "contains pat [] = (pat = [])"
| "contains pat (c # cs) = (starts_with pat (c # cs) \<or> contains pat cs)"

text \<open>
  \<^verbatim>\<open>self._parse_iso_datetime\<close>: the function of that name is defined at module level,
  after the class, so the attribute lookup on the manager raises AttributeError.
\<close>

definition self_parse_iso_datetime :: "ts_field \<Rightarrow> error + int option" where
  "self_parse_iso_datetime t =
     Inl (AttributeError ''OrderManagerV6 object has no attribute _parse_iso_datetime'')"

text \<open>
  The expiry check of \<^verbatim>\<open>accept_order\<close> (step 2): whatever is raised inside its
  \<^verbatim>\<open>try\<close> is logged, and raised again only when its text mentions \<^verbatim>\<open>expired\<close>.
\<close>

definition accept_expiry_check :: "string \<Rightarrow> order \<Rightarrow> world \<Rightarrow> (error + unit) \<times> world" where
  "accept_expiry_check oid ord w =
     (if expiry_time ord = TsAbsent then (Inr (), w)
      else (case self_parse_iso_datetime (expiry_time ord) of
              Inl e \<Rightarrow> if contains ''expired'' (str_of_error e) then (Inl e, w) else (Inr (), w)
            | Inr None \<Rightarrow> (Inr (), w)
            | Inr (Some expiry) \<Rightarrow>
                if clock w \<ge> expiry
                then (Inl (ValueError (''Order '' @ oid @ '' has expired'')),
                      snd (expire_order oid w))
                else (Inr (), w)))"

text \<open>
  The arguments of the compensating calls, \<^verbatim>\<open>float(item.get("quantity", 0))\<close> for each
  line: they are evaluated while the task list is built, before any task runs.
\<close>

fun rollback_args :: "item list \<Rightarrow> error + (string \<times> pyfloat) list" where
  "rollback_args [] = Inr []"
| "rollback_args (it # rest) =
     (case py_float (quantity it) (Finite 0) of
        Inl e \<Rightarrow> Inl e
      | Inr q \<Rightarrow>
          (case rollback_args rest of
             Inl e \<Rightarrow> Inl e
           | Inr qs \<Rightarrow> Inr ((product_id it, q) # qs)))"

text \<open>
  \<^verbatim>\<open>asyncio.gather(*rollback_tasks, return_exceptions=True)\<close> over
  \<^verbatim>\<open>update_quantity\<close> tasks, taken in list order.
\<close>

fun return_all ::
  "string \<Rightarrow> (string \<times> pyfloat) list \<Rightarrow> string \<Rightarrow> string \<Rightarrow> world
   \<Rightarrow> (error + bool) list \<times> world" where
  "return_all m [] change_reason role w = ([], w)"
| "return_all m ((p, q) # rest) change_reason role w =
     (case update_quantity m p q change_reason role w of
        (r, w1) \<Rightarrow>
          (case return_all m rest change_reason role w1 of (rs, w2) \<Rightarrow> (r # rs, w2)))"

text \<open>\<^verbatim>\<open>note or default\<close>\<close>

definition note_or :: "string option \<Rightarrow> string \<Rightarrow> string" where
  "note_or n d = (case n of None \<Rightarrow> d | Some s \<Rightarrow> if s = [] then d else s)"

text \<open>
  Step 4 and step 5 of \<^verbatim>\<open>accept_order\<close>: inside the order-transition lock the order is
  read again; a status other than \<^verbatim>\<open>PENDING\<close> rolls the stock back and raises, otherwise
  the acceptance is committed.
\<close>

definition accept_order_commit ::
  "string \<Rightarrow> string \<Rightarrow> string option \<Rightarrow> int option \<Rightarrow> order \<Rightarrow> world
   \<Rightarrow> (error + order) \<times> world" where
  "accept_order_commit oid mid acceptance_note est_delivery ord w =
     (case db_get_order oid w of
        Inl e \<Rightarrow> (Inl e, w)
      | Inr None \<Rightarrow> (Inl (AttributeError ''NoneType object has no attribute get''), w)
      | Inr (Some current_order_state) \<Rightarrow>
          if status current_order_state \<noteq> PENDING
          then (case rollback_args (items ord) of
                  Inl e \<Rightarrow> (Inl e, w)
                | Inr args \<Rightarrow>
                    (Inl (ValueError ''Order state changed mid-process. Inventory rolled back.''),
                     snd (return_all mid args ''order_accept_race_condition_rollback''
                            ''merchant'' w)))
          else (case update_order oid
                       (\<lambda>doc. doc\<lparr>status := ACCEPTED,
                                   confirmed_at := Some (clock w),
                                   inventory_deducted := True,
                                   estimated_delivery :=
                                     (case est_delivery of
                                        None \<Rightarrow> estimated_delivery doc
                                      | Some t \<Rightarrow> Some t),
                                   timeline := timeline doc @
                                     [\<lparr>tl_status = ACCEPTED, tl_timestamp = clock w,
                                       tl_note = note_or acceptance_note
                                                   ''Order accepted by merchant'',
                                       tl_actor = ''merchant''\<rparr>]\<rparr>) w of
                  (Inl e, w1) \<Rightarrow>
                    (case rollback_args (items ord) of
                       Inl e' \<Rightarrow> (Inl e', w1)
                     | Inr args \<Rightarrow>
                         (Inl (RuntimeError
                                 ''Failed to update order status. Inventory rollback attempted.''),
                          snd (return_all mid args
                                 ''order_accept_final_update_failed_rollback'' ''merchant'' w1)))
                | (Inr _, w1) \<Rightarrow>
                    (case db_get_order oid w1 of
                       Inl e \<Rightarrow> (Inl e, w1)
                     | Inr None \<Rightarrow> (Inr ord, w1)
                     | Inr (Some updated_order) \<Rightarrow> (Inr updated_order, w1))))"

text \<open>
  \<^verbatim>\<open>accept_order\<close>. Steps 1 to 3 run without the order lock; \<open>env\<close> is what other
  tasks do to the state between the end of the batch deduction and the moment this call
  holds the order-transition lock (the identity when nothing else runs). The best-effort
  calls of step 5 (knowledge base, business rules) do not touch this state and are left out.
\<close>

definition accept_order ::
  "(world \<Rightarrow> world) \<Rightarrow> string \<Rightarrow> string \<Rightarrow> string option \<Rightarrow> int option \<Rightarrow> world
   \<Rightarrow> (error + order) \<times> world" where
  "accept_order env oid mid acceptance_note est_delivery w =
     (if oid = [] \<or> mid = [] then (Inl (ValueError ''order_id and merchant_id required''), w)
      else (case db_get_order oid w of
              Inl e \<Rightarrow> (Inl e, w)
            | Inr None \<Rightarrow> (Inl (ValueError (''Order '' @ oid @ '' not found'')), w)
            | Inr (Some ord) \<Rightarrow>
                if merchant_id ord \<noteq> mid
                then (Inl (ValueError ''Unauthorized: Order does not belong to merchant''), w)
                else if status ord \<noteq> PENDING
                then (Inl (ValueError (''Order '' @ oid @ '' is not in pending state'')), w)
                else (case accept_expiry_check oid ord w of
                        (Inl e, w0) \<Rightarrow> (Inl e, w0)
                      | (Inr _, w0) \<Rightarrow>
                          if (case est_delivery of None \<Rightarrow> False | Some t \<Rightarrow> t \<le> clock w0)
                          then (Inl (ValueError ''Estimated delivery must be in the future''), w0)
                          else (case batch_deduct_stock mid (items ord) ''merchant'' w0 of
                                  ((False, deduction_results), w1) \<Rightarrow>
                                    (Inl (ValueError ''Inventory deduction failed''), w1)
                                | ((True, deduction_results), w1) \<Rightarrow>
                                    accept_order_commit oid mid acceptance_note est_delivery
                                      ord (env w1)))))"

subsection \<open>Admin approval\<close>

definition approve_valid_statuses :: "string list" where
  "approve_valid_statuses = [PENDING, REVIEW]"

definition approve_order_commit ::
  "string \<Rightarrow> string \<Rightarrow> string \<Rightarrow> string option \<Rightarrow> order \<Rightarrow> world
   \<Rightarrow> (error + order option) \<times> world" where
  "approve_order_commit oid mid admin_user note ord w =
     (case db_get_order oid w of
        Inl e \<Rightarrow> (Inl e, w)
      | Inr None \<Rightarrow> (Inl (AttributeError ''NoneType object has no attribute get''), w)
      | Inr (Some current_order_state) \<Rightarrow>
          if status current_order_state \<notin> set approve_valid_statuses
          then (case rollback_args (items ord) of
                  Inl e \<Rightarrow> (Inl e, w)
                | Inr args \<Rightarrow>
                    (Inl (ValueError ''Order state changed mid-process. Inventory rolled back.''),
                     snd (return_all mid args ''admin_approve_race_condition_rollback''
                            ''admin'' w)))
          else (case update_order oid
                       (\<lambda>doc. doc\<lparr>status := ACCEPTED,
                                   confirmed_at := Some (clock w),
                                   inventory_deducted := True,
                                   approved_by_admin := Some admin_user,
                                   timeline := timeline doc @
                                     [\<lparr>tl_status = ACCEPTED, tl_timestamp = clock w,
                                       tl_note = note_or note ''Approved by admin'',
                                       tl_actor = admin_user\<rparr>]\<rparr>) w of
                  (Inl e, w1) \<Rightarrow>
                    (case rollback_args (items ord) of
                       Inl e' \<Rightarrow> (Inl e', w1)
                     | Inr args \<Rightarrow>
                         (Inl (RuntimeError
                                 ''Failed to update order status. Inventory rollback attempted.''),
                          snd (return_all mid args
                                 ''admin_approve_final_update_failed_rollback'' ''admin'' w1)))
                | (Inr _, w1) \<Rightarrow>
                    (case db_get_order oid w1 of
                       Inl e \<Rightarrow> (Inl e, w1)
                     | Inr updated_order \<Rightarrow> (Inr updated_order, w1))))"

text \<open>
  \<^verbatim>\<open>approve_order_admin\<close>: the same protocol from \<^verbatim>\<open>PENDING\<close> or \<^verbatim>\<open>REVIEW\<close>, with the
  merchant taken from the order and the admin as actor; \<open>env\<close> as in \<open>accept_order\<close>.
\<close>

definition approve_order_admin ::
  "(world \<Rightarrow> world) \<Rightarrow> string \<Rightarrow> string \<Rightarrow> string option \<Rightarrow> world
   \<Rightarrow> (error + order option) \<times> world" where
  "approve_order_admin env oid admin_user note w =
     (if oid = [] \<or> admin_user = [] then (Inl (ValueError ''order_id and admin_user required''), w)
      else (case db_get_order oid w of
              Inl e \<Rightarrow> (Inl e, w)
            | Inr None \<Rightarrow> (Inl (ValueError (''Order '' @ oid @ '' not found'')), w)
            | Inr (Some ord) \<Rightarrow>
                if merchant_id ord = []
                then (Inl (ValueError ''Order missing merchant_id, cannot approve.''), w)
                else if status ord \<notin> set approve_valid_statuses
                then (Inl (ValueError (''Order '' @ oid @ '' cannot be approved'')), w)
                else (case batch_deduct_stock (merchant_id ord) (items ord) ''admin'' w of
                        ((False, deduction_results), w1) \<Rightarrow>
                          (Inl (ValueError ''Inventory deduction failed''), w1)
                      | ((True, deduction_results), w1) \<Rightarrow>
                          approve_order_commit oid (merchant_id ord) admin_user note ord
                            (env w1))))"

subsection \<open>Cancellation\<close>

text \<open>
  The test \<^verbatim>\<open>any(isinstance(r, Exception) or not r.get("success") for r in results if
  not isinstance(r, Exception))\<close> of \<^verbatim>\<open>cancel_order\<close>: exceptions are filtered out, and the
  first result that is not an exception is a boolean, on which \<^verbatim>\<open>r.get\<close> raises
  AttributeError.
\<close>

fun any_failed :: "(error + bool) list \<Rightarrow> error + bool" where
  "any_failed [] = Inr False"
| "any_failed (Inl e # rs) = any_failed rs"
| "any_failed (Inr b # rs) = Inl (AttributeError ''bool object has no attribute get'')"

text \<open>
  The \<^verbatim>\<open>try\<close> block of \<^verbatim>\<open>cancel_order\<close> that returns the stock; the result is the
  flag \<^verbatim>\<open>inventory_returned\<close>. Every exception inside it is caught and logged.
\<close>

definition return_inventory :: "order \<Rightarrow> string \<Rightarrow> world \<Rightarrow> bool \<times> world" where
  "return_inventory ord cancelled_by_v w =
     (case rollback_args (items ord) of
        Inl e \<Rightarrow> (False, w)
      | Inr args \<Rightarrow>
          (case return_all (merchant_id ord) args ''order_cancellation_rollback''
                  cancelled_by_v w of
             (results, w1) \<Rightarrow>
               (case any_failed results of
                  Inl e \<Rightarrow> (False, w1)
                | Inr True \<Rightarrow> (False, w1)
                | Inr False \<Rightarrow> (True, w1))))"

definition cancel_order ::
  "string \<Rightarrow> string \<Rightarrow> string \<Rightarrow> world \<Rightarrow> (error + order) \<times> world" where
  "cancel_order oid cancellation_reason_v cancelled_by_v w =
     (if oid = [] \<or> cancellation_reason_v = []
      then (Inl (ValueError ''order_id and cancellation_reason required''), w)
      else (case db_get_order oid w of
              Inl e \<Rightarrow> (Inl e, w)
            | Inr None \<Rightarrow> (Inl (ValueError (''Order '' @ oid @ '' not found'')), w)
            | Inr (Some ord) \<Rightarrow>
                if status ord \<in> set [COMPLETED, CANCELLED, EXPIRED]
                then (Inl (ValueError (''Order '' @ oid @ '' cannot be cancelled'')), w)
                else (case (if inventory_deducted ord
                            then return_inventory ord cancelled_by_v w
                            else (False, w)) of
                        (inventory_returned, w1) \<Rightarrow>
                          (case update_order oid
                                  (\<lambda>doc. doc\<lparr>status := CANCELLED,
                                              cancellation_reason := Some cancellation_reason_v,
                                              cancelled_by := Some cancelled_by_v,
                                              inventory_deducted :=
                                                (if inventory_returned then False
                                                 else inventory_deducted ord),
                                              timeline := timeline doc @
                                                [\<lparr>tl_status = CANCELLED,
                                                  tl_timestamp = clock w1,
                                                  tl_note = cancellation_reason_v,
                                                  tl_actor = cancelled_by_v\<rparr>]\<rparr>) w1 of
                             (Inl e, w2) \<Rightarrow> (Inl e, w2)
                           | (Inr _, w2) \<Rightarrow>
                               (case db_get_order oid w2 of
                                  Inl e \<Rightarrow> (Inl e, w2)
                                | Inr None \<Rightarrow> (Inr ord, w2)
                                | Inr (Some updated_order) \<Rightarrow> (Inr updated_order, w2))))))"

section \<open>Notification gateway (integrations.py)\<close>





section \<open>Expiry and Reminder Scheduler (remainder_system.py)\<close>


















section \<open>Vocabulary of the properties\<close>

text \<open>
  The definitions of this section are not code of the repository: they name what the
  properties below talk about.
\<close>

subsection \<open>The stock that the engine reads and writes\<close>

type_synonym stock_map = "string \<times> string \<Rightarrow> product option"

text \<open>
  \<^verbatim>\<open>float(product.get("stock_qty", 0))\<close> of the document under a key, when there is a
  document and the conversion does not raise.
\<close>

definition stock_at :: "stock_map \<Rightarrow> string \<times> string \<Rightarrow> pyfloat option" where
  "stock_at P k =
     (case P k of
        None \<Rightarrow> None
      | Some pdoc \<Rightarrow>
          (case py_float (stock_qty pdoc) (Finite 0) of Inl e \<Rightarrow> None | Inr c \<Rightarrow> Some c))"

text \<open>Every numeric quantity of the store satisfies \<^verbatim>\<open>quantity >= 0\<close>.\<close>

definition quantities_nonneg :: "world \<Rightarrow> bool" where
  "quantities_nonneg w = (\<forall>k c. stock_at (products w) k = Some c \<longrightarrow> fle (Finite 0) c)"

text \<open>\<^verbatim>\<open>math.isfinite\<close>: neither NaN nor an infinity.\<close>

definition isfinite :: "pyfloat \<Rightarrow> bool" where
  "isfinite v = (case v of Finite r \<Rightarrow> True | _ \<Rightarrow> False)"

text \<open>A quantity field that \<^verbatim>\<open>float\<close> rejects or turns into a finite number.\<close>

definition finite_quantity :: "json_num \<Rightarrow> bool" where
  "finite_quantity j = (case py_float j (Finite 0) of Inl e \<Rightarrow> True | Inr v \<Rightarrow> isfinite v)"

text \<open>An engine operation whose numeric arguments are finite.\<close>

fun finite_op :: "engine_op \<Rightarrow> bool" where
  "finite_op (UpdateQuantity m p d r role) = isfinite d"
| "finite_op (DeductStock m p q role) = isfinite q"
| "finite_op (ReturnStock m p q role) = isfinite q"
| "finite_op (BatchDeductStock m its role) = list_all (\<lambda>it. finite_quantity (quantity it)) its"
| "finite_op (AdjustStockAdmin m p v admin reason) = isfinite v"

text \<open>
  What a write of \<^verbatim>\<open>update_quantity\<close> with change \<open>x\<close> does to the products: nothing for a
  zero change, a missing product or a quantity that is not numeric; otherwise the quantity
  becomes \<^verbatim>\<open>max(current + x, 0.0)\<close>.
\<close>

definition adjust :: "stock_map \<Rightarrow> string \<times> string \<Rightarrow> pyfloat \<Rightarrow> stock_map" where
  "adjust P k x =
     (if feq x (Finite 0) then P
      else (case stock_at P k of
              None \<Rightarrow> P
            | Some c \<Rightarrow>
                P(k \<mapsto> (the (P k))\<lparr>stock_qty := JFloat (py_max (fadd c x) (Finite 0))\<rparr>)))"

definition adjust_all :: "((string \<times> string) \<times> pyfloat) list \<Rightarrow> stock_map \<Rightarrow> stock_map" where
  "adjust_all kxs P = fold (\<lambda>kx Q. adjust Q (fst kx) (snd kx)) kxs P"

text \<open>The quantity under one key after a list of such writes, from the quantity before.\<close>

definition settle :: "((string \<times> string) \<times> pyfloat) list \<Rightarrow> string \<times> string \<Rightarrow> pyfloat \<Rightarrow> pyfloat" where
  "settle kxs k c =
     fold (\<lambda>kx v. if fst kx = k \<and> \<not> feq (snd kx) (Finite 0)
                   then py_max (fadd v (snd kx)) (Finite 0) else v) kxs c"

text \<open>
  What the Inventory Engine never touches: everything but the products and the lock
  registry. The movement log is among the untouched (see \<open>await_get_collection\<close>).
\<close>

definition engine_frame :: "world \<Rightarrow> world \<Rightarrow> bool" where
  "engine_frame w w' =
     (clock w' = clock w \<and> db_initialized w' = db_initialized w
      \<and> products_write w' = products_write w
      \<and> stock_movements w' = stock_movements w
      \<and> orders w' = orders w \<and> orders_write_raises w' = orders_write_raises w
      \<and> merchants w' = merchants w \<and> default_country_code w' = default_country_code w
      \<and> gateway w' = gateway w \<and> outbox w' = outbox w)"

text \<open>The debits of the lines a batch has deducted, and the credits that undo them.\<close>

definition debits :: "string \<Rightarrow> deduction_info list \<Rightarrow> ((string \<times> string) \<times> pyfloat) list" where
  "debits m ds = map (\<lambda>d. ((m, di_product_id d), fneg (di_quantity d))) ds"

definition credits :: "string \<Rightarrow> deduction_info list \<Rightarrow> ((string \<times> string) \<times> pyfloat) list" where
  "credits m ds = map (\<lambda>d. ((m, di_product_id d), di_quantity d)) ds"

subsection \<open>Whole numbers\<close>

text \<open>
  A float that is a whole number between 0 and \<open>2\<^sup>5\<^sup>3\<close>: sums and differences of such
  numbers are computed without rounding as long as they stay in that range.
\<close>

definition whole :: "pyfloat \<Rightarrow> bool" where
  "whole v =
     (case v of
        Finite r \<Rightarrow> r = of_int \<lfloor>r\<rfloor> \<and> 0 \<le> r \<and> r \<le> 9007199254740992
      | _ \<Rightarrow> False)"

definition whole_stock :: "stock_map \<Rightarrow> string \<times> string \<Rightarrow> bool" where
  "whole_stock P k = (case stock_at P k of None \<Rightarrow> False | Some c \<Rightarrow> whole c)"

text \<open>
  No write of the list for key \<open>k\<close> is clamped: from the quantity \<open>c\<close>, every sum stays
  at or above zero (or is NaN).
\<close>

fun no_clamp :: "((string \<times> string) \<times> pyfloat) list \<Rightarrow> string \<times> string \<Rightarrow> pyfloat \<Rightarrow> bool" where
  "no_clamp [] k c = True"
| "no_clamp (kx # rest) k c =
     (if fst kx = k \<and> \<not> feq (snd kx) (Finite 0)
      then \<not> flt (fadd c (snd kx)) (Finite 0) \<and> no_clamp rest k (fadd c (snd kx))
      else no_clamp rest k c)"

subsection \<open>The failing line of a batch\<close>

definition failed_result :: "item \<Rightarrow> reason \<Rightarrow> deduction_result" where
  "failed_result it reason =
     \<lparr>res_product_id = product_id it, res_success = False, res_reason = Some reason\<rparr>"

text \<open>
  A line fails in a state when its quantity is malformed (missing, not numeric, negative)
  or \<^verbatim>\<open>update_quantity\<close> returns \<^verbatim>\<open>False\<close> for its deduction (insufficient stock,
  unknown product).
\<close>

definition line_fails :: "string \<Rightarrow> string \<Rightarrow> item \<Rightarrow> world \<Rightarrow> bool" where
  "line_fails m role it w =
     (case batch_quantity (quantity it) of
        Inl e \<Rightarrow> True
      | Inr q \<Rightarrow>
          \<not> feq q (Finite 0) \<and>
          fst (update_quantity m (product_id it) (fneg q) ''batch_deduction'' role w) = Inr False)"

text \<open>The state after the attempt on the failing line, and the reason reported for it.\<close>

definition failing_line_world :: "string \<Rightarrow> string \<Rightarrow> item \<Rightarrow> world \<Rightarrow> world" where
  "failing_line_world m role it w =
     (case batch_quantity (quantity it) of
        Inl e \<Rightarrow> w
      | Inr q \<Rightarrow> snd (update_quantity m (product_id it) (fneg q) ''batch_deduction'' role w))"

definition failing_line_reason :: "string \<Rightarrow> string \<Rightarrow> item \<Rightarrow> world \<Rightarrow> reason" where
  "failing_line_reason m role it w =
     (case batch_quantity (quantity it) of
        Inl e \<Rightarrow> InvalidItemData (name_of_item it) (str_of_error e)
      | Inr q \<Rightarrow>
          (case get_product_stock m (product_id it) (failing_line_world m role it w) of
             None \<Rightarrow> InsufficientStock (name_of_item it)
           | Some current_stock \<Rightarrow> InsufficientStockHave (name_of_item it) q current_stock))"

subsection \<open>Quantities requested by an order\<close>

text \<open>\<^verbatim>\<open>float(item.get("quantity", 0))\<close>, and zero where that raises.\<close>

definition line_qty :: "item \<Rightarrow> pyfloat" where
  "line_qty it = (case py_float (quantity it) (Finite 0) of Inl e \<Rightarrow> Finite 0 | Inr q \<Rightarrow> q)"

definition line_debits :: "string \<Rightarrow> item list \<Rightarrow> ((string \<times> string) \<times> pyfloat) list" where
  "line_debits m its = map (\<lambda>it. ((m, product_id it), fneg (line_qty it))) its"

definition line_credits :: "string \<Rightarrow> item list \<Rightarrow> ((string \<times> string) \<times> pyfloat) list" where
  "line_credits m its = map (\<lambda>it. ((m, product_id it), line_qty it)) its"

text \<open>
  The quantity of product \<open>p\<close> after every line of it has been added back to \<open>c\<close>, line by
  line; a line of quantity zero adds nothing.
\<close>

definition add_back :: "item list \<Rightarrow> string \<Rightarrow> pyfloat \<Rightarrow> pyfloat" where
  "add_back its p c =
     fold (\<lambda>it v. if product_id it = p \<and> \<not> feq (line_qty it) (Finite 0)
                   then fadd v (line_qty it) else v) its c"

text \<open>The lines of an order carry whole quantities and their products hold whole stocks.\<close>

definition whole_lines :: "string \<Rightarrow> item list \<Rightarrow> world \<Rightarrow> bool" where
  "whole_lines m its w =
     list_all (\<lambda>it. whole (line_qty it) \<and> whole_stock (products w) (m, product_id it)) its"

subsection \<open>Orders after a transition\<close>

text \<open>
  The order is not past its expiry time at the clock of the state: it has none, or a
  readable one that lies ahead.
\<close>

definition not_past_expiry :: "order \<Rightarrow> world \<Rightarrow> bool" where
  "not_past_expiry ord w =
     (case expiry_time ord of TsAbsent \<Rightarrow> True | TsInvalid \<Rightarrow> False | TsAt t \<Rightarrow> clock w < t)"

text \<open>The stored order after the commit of \<^verbatim>\<open>accept_order\<close> at time \<open>now\<close>.\<close>

definition accepted_order :: "int \<Rightarrow> string option \<Rightarrow> order \<Rightarrow> order" where
  "accepted_order now acceptance_note ord =
     ord\<lparr>status := ACCEPTED, confirmed_at := Some now, inventory_deducted := True,
         timeline := timeline ord @
           [\<lparr>tl_status = ACCEPTED, tl_timestamp = now,
             tl_note = note_or acceptance_note ''Order accepted by merchant'',
             tl_actor = ''merchant''\<rparr>],
         updated_at := now\<rparr>"

text \<open>The stored order after \<^verbatim>\<open>expire_order\<close> has expired it at time \<open>now\<close>.\<close>

definition expired_order :: "int \<Rightarrow> order \<Rightarrow> order" where
  "expired_order now ord =
     ord\<lparr>status := EXPIRED, timeline := timeline ord @ [expired_entry now], updated_at := now\<rparr>"

subsection \<open>A status change during the deduction\<close>

text \<open>The state in which the order is read again: after the batch and after \<open>env\<close>.\<close>

definition after_deduction ::
  "(world \<Rightarrow> world) \<Rightarrow> string \<Rightarrow> string \<Rightarrow> order \<Rightarrow> world \<Rightarrow> world" where
  "after_deduction env mid role ord w = env (snd (batch_deduct_stock mid (items ord) role w))"

text \<open>
  The situation of the race: the order was read with a status in \<open>valid\<close>, the batch
  deduction succeeded, and in the state of the re-read the store is healthy, the order has a
  status outside \<open>valid\<close>, and every product of a line with a quantity other than zero is
  still there with a numeric, non-negative quantity.
\<close>

definition deducted_then_changed ::
  "(world \<Rightarrow> world) \<Rightarrow> string \<Rightarrow> string \<Rightarrow> string \<Rightarrow> string list \<Rightarrow> order \<Rightarrow> world \<Rightarrow> bool" where
  "deducted_then_changed env oid mid role valid ord w =
     (db_initialized w \<and> oid \<noteq> [] \<and> mid \<noteq> [] \<and> orders w oid = Some ord
      \<and> merchant_id ord = mid \<and> status ord \<in> set valid
      \<and> fst (fst (batch_deduct_stock mid (items ord) role w)) = True
      \<and> db_initialized (after_deduction env mid role ord w)
      \<and> products_write (after_deduction env mid role ord w) = Applied
      \<and> (case orders (after_deduction env mid role ord w) oid of
            None \<Rightarrow> False
          | Some cur \<Rightarrow> status cur \<notin> set valid)
      \<and> list_all
           (\<lambda>it. feq (line_qty it) (Finite 0) \<or>
                 (case get_product_stock mid (product_id it) (after_deduction env mid role ord w) of
                    None \<Rightarrow> False
                  | Some c \<Rightarrow> fle (Finite 0) c))
           (items ord))"

text \<open>The validation error that both protocols raise when they detect the change.\<close>

definition race_error :: error where
  "race_error = ValueError ''Order state changed mid-process. Inventory rolled back.''"

subsection \<open>Reminder offsets that are due\<close>




section \<open>Example states\<close>

text \<open>A healthy store with one product: merchant M1 holds 10 units of P.\<close>

definition example_world :: world where
  "example_world =
     \<lparr>clock = 1000, db_initialized = True,
      products = [(''M1'', ''P'') \<mapsto> \<lparr>product_name = Some ''Rice'', stock_qty = JFloat (Finite 10)\<rparr>],
      products_write = Applied, stock_movements = [],
      orders = Map.empty, orders_write_raises = False, locks = {},
      merchants = Map.empty, default_country_code = ''91'', gateway = Delivers, outbox = []\<rparr>"

text \<open>The same store when every write to the products collection raises.\<close>

definition raising_world :: world where
  "raising_world = example_world\<lparr>products_write := Raises\<rparr>"

text \<open>Order O1 of merchant M1: 4 units of P, pending, created at 0 with a TTL of 24 hours.\<close>

definition example_order :: order where
  "example_order =
     \<lparr>order_id = ''O1'', merchant_id = ''M1'', customer_phone = ''9123456780'',
      items = [\<lparr>product_id = ''P'', item_name = Some ''Rice'', quantity = JInt 4\<rparr>],
      total_amount = JFloat (Finite 200),
      status = PENDING, inventory_deducted = False,
      timeline = [], created_at = TsAt 0, updated_at = 0, expiry_time = TsAt 86400,
      sent_reminders = [], confirmed_at = None, estimated_delivery = None,
      cancellation_reason = None, cancelled_by = None, approved_by_admin = None\<rparr>"

definition pending_world :: world where
  "pending_world = example_world\<lparr>orders := [''O1'' \<mapsto> example_order]\<rparr>"

text \<open>O1 after its acceptance: P is down to 6 and the order carries the deduction flag.\<close>

definition accepted_world :: world where
  "accepted_world =
     example_world
       \<lparr>products := [(''M1'', ''P'') \<mapsto>
           \<lparr>product_name = Some ''Rice'', stock_qty = JFloat (Finite 6)\<rparr>],
        orders := [''O1'' \<mapsto> example_order\<lparr>status := ACCEPTED, inventory_deducted := True\<rparr>]\<rparr>"

text \<open>O1 stored with the legacy status string.\<close>

definition legacy_world :: world where
  "legacy_world =
     example_world\<lparr>orders := [''O1'' \<mapsto> example_order\<lparr>status := ''pending_confirmation''\<rparr>]\<rparr>"

definition line :: "string \<Rightarrow> int \<Rightarrow> item" where
  "line p q = \<lparr>product_id = p, item_name = None, quantity = JInt q\<rparr>"

text \<open>A second product: 3 units of Q.\<close>

definition two_product_world :: world where
  "two_product_world =
     example_world
       \<lparr>products := (products example_world)
          ((''M1'', ''Q'') \<mapsto> \<lparr>product_name = Some ''Dal'', stock_qty = JFloat (Finite 3)\<rparr>)\<rparr>"

text \<open>Another task that expires O1 while an acceptance is deducting stock.\<close>

definition expiry_wins :: "world \<Rightarrow> world" where
  "expiry_wins w = snd (expire_order ''O1'' w)"

definition fline :: "string \<Rightarrow> pyfloat \<Rightarrow> item" where
  "fline p q = \<lparr>product_id = p, item_name = None, quantity = JFloat q\<rparr>"

text \<open>The store of two products with 0.9 units of P: the float nearest to \<open>9/10\<close>.\<close>

definition fraction_world :: world where
  "fraction_world =
     two_product_world
       \<lparr>products := (products two_product_world)
          ((''M1'', ''P'') \<mapsto>
             \<lparr>product_name = Some ''Rice'', stock_qty = JFloat (round64 (9 / 10))\<rparr>)\<rparr>"

text \<open>P holds \<open>10\<^sup>1\<^sup>6\<close> units and O1 requests one of them.\<close>

definition large_order :: order where
  "large_order =
     example_order\<lparr>items := [\<lparr>product_id = ''P'', item_name = Some ''Rice'', quantity = JInt 1\<rparr>]\<rparr>"

definition large_world :: world where
  "large_world =
     example_world
       \<lparr>products := [(''M1'', ''P'') \<mapsto>
           \<lparr>product_name = Some ''Rice'', stock_qty = JFloat (Finite 10000000000000000)\<rparr>],
        orders := [''O1'' \<mapsto> large_order]\<rparr>"





section \<open>Properties\<close>

subsection \<open>Rounding\<close>

lemma round64_zero [simp]: "round64 0 = Finite 0"
  by (simp add: round64_def)

lemma round64_not_NaN [simp]: "round64 x \<noteq> NaN"
  by (simp add: round64_def)

lemma round_half_even_nonneg: "0 \<le> x \<Longrightarrow> 0 \<le> round_half_even x"
  by (simp add: round_half_even_def)

lemma round_half_even_nonpos: "x \<le> 0 \<Longrightarrow> round_half_even x \<le> 0"
proof -
  assume x: "x \<le> 0"
  show ?thesis
  proof (cases "x = 0")
    case True
    then show ?thesis by (simp add: round_half_even_def)
  next
    case False
    then have "x < 0" using x by simp
    then have "\<lfloor>x\<rfloor> \<le> - 1" by linarith
    then show ?thesis by (simp add: round_half_even_def)
  qed
qed

lemma round_half_even_of_int [simp]: "round_half_even (of_int n) = n"
  by (simp add: round_half_even_def)

lemma powi_two_pos [simp]: "0 < (2::real) powi e"
  by (simp add: power_int_def)

lemma nearest_nonneg: "0 \<le> x \<Longrightarrow> 0 \<le> nearest x"
  using round_half_even_nonneg [of "x / (2::real) powi ulp_exponent x"]
  by (simp add: nearest_def)

lemma nearest_nonpos: "x \<le> 0 \<Longrightarrow> nearest x \<le> 0"
  using round_half_even_nonpos [of "x / (2::real) powi ulp_exponent x"]
  by (simp add: nearest_def divide_nonpos_pos mult_nonpos_nonneg)

lemma round64_nonneg: "0 \<le> x \<Longrightarrow> \<not> flt (round64 x) (Finite 0)"
  using nearest_nonneg [of x] by (simp add: round64_def)

lemma round64_nonpos: "x \<le> 0 \<Longrightarrow> \<not> flt (Finite 0) (round64 x)"
  using nearest_nonpos [of x] by (simp add: round64_def)

lemma nearest_of_int:
  assumes "\<bar>n\<bar> \<le> 9007199254740992" "n \<noteq> 0"
  shows "nearest (of_int n) = of_int n"
proof -
  let ?x = "of_int n :: real"
  have a1: "1 \<le> \<bar>?x\<bar>" using assms(2) by (simp flip: of_int_abs)
  have fl: "\<lfloor>\<bar>?x\<bar>\<rfloor> = \<bar>n\<bar>" by (simp flip: of_int_abs)
  have ex: "exponent_of \<bar>?x\<bar> = bitlen \<bar>n\<bar> - 1"
    using a1 fl by (simp add: exponent_of_def)
  have "\<bar>n\<bar> < 2 ^ 54" using assms(1) by simp
  then have b54: "bitlen \<bar>n\<bar> \<le> 54"
    using bitlen_le_iff_power [of "\<bar>n\<bar>" 54] by simp
  have b0: "0 \<le> bitlen \<bar>n\<bar>" by (rule bitlen_nonneg)
  show ?thesis
  proof (cases "bitlen \<bar>n\<bar> = 54")
    case True
    then have "2 ^ 53 \<le> \<bar>n\<bar>"
      using bitlen_ge_iff_power [of 54 "\<bar>n\<bar>"] by simp
    then have n: "\<bar>n\<bar> = 9007199254740992" using assms(1) by simp
    have u: "ulp_exponent ?x = 1" using ex True by (simp add: ulp_exponent_def)
    from n have "n = 9007199254740992 \<or> n = - 9007199254740992" by linarith
    then show ?thesis
      by (auto simp add: nearest_def u round_half_even_def)
  next
    case False
    then have le: "bitlen \<bar>n\<bar> - 53 \<le> 0" using b54 by simp
    define k where "k = nat (53 - bitlen \<bar>n\<bar>)"
    have u: "ulp_exponent ?x = - int k"
      using ex le b0 by (simp add: ulp_exponent_def k_def)
    have p: "(2::real) powi (- int k) = 1 / 2 ^ k"
      by (simp add: power_int_minus field_simps)
    have d: "?x / (1 / 2 ^ k) = of_int (n * 2 ^ k)" by simp
    have r: "round_half_even (?x / (2::real) powi ulp_exponent ?x) = n * 2 ^ k"
      unfolding u p d by (rule round_half_even_of_int)
    show ?thesis
      unfolding nearest_def r unfolding u p by simp
  qed
qed

lemma round64_of_int:
  assumes "\<bar>n\<bar> \<le> 9007199254740992"
  shows "round64 (of_int n) = Finite (of_int n)"
proof (cases "n = 0")
  case True
  then show ?thesis by simp
next
  case False
  have "\<bar>of_int n :: real\<bar> \<le> 9007199254740992" using assms by (simp flip: of_int_abs)
  also have "\<dots> < huge" by (simp add: huge_def)
  finally have "\<not> huge \<le> \<bar>of_int n :: real\<bar>" by simp
  then show ?thesis
    using False by (simp add: round64_def nearest_of_int [OF assms False])
qed

lemma round64_numeral [simp]:
  "numeral k \<le> (9007199254740992::int) \<Longrightarrow> round64 (numeral k) = Finite (numeral k)"
  using round64_of_int [of "numeral k"] by simp

lemma round64_neg_numeral [simp]:
  "numeral k \<le> (9007199254740992::int) \<Longrightarrow> round64 (- numeral k) = Finite (- numeral k)"
  using round64_of_int [of "- numeral k"] by simp

lemma round64_one [simp]: "round64 1 = Finite 1"
  using round64_of_int [of 1] by simp

lemma round64_minus_one [simp]: "round64 (- 1) = Finite (- 1)"
  using round64_of_int [of "- 1"] by simp

lemmas round64_eval =
  round64_def nearest_def huge_def ulp_exponent_def exponent_of_def round_half_even_def
  compute_bitlen

lemma flt_NaN_right [simp]: "flt a NaN = False"
  by (cases a) simp_all

lemma feq_NaN_right [simp]: "feq a NaN = False"
  by (cases a) simp_all

lemma fadd_NaN_right [simp]: "fadd a NaN = NaN"
  by (cases a) simp_all

lemma flt_irrefl [simp]: "flt a a = False"
  by (cases a) simp_all

lemma tolerance_nonneg: "\<not> flt tolerance (Finite 0)"
  unfolding tolerance_def by (rule round64_nonneg) simp

lemma fsub_self: "fsub v v = Finite 0 \<or> fsub v v = NaN"
  by (cases v) (simp_all add: fsub_def)

lemma verify_written: "\<not> flt tolerance (fabs (fsub v v))"
  using fsub_self [of v] tolerance_nonneg by auto

lemma py_max_not_negative: "\<not> flt (py_max x (Finite 0)) (Finite 0)"
  by (simp add: py_max_def)

lemma py_max_id: "\<not> flt x (Finite 0) \<Longrightarrow> py_max x (Finite 0) = x"
  by (simp add: py_max_def)

lemma py_max_nonneg: "x \<noteq> NaN \<Longrightarrow> fle (Finite 0) (py_max x (Finite 0))"
  by (cases x) (auto simp: py_max_def fle_def)

lemma fadd_not_NaN: "fle (Finite 0) c \<Longrightarrow> isfinite d \<Longrightarrow> fadd c d \<noteq> NaN"
  by (cases c; cases d) (simp_all add: fle_def isfinite_def)

lemma fle_not_flt: "fle (Finite 0) c \<Longrightarrow> \<not> flt c (Finite 0)"
  by (cases c) (auto simp: fle_def)

lemma isfinite_fneg [simp]: "isfinite (fneg v) = isfinite v"
  by (cases v) (simp_all add: isfinite_def)

lemma isfinite_fabs [simp]: "isfinite (fabs v) = isfinite v"
  by (cases v) (simp_all add: isfinite_def)

lemma fadd_nonneg: "\<not> flt c (Finite 0) \<Longrightarrow> \<not> flt q (Finite 0) \<Longrightarrow> \<not> flt (fadd c q) (Finite 0)"
  by (cases c; cases q) (simp_all add: round64_nonneg)

lemma wholeD:
  "whole v \<Longrightarrow> \<exists>n. v = Finite (of_int n) \<and> 0 \<le> n \<and> n \<le> 9007199254740992"
proof (cases v)
  case (Finite r)
  assume "whole v"
  then have r: "r = of_int \<lfloor>r\<rfloor>" "0 \<le> r" "r \<le> 9007199254740992"
    using Finite by (simp_all add: whole_def)
  have "0 \<le> \<lfloor>r\<rfloor>" "\<lfloor>r\<rfloor> \<le> 9007199254740992"
    using r(2,3) by linarith+
  then show ?thesis
    using Finite r(1) by metis
qed (simp_all add: whole_def)

lemma whole_of_int: "0 \<le> n \<Longrightarrow> n \<le> 9007199254740992 \<Longrightarrow> whole (Finite (of_int n))"
  by (simp add: whole_def)

lemma whole_sub:
  assumes "whole (Finite a)" "whole (Finite b)"
  shows "fadd (Finite a) (Finite (- b)) = Finite (a - b)"
proof -
  obtain i where i: "a = of_int i" "0 \<le> i" "i \<le> 9007199254740992"
    using wholeD [OF assms(1)] by auto
  obtain j where j: "b = of_int j" "0 \<le> j" "j \<le> 9007199254740992"
    using wholeD [OF assms(2)] by auto
  have "\<bar>i - j\<bar> \<le> 9007199254740992"
    using i(2,3) j(2,3) by linarith
  then have "round64 (of_int (i - j)) = Finite (of_int (i - j))"
    by (rule round64_of_int)
  then show ?thesis
    by (simp add: i(1) j(1))
qed

lemma whole_diff:
  assumes "whole (Finite a)" "whole (Finite b)" "b \<le> a"
  shows "whole (Finite (a - b))"
proof -
  obtain i where i: "a = of_int i" "0 \<le> i" "i \<le> 9007199254740992"
    using wholeD [OF assms(1)] by auto
  obtain j where j: "b = of_int j" "0 \<le> j" "j \<le> 9007199254740992"
    using wholeD [OF assms(2)] by auto
  have "j \<le> i" using assms(3) i(1) j(1) by simp
  then have "whole (Finite (of_int (i - j)))"
    using i(3) j(2) by (intro whole_of_int) simp_all
  then show ?thesis
    by (simp add: i(1) j(1))
qed

lemma whole_add:
  assumes "whole (Finite a)" "whole (Finite b)" "a + b \<le> 9007199254740992"
  shows "fadd (Finite a) (Finite b) = Finite (a + b)" "whole (Finite (a + b))"
proof -
  obtain i where i: "a = of_int i" "0 \<le> i" "i \<le> 9007199254740992"
    using wholeD [OF assms(1)] by auto
  obtain j where j: "b = of_int j" "0 \<le> j" "j \<le> 9007199254740992"
    using wholeD [OF assms(2)] by auto
  have le: "i + j \<le> 9007199254740992"
    using assms(3) i(1) j(1) by linarith
  then have "\<bar>i + j\<bar> \<le> 9007199254740992"
    using i(2) j(2) by linarith
  then have "round64 (of_int (i + j)) = Finite (of_int (i + j))"
    by (rule round64_of_int)
  then show "fadd (Finite a) (Finite b) = Finite (a + b)"
    by (simp add: i(1) j(1))
  have "whole (Finite (of_int (i + j)))"
    using i(2) j(2) le by (intro whole_of_int) simp_all
  then show "whole (Finite (a + b))"
    by (simp add: i(1) j(1))
qed

subsection \<open>Unfolding the model on concrete states\<close>

lemmas engine_defs =
  update_quantity_def update_quantity_locked_def get_lock_def lock_key_def get_product_def
  db_get_product_def db_update_product_stock_def log_stock_movement_def
  await_get_collection_def get_product_stock_def py_max_def fsub_def

lemmas order_defs =
  db_get_order_def db_update_order_def update_order_def expire_order_def
  valid_pending_statuses_def expired_entry_def
  PENDING_def ACCEPTED_def CANCELLED_def COMPLETED_def EXPIRED_def REVIEW_def

lemmas batch_defs =
  batch_deduct_stock_def rollback_deductions.simps deduct_loop.simps name_of_item_def
  batch_quantity_def


subsection \<open>A zero change\<close>

text \<open>
  Claim C10. \<^verbatim>\<open>update_quantity\<close> with a zero change returns \<^verbatim>\<open>True\<close> at once and leaves
  the whole state as it was: the lock registry gets no new lock, the stored quantities are
  not written and the movement log gets no entry. Hence \<^verbatim>\<open>deduct_stock\<close> and
  \<^verbatim>\<open>return_stock\<close> with quantity zero return \<^verbatim>\<open>True\<close> and change nothing.
\<close>

theorem update_quantity_zero_noop:
  "update_quantity m p (Finite 0) change_reason role w = (Inr True, w)
   \<and> locks (snd (update_quantity m p (Finite 0) change_reason role w)) = locks w
   \<and> products (snd (update_quantity m p (Finite 0) change_reason role w)) = products w
   \<and> stock_movements (snd (update_quantity m p (Finite 0) change_reason role w))
       = stock_movements w
   \<and> deduct_stock m p (Finite 0) role w = (Inr True, w)
   \<and> return_stock m p (Finite 0) role w = (Inr True, w)"
  by (simp add: update_quantity_def deduct_stock_def return_stock_def)

subsection \<open>What a single update does\<close>

lemma get_lock_eq: "get_lock k w = w\<lparr>locks := insert k (locks w)\<rparr>"
  by (simp add: get_lock_def insert_absorb)

lemma log_stock_movement_id [simp]: "log_stock_movement m p n t c old new role w = w"
  by (simp add: log_stock_movement_def await_get_collection_def)

lemma stock_at_SomeD:
  "stock_at P k = Some c \<Longrightarrow>
   \<exists>pdoc. P k = Some pdoc \<and> py_float (stock_qty pdoc) (Finite 0) = Inr c"
  by (auto simp: stock_at_def split: option.splits sum.splits)

lemma stock_at_SomeI:
  "P k = Some pdoc \<Longrightarrow> py_float (stock_qty pdoc) (Finite 0) = Inr c \<Longrightarrow> stock_at P k = Some c"
  by (simp add: stock_at_def)

lemma update_quantity_returns:
  "\<exists>b. fst (update_quantity m p d r role w) = Inr b"
  by (auto simp: update_quantity_def split_beta split: sum.split)

lemma update_quantity_applied:
  assumes "db_initialized w" "products_write w = Applied"
    and "products w (m, p) = Some pdoc" "py_float (stock_qty pdoc) (Finite 0) = Inr c"
    and "\<not> feq d (Finite 0)" "\<not> (flt d (Finite 0) \<and> flt (fadd c d) (Finite 0))"
  shows "update_quantity m p d r role w =
     (Inr True,
      w\<lparr>products := (products w)((m, p) \<mapsto>
           pdoc\<lparr>stock_qty := JFloat (py_max (fadd c d) (Finite 0))\<rparr>),
        locks := insert (lock_key m p) (locks w)\<rparr>)"
  using assms
  by (simp add: update_quantity_def update_quantity_locked_def get_lock_eq get_product_def
        db_get_product_def db_update_product_stock_def Let_def py_max_not_negative
        verify_written)

lemma update_quantity_insufficient:
  assumes "db_initialized w" "products w (m, p) = Some pdoc"
    and "py_float (stock_qty pdoc) (Finite 0) = Inr c"
    and "flt d (Finite 0)" "flt (fadd c d) (Finite 0)"
  shows "update_quantity m p d r role w =
     (Inr False, w\<lparr>locks := insert (lock_key m p) (locks w)\<rparr>)"
proof -
  have "\<not> feq d (Finite 0)"
    using assms(4) by (cases d) auto
  then show ?thesis
    using assms
    by (simp add: update_quantity_def update_quantity_locked_def get_lock_eq get_product_def
          db_get_product_def Let_def)
qed

lemma update_quantity_frame: "engine_frame w (snd (update_quantity m p d r role w))"
  by (simp add: engine_frame_def update_quantity_def update_quantity_locked_def get_lock_def
        get_product_def db_get_product_def db_update_product_stock_def
        Let_def split: option.split sum.split write_outcome.split)

lemma update_quantity_true_iff:
  assumes "db_initialized w" "products_write w = Applied"
  shows "fst (update_quantity m p d r role w) = Inr True \<longleftrightarrow>
           feq d (Finite 0) \<or>
           (\<exists>c. stock_at (products w) (m, p) = Some c
                \<and> \<not> (flt d (Finite 0) \<and> flt (fadd c d) (Finite 0)))"
  using assms
  by (auto simp: update_quantity_def update_quantity_locked_def get_lock_eq get_product_def
        db_get_product_def db_update_product_stock_def Let_def py_max_not_negative
        verify_written stock_at_def split: option.splits sum.splits)

lemma update_quantity_products:
  assumes "products_write w = Applied"
  shows "products (snd (update_quantity m p d r role w)) =
           (if fst (update_quantity m p d r role w) = Inr True
            then adjust (products w) (m, p) d else products w)"
  using assms
  by (auto simp: update_quantity_def update_quantity_locked_def get_lock_eq get_product_def
        db_get_product_def db_update_product_stock_def Let_def py_max_not_negative
        verify_written stock_at_def adjust_def split: option.splits sum.splits)

lemma update_quantity_credit:
  assumes "db_initialized w" "products_write w = Applied" "\<not> flt q (Finite 0)"
  shows "products (snd (update_quantity m p q r role w)) = adjust (products w) (m, p) q"
  using assms
  by (auto simp: update_quantity_def update_quantity_locked_def get_lock_eq get_product_def
        db_get_product_def db_update_product_stock_def Let_def py_max_not_negative
        verify_written stock_at_def adjust_def split: option.splits sum.splits)

text \<open>
  Claim C3 at a failing input, with what the code does instead. \<^verbatim>\<open>update_quantity\<close>
  never appends a movement log entry, whatever its arguments: the entry is built, but the
  collection it should go to is never obtained (see \<open>await_get_collection\<close>), and the
  exception is caught inside \<^verbatim>\<open>_log_stock_movement\<close>. The rest of the contract holds in
  float arithmetic: on a store that applies its writes, for a product whose quantity reads
  as \<open>current\<close> and a change \<open>delta\<close> other than zero, when \<open>delta < 0\<close> and
  \<open>current + delta < 0\<close> the call returns \<^verbatim>\<open>False\<close> and the products are as before;
  otherwise it returns \<^verbatim>\<open>True\<close> and the quantity read afterwards is
  \<^verbatim>\<open>max(current + delta, 0.0)\<close>. With 10 units of P a change of -4 returns \<^verbatim>\<open>True\<close> and
  leaves 6 units, and the movement log is still empty.
\<close>

theorem update_quantity_appends_no_movement:
  "stock_movements (snd (update_quantity m p delta r role w)) = stock_movements w
   \<and> (db_initialized w \<and> products_write w = Applied
        \<and> stock_at (products w) (m, p) = Some current \<and> \<not> feq delta (Finite 0) \<longrightarrow>
          (if flt delta (Finite 0) \<and> flt (fadd current delta) (Finite 0)
           then fst (update_quantity m p delta r role w) = Inr False
              \<and> products (snd (update_quantity m p delta r role w)) = products w
           else fst (update_quantity m p delta r role w) = Inr True
              \<and> stock_at (products (snd (update_quantity m p delta r role w))) (m, p)
                   = Some (py_max (fadd current delta) (Finite 0))))
   \<and> fst (update_quantity ''M1'' ''P'' (Finite (- 4)) ''deduction'' ''merchant'' example_world)
       = Inr True
   \<and> get_product_stock ''M1'' ''P''
        (snd (update_quantity ''M1'' ''P'' (Finite (- 4)) ''deduction'' ''merchant'' example_world))
       = Some (Finite 6)
   \<and> stock_movements
        (snd (update_quantity ''M1'' ''P'' (Finite (- 4)) ''deduction'' ''merchant'' example_world))
       = []"
proof -
  have log: "stock_movements (snd (update_quantity m p delta r role w)) = stock_movements w"
    using update_quantity_frame [of w m p delta r role] by (simp add: engine_frame_def)
  have contract:
    "if flt delta (Finite 0) \<and> flt (fadd current delta) (Finite 0)
     then fst (update_quantity m p delta r role w) = Inr False
        \<and> products (snd (update_quantity m p delta r role w)) = products w
     else fst (update_quantity m p delta r role w) = Inr True
        \<and> stock_at (products (snd (update_quantity m p delta r role w))) (m, p)
             = Some (py_max (fadd current delta) (Finite 0))"
    if h: "db_initialized w" "products_write w = Applied"
      "stock_at (products w) (m, p) = Some current" "\<not> feq delta (Finite 0)"
  proof -
    obtain pdoc where pdoc: "products w (m, p) = Some pdoc"
        "py_float (stock_qty pdoc) (Finite 0) = Inr current"
      using stock_at_SomeD [OF h(3)] by blast
    show ?thesis
    proof (cases "flt delta (Finite 0) \<and> flt (fadd current delta) (Finite 0)")
      case True
      then show ?thesis
        using update_quantity_insufficient [OF h(1) pdoc, of delta r role] by simp
    next
      case False
      then show ?thesis
        using update_quantity_applied [OF h(1,2) pdoc h(4), of r role]
        by (simp add: stock_at_def)
    qed
  qed
  have ex: "fst (update_quantity ''M1'' ''P'' (Finite (- 4)) ''deduction'' ''merchant'' example_world)
       = Inr True"
    "get_product_stock ''M1'' ''P''
        (snd (update_quantity ''M1'' ''P'' (Finite (- 4)) ''deduction'' ''merchant'' example_world))
       = Some (Finite 6)"
    "stock_movements
        (snd (update_quantity ''M1'' ''P'' (Finite (- 4)) ''deduction'' ''merchant'' example_world))
       = []"
    by (simp_all add: example_world_def engine_defs Let_def tolerance_nonneg)
  show ?thesis
    using log contract ex by blast
qed

text \<open>With 10 units of P a change of -11 is refused and writes nothing, the log included.\<close>

theorem update_quantity_appends_no_movement_witness:
  "fst (update_quantity ''M1'' ''P'' (Finite (- 11)) ''deduction'' ''merchant'' example_world)
     = Inr False
   \<and> products (snd (update_quantity ''M1'' ''P'' (Finite (- 11)) ''deduction'' ''merchant''
                      example_world))
     = products example_world
   \<and> stock_movements (snd (update_quantity ''M1'' ''P'' (Finite (- 11)) ''deduction'' ''merchant''
                      example_world))
     = stock_movements example_world"
proof -
  have h: "db_initialized example_world" "products_write example_world = Applied"
    "stock_at (products example_world) (''M1'', ''P'') = Some (Finite 10)"
    "\<not> feq (Finite (- 11)) (Finite 0)"
    "flt (Finite (- 11)) (Finite 0) \<and> flt (fadd (Finite 10) (Finite (- 11))) (Finite 0)"
    by (simp_all add: example_world_def stock_at_def)
  note th = update_quantity_appends_no_movement
      [of "''M1''" "''P''" "Finite (- 11)" "''deduction''" "''merchant''" example_world
          "Finite 10"]
  show ?thesis
    using th h by simp
qed

text \<open>
  Claim C7, amended. \<^verbatim>\<open>update_quantity\<close> never raises: it always returns a boolean. It
  returns \<^verbatim>\<open>False\<close> exactly when the change is not zero and the product is not found, or
  its stored quantity is not numeric, or the stock is insufficient, or the store raises
  during the write (the exception is caught and turned into \<^verbatim>\<open>False\<close>), or the write did
  not land and the read-back differs from the intended value by more than \<open>10\<^sup>-\<^sup>6\<close>.
\<close>

theorem update_quantity_false_cases:
  "(\<exists>b. fst (update_quantity m p d r role w) = Inr b)
   \<and> (fst (update_quantity m p d r role w) = Inr False \<longleftrightarrow>
        \<not> feq d (Finite 0) \<and>
        (case get_product m p w of
           None \<Rightarrow> True
         | Some pdoc \<Rightarrow>
             (case py_float (stock_qty pdoc) (Finite 0) of
                Inl e \<Rightarrow> True
              | Inr c \<Rightarrow>
                  (flt d (Finite 0) \<and> flt (fadd c d) (Finite 0))
                  \<or> products_write w = Raises
                  \<or> (products_write w = Dropped \<and>
                      (case py_float (stock_qty pdoc) (Finite (- 999)) of
                         Inl e \<Rightarrow> True
                       | Inr v \<Rightarrow>
                           flt tolerance (fabs (fsub v (py_max (fadd c d) (Finite 0)))))))))"
proof -
  have a: "\<exists>b. fst (update_quantity m p d r role w) = Inr b"
    by (rule update_quantity_returns)
  have b: "fst (update_quantity m p d r role w) = Inr False \<longleftrightarrow>
        \<not> feq d (Finite 0) \<and>
        (case get_product m p w of
           None \<Rightarrow> True
         | Some pdoc \<Rightarrow>
             (case py_float (stock_qty pdoc) (Finite 0) of
                Inl e \<Rightarrow> True
              | Inr c \<Rightarrow>
                  (flt d (Finite 0) \<and> flt (fadd c d) (Finite 0))
                  \<or> products_write w = Raises
                  \<or> (products_write w = Dropped \<and>
                      (case py_float (stock_qty pdoc) (Finite (- 999)) of
                         Inl e \<Rightarrow> True
                       | Inr v \<Rightarrow>
                           flt tolerance (fabs (fsub v (py_max (fadd c d) (Finite 0))))))))"
    by (cases "products_write w")
       (simp_all add: update_quantity_def update_quantity_locked_def get_lock_eq get_product_def
          db_get_product_def db_update_product_stock_def Let_def py_max_not_negative
          verify_written split: option.split sum.split)
  show ?thesis using a b by blast
qed

text \<open>
  Claim C7 as stated fails when the store raises: the write of the new quantity raises
  inside the body, and \<^verbatim>\<open>update_quantity\<close> returns \<^verbatim>\<open>False\<close> instead of raising.
\<close>

theorem update_quantity_swallows_store_error:
  "fst (db_update_product_stock ''M1'' ''P'' (Finite 6) raising_world)
     = Inl (RuntimeError ''products.update_one failed'')
   \<and> fst (update_quantity_locked ''M1'' ''P'' (Finite (- 4)) ''deduction'' ''merchant''
            (get_lock (lock_key ''M1'' ''P'') raising_world))
     = Inl (RuntimeError ''products.update_one failed'')
   \<and> fst (update_quantity ''M1'' ''P'' (Finite (- 4)) ''deduction'' ''merchant'' raising_world)
     = Inr False"
  by (simp add: update_quantity_def update_quantity_locked_def get_lock_eq get_product_def
        db_get_product_def db_update_product_stock_def Let_def raising_world_def
        example_world_def py_max_def)

subsection \<open>Quantities stay non-negative\<close>

lemma quantities_nonneg_same_products:
  "products w' = products w \<Longrightarrow> quantities_nonneg w' = quantities_nonneg w"
  by (simp add: quantities_nonneg_def)

lemma db_update_product_stock_nonneg:
  assumes "quantities_nonneg w" "fle (Finite 0) v"
  shows "quantities_nonneg (snd (db_update_product_stock m p v w))"
  using assms
  by (auto simp: db_update_product_stock_def quantities_nonneg_def stock_at_def
           split: option.splits write_outcome.splits if_splits sum.splits)

lemma update_quantity_locked_nonneg:
  assumes "quantities_nonneg w" "isfinite d"
  shows "quantities_nonneg (snd (update_quantity_locked m p d r role w))"
proof (cases "get_product m p w")
  case None
  then show ?thesis using assms(1) by (simp add: update_quantity_locked_def)
next
  case (Some pdoc)
  show ?thesis
  proof (cases "py_float (stock_qty pdoc) (Finite 0)")
    case (Inl e)
    then show ?thesis using assms(1) Some by (simp add: update_quantity_locked_def)
  next
    case (Inr c)
    have "stock_at (products w) (m, p) = Some c"
      using Some Inr by (simp add: get_product_def db_get_product_def stock_at_def split: if_splits)
    then have "fle (Finite 0) c"
      using assms(1) by (simp add: quantities_nonneg_def)
    then have "fadd c d \<noteq> NaN"
      using assms(2) by (rule fadd_not_NaN)
    then have "fle (Finite 0) (py_max (fadd c d) (Finite 0))"
      by (rule py_max_nonneg)
    then have "quantities_nonneg
                 (snd (db_update_product_stock m p (py_max (fadd c d) (Finite 0)) w))"
      using db_update_product_stock_nonneg [OF assms(1)] by blast
    then show ?thesis
      using assms(1) Some Inr
      by (simp add: update_quantity_locked_def Let_def split_beta
            split: option.split sum.split)
  qed
qed

lemma update_quantity_nonneg:
  assumes "quantities_nonneg w" "isfinite d"
  shows "quantities_nonneg (snd (update_quantity m p d r role w))"
proof -
  have "quantities_nonneg (get_lock (lock_key m p) w)"
    using assms(1) by (simp add: quantities_nonneg_def get_lock_def)
  then have "quantities_nonneg
               (snd (update_quantity_locked m p d r role (get_lock (lock_key m p) w)))"
    using assms(2) by (rule update_quantity_locked_nonneg)
  then show ?thesis
    using assms(1) by (simp add: update_quantity_def split_beta split: sum.split)
qed

lemma adjust_stock_admin_nonneg:
  assumes "quantities_nonneg w" "isfinite v"
  shows "quantities_nonneg (snd (adjust_stock_admin m p v a r w))"
proof -
  let ?w = "get_lock (lock_key m p) w"
  have q: "quantities_nonneg ?w"
    using assms(1) by (simp add: quantities_nonneg_def get_lock_def)
  have "v \<noteq> NaN"
    using assms(2) by (auto simp: isfinite_def)
  then have "fle (Finite 0) (py_max v (Finite 0))"
    by (rule py_max_nonneg)
  then have "quantities_nonneg (snd (db_update_product_stock m p (py_max v (Finite 0)) ?w))"
    using db_update_product_stock_nonneg [OF q] by blast
  then have "quantities_nonneg (snd (adjust_stock_admin_locked m p v a r ?w))"
    using q
    by (simp add: adjust_stock_admin_locked_def Let_def split_beta
          split: option.split sum.split)
  then show ?thesis
    by (simp add: adjust_stock_admin_def split_beta split: sum.split)
qed

lemma batch_quantity_finite:
  "batch_quantity j = Inr q \<Longrightarrow> finite_quantity j \<Longrightarrow> isfinite q"
  by (cases j) (auto simp: batch_quantity_def finite_quantity_def split: if_splits)

lemma deduct_loop_nonneg:
  assumes "quantities_nonneg w" "list_all (\<lambda>it. finite_quantity (quantity it)) its"
    and "\<forall>d\<in>set ss. isfinite (di_quantity d)"
  shows "quantities_nonneg (snd (snd (snd (deduct_loop m role its rs ss w))))
       \<and> (\<forall>d\<in>set (fst (snd (deduct_loop m role its rs ss w))). isfinite (di_quantity d))"
  using assms
proof (induction its arbitrary: rs ss w)
  case Nil
  then show ?case by simp
next
  case (Cons it rest)
  show ?case
  proof (cases "batch_quantity (quantity it)")
    case (Inl e)
    then show ?thesis using Cons.prems by (simp add: Let_def)
  next
    case (Inr q)
    have fq: "isfinite q"
      using Inr Cons.prems(2) by (auto intro: batch_quantity_finite)
    have rest: "list_all (\<lambda>it. finite_quantity (quantity it)) rest"
      using Cons.prems(2) by simp
    show ?thesis
    proof (cases "feq q (Finite 0)")
      case True
      then show ?thesis
        using Inr Cons.IH [OF Cons.prems(1) rest Cons.prems(3)] by simp
    next
      case False
      obtain r w' where uq:
        "update_quantity m (product_id it) (fneg q) ''batch_deduction'' role w = (r, w')"
        by (cases "update_quantity m (product_id it) (fneg q) ''batch_deduction'' role w")
      have nn: "quantities_nonneg w'"
        using update_quantity_nonneg [OF Cons.prems(1), of "fneg q" m "product_id it"
            "''batch_deduction''" role] fq uq by simp
      show ?thesis
      proof (cases r)
        case (Inl e)
        then show ?thesis using Inr False uq nn Cons.prems(3) by (simp add: Let_def)
      next
        case b: (Inr b)
        show ?thesis
        proof (cases b)
          case True
          have ss: "\<forall>d\<in>set (ss @ [\<lparr>di_product_id = product_id it, di_quantity = q,
                                      di_product_name = name_of_item it\<rparr>]). isfinite (di_quantity d)"
            using Cons.prems(3) fq by simp
          show ?thesis
            using Inr False uq b True Cons.IH [OF nn rest ss] by simp
        next
          case False
          then show ?thesis
            using Inr \<open>\<not> feq q (Finite 0)\<close> uq b nn Cons.prems(3) by (simp add: Let_def)
        qed
      qed
    qed
  qed
qed

lemma rollback_deductions_nonneg:
  assumes "quantities_nonneg w" "\<forall>d\<in>set ds. isfinite (di_quantity d)"
  shows "quantities_nonneg (snd (rollback_deductions m role ds w))"
  using assms
proof (induction ds arbitrary: w)
  case Nil
  then show ?case by simp
next
  case (Cons d ds)
  have "quantities_nonneg (snd (update_quantity m (di_product_id d) (di_quantity d)
          ''batch_deduction_rollback'' role w))"
    using Cons.prems by (simp add: update_quantity_nonneg)
  then show ?case
    using Cons.IH Cons.prems(2) by (simp add: split_beta)
qed

lemma batch_deduct_stock_nonneg:
  assumes "quantities_nonneg w" "list_all (\<lambda>it. finite_quantity (quantity it)) its"
  shows "quantities_nonneg (snd (batch_deduct_stock m its role w))"
proof -
  note l = deduct_loop_nonneg [OF assms, of "[]" m role "[]"]
  have r: "quantities_nonneg
             (snd (rollback_deductions m role (fst (snd (deduct_loop m role its [] [] w)))
                     (snd (snd (snd (deduct_loop m role its [] [] w))))))"
    using l by (intro rollback_deductions_nonneg) simp_all
  show ?thesis
    using assms(1) l r by (simp add: batch_deduct_stock_def Let_def split_beta)
qed

lemma run_op_nonneg:
  "quantities_nonneg w \<Longrightarrow> finite_op x \<Longrightarrow> quantities_nonneg (run_op x w)"
  by (cases x)
     (simp_all add: update_quantity_nonneg deduct_stock_def return_stock_def
        batch_deduct_stock_nonneg adjust_stock_admin_nonneg)

lemma run_ops_nonneg:
  "quantities_nonneg w \<Longrightarrow> list_all finite_op ops \<Longrightarrow> quantities_nonneg (run_ops ops w)"
  by (induction ops arbitrary: w) (simp_all add: run_op_nonneg)

lemma deduct_stock_rejects:
  assumes "db_initialized w" "stock_at (products w) (m, p) = Some c"
    and "q \<noteq> NaN" "\<not> feq q (Finite 0)" "flt (fsub c (fabs q)) (Finite 0)"
  shows "fst (deduct_stock m p q role w) = Inr False
       \<and> products (snd (deduct_stock m p q role w)) = products w"
proof -
  obtain pdoc where pdoc: "products w (m, p) = Some pdoc"
      "py_float (stock_qty pdoc) (Finite 0) = Inr c"
    using stock_at_SomeD [OF assms(2)] by blast
  have d: "deduct_stock m p q role w = update_quantity m p (fneg (fabs q)) ''deduction'' role w"
    using assms(3,4) by (cases q) (auto simp: deduct_stock_def)
  have neg: "flt (fneg (fabs q)) (Finite 0)"
    using assms(3,4) by (cases q) auto
  show ?thesis
    unfolding d
    using update_quantity_insufficient [OF assms(1) pdoc neg] assms(5)
    by (simp add: fsub_def)
qed

lemma adjust_stock_admin_clamps:
  assumes "db_initialized w" "products_write w = Applied"
    and "stock_at (products w) (m, p) = Some c"
  shows "fst (adjust_stock_admin m p v admin reason w) = Inr True
       \<and> stock_at (products (snd (adjust_stock_admin m p v admin reason w))) (m, p)
           = Some (py_max v (Finite 0))"
proof -
  obtain pdoc where pdoc: "products w (m, p) = Some pdoc"
      "py_float (stock_qty pdoc) (Finite 0) = Inr c"
    using stock_at_SomeD [OF assms(3)] by blast
  show ?thesis
    using assms(1,2) pdoc
    by (simp add: adjust_stock_admin_def adjust_stock_admin_locked_def get_lock_eq
          get_product_def db_get_product_def db_update_product_stock_def Let_def
          py_max_not_negative verify_written stock_at_def)
qed

text \<open>
  Claim C2 at a failing input, with what holds apart from it. From a state in which every
  numeric quantity is non-negative, any sequence of \<^verbatim>\<open>update_quantity\<close>,
  \<^verbatim>\<open>deduct_stock\<close>, \<^verbatim>\<open>return_stock\<close>, \<^verbatim>\<open>batch_deduct_stock\<close> and \<^verbatim>\<open>adjust_stock_admin\<close>
  calls whose numeric arguments are finite leads to such a state again, whatever the store
  does with the writes. On a store that applies its writes and for a product whose
  quantity reads as \<open>c\<close>: a change that is accepted stores \<^verbatim>\<open>max(c + d, 0.0)\<close>; a negative
  change with \<open>c + d < 0\<close> is refused and nothing is written; a deduction of more than the
  stock is refused and nothing is written; an admin adjustment to \<open>v\<close> stores
  \<^verbatim>\<open>max(v, 0.0)\<close>. The failing input is a change that is NaN: it passes the zero test, the
  sign tests, the clamp and the read-back check, the call returns \<^verbatim>\<open>True\<close>, and the stored
  quantity is NaN, for which \<^verbatim>\<open>quantity >= 0\<close> is false.
\<close>

theorem quantity_never_negative:
  "(quantities_nonneg w \<and> list_all finite_op ops \<longrightarrow> quantities_nonneg (run_ops ops w))
   \<and> (db_initialized w \<and> products_write w = Applied \<and> stock_at (products w) (m, p) = Some c \<longrightarrow>
         (\<not> feq d (Finite 0) \<and> \<not> (flt d (Finite 0) \<and> flt (fadd c d) (Finite 0)) \<longrightarrow>
            fst (update_quantity m p d r role w) = Inr True
          \<and> stock_at (products (snd (update_quantity m p d r role w))) (m, p)
              = Some (py_max (fadd c d) (Finite 0)))
       \<and> (flt d (Finite 0) \<and> flt (fadd c d) (Finite 0) \<longrightarrow>
            fst (update_quantity m p d r role w) = Inr False
          \<and> products (snd (update_quantity m p d r role w)) = products w)
       \<and> (q \<noteq> NaN \<and> \<not> feq q (Finite 0) \<and> flt (fsub c (fabs q)) (Finite 0) \<longrightarrow>
            fst (deduct_stock m p q role w) = Inr False
          \<and> products (snd (deduct_stock m p q role w)) = products w)
       \<and> fst (adjust_stock_admin m p v admin reason w) = Inr True
       \<and> stock_at (products (snd (adjust_stock_admin m p v admin reason w))) (m, p)
           = Some (py_max v (Finite 0)))
   \<and> quantities_nonneg example_world
   \<and> fst (update_quantity ''M1'' ''P'' NaN ''manual_update'' ''merchant'' example_world) = Inr True
   \<and> get_product_stock ''M1'' ''P''
        (snd (update_quantity ''M1'' ''P'' NaN ''manual_update'' ''merchant'' example_world))
       = Some NaN
   \<and> \<not> fle (Finite 0) NaN
   \<and> \<not> quantities_nonneg
          (snd (update_quantity ''M1'' ''P'' NaN ''manual_update'' ''merchant'' example_world))"
proof -
  have inv: "quantities_nonneg w \<and> list_all finite_op ops \<longrightarrow> quantities_nonneg (run_ops ops w)"
    using run_ops_nonneg by blast
  have ops: "(\<not> feq d (Finite 0) \<and> \<not> (flt d (Finite 0) \<and> flt (fadd c d) (Finite 0)) \<longrightarrow>
            fst (update_quantity m p d r role w) = Inr True
          \<and> stock_at (products (snd (update_quantity m p d r role w))) (m, p)
              = Some (py_max (fadd c d) (Finite 0)))
       \<and> (flt d (Finite 0) \<and> flt (fadd c d) (Finite 0) \<longrightarrow>
            fst (update_quantity m p d r role w) = Inr False
          \<and> products (snd (update_quantity m p d r role w)) = products w)
       \<and> (q \<noteq> NaN \<and> \<not> feq q (Finite 0) \<and> flt (fsub c (fabs q)) (Finite 0) \<longrightarrow>
            fst (deduct_stock m p q role w) = Inr False
          \<and> products (snd (deduct_stock m p q role w)) = products w)
       \<and> fst (adjust_stock_admin m p v admin reason w) = Inr True
       \<and> stock_at (products (snd (adjust_stock_admin m p v admin reason w))) (m, p)
           = Some (py_max v (Finite 0))"
    if h: "db_initialized w" "products_write w = Applied" "stock_at (products w) (m, p) = Some c"
  proof -
    obtain pdoc where pdoc: "products w (m, p) = Some pdoc"
        "py_float (stock_qty pdoc) (Finite 0) = Inr c"
      using stock_at_SomeD [OF h(3)] by blast
    have a: "fst (update_quantity m p d r role w) = Inr True
          \<and> stock_at (products (snd (update_quantity m p d r role w))) (m, p)
              = Some (py_max (fadd c d) (Finite 0))"
      if "\<not> feq d (Finite 0)" "\<not> (flt d (Finite 0) \<and> flt (fadd c d) (Finite 0))"
      using update_quantity_applied [OF h(1,2) pdoc that, of r role]
      by (simp add: stock_at_def)
    have b: "fst (update_quantity m p d r role w) = Inr False
          \<and> products (snd (update_quantity m p d r role w)) = products w"
      if "flt d (Finite 0)" "flt (fadd c d) (Finite 0)"
      using update_quantity_insufficient [OF h(1) pdoc that, of r role] by simp
    show ?thesis
      using a b deduct_stock_rejects [OF h(1,3), of q role]
        adjust_stock_admin_clamps [OF h, of v admin reason]
      by blast
  qed
  have e0: "quantities_nonneg example_world"
    by (auto simp: quantities_nonneg_def example_world_def stock_at_def fle_def
          split: if_splits)
  have e1: "fst (update_quantity ''M1'' ''P'' NaN ''manual_update'' ''merchant'' example_world)
              = Inr True"
    "get_product_stock ''M1'' ''P''
        (snd (update_quantity ''M1'' ''P'' NaN ''manual_update'' ''merchant'' example_world))
       = Some NaN"
    by (simp_all add: example_world_def engine_defs Let_def)
  have e2: "\<not> fle (Finite 0) NaN"
    by (simp add: fle_def)
  have "stock_at
          (products (snd (update_quantity ''M1'' ''P'' NaN ''manual_update'' ''merchant''
                            example_world))) (''M1'', ''P'') = Some NaN"
    by (simp add: example_world_def engine_defs Let_def stock_at_def)
  then have e3: "\<not> quantities_nonneg
          (snd (update_quantity ''M1'' ''P'' NaN ''manual_update'' ''merchant'' example_world))"
    using e2 unfolding quantities_nonneg_def by blast
  show ?thesis
    using inv ops e0 e1 e2 e3 by blast
qed

text \<open>
  From 10 units of P: deduct 4, change by -20 (refused), adjust to -3 (stored as 0),
  return 2; every quantity on the way is non-negative, and the adjustment alone stores 0.
\<close>

theorem quantity_never_negative_witness:
  "quantities_nonneg
     (run_ops [DeductStock ''M1'' ''P'' (Finite 4) ''merchant'',
               UpdateQuantity ''M1'' ''P'' (Finite (- 20)) ''order_update'' ''merchant'',
               AdjustStockAdmin ''M1'' ''P'' (Finite (- 3)) ''root'' ''manual_adjustment'',
               ReturnStock ''M1'' ''P'' (Finite 2) ''merchant'']
        example_world)
   \<and> fst (update_quantity ''M1'' ''P'' (Finite (- 20)) ''order_update'' ''merchant'' example_world)
       = Inr False
   \<and> stock_at (products (snd (adjust_stock_admin ''M1'' ''P'' (Finite (- 3)) ''root''
                                  ''manual_adjustment'' example_world))) (''M1'', ''P'')
       = Some (Finite 0)"
proof -
  let ?ops = "[DeductStock ''M1'' ''P'' (Finite 4) ''merchant'',
               UpdateQuantity ''M1'' ''P'' (Finite (- 20)) ''order_update'' ''merchant'',
               AdjustStockAdmin ''M1'' ''P'' (Finite (- 3)) ''root'' ''manual_adjustment'',
               ReturnStock ''M1'' ''P'' (Finite 2) ''merchant'']"
  note th = quantity_never_negative
      [of example_world ?ops "''M1''" "''P''" "Finite 10" "Finite (- 20)" "''order_update''"
          "''merchant''" "Finite 4" "Finite (- 3)" "''root''" "''manual_adjustment''"]
  have f: "list_all finite_op ?ops"
    by (simp add: isfinite_def)
  have h: "db_initialized example_world" "products_write example_world = Applied"
    "stock_at (products example_world) (''M1'', ''P'') = Some (Finite 10)"
    by (simp_all add: example_world_def stock_at_def)
  have n: "flt (Finite (- 20)) (Finite 0) \<and> flt (fadd (Finite 10) (Finite (- 20))) (Finite 0)"
    by simp
  have m: "py_max (Finite (- 3)) (Finite 0) = Finite 0"
    by (simp add: py_max_def)
  have c1: "quantities_nonneg (run_ops ?ops example_world)"
    using th f by blast
  have c2: "fst (update_quantity ''M1'' ''P'' (Finite (- 20)) ''order_update'' ''merchant''
                   example_world) = Inr False"
    using th h n by blast
  have c3: "stock_at (products (snd (adjust_stock_admin ''M1'' ''P'' (Finite (- 3)) ''root''
                                  ''manual_adjustment'' example_world))) (''M1'', ''P'')
       = Some (py_max (Finite (- 3)) (Finite 0))"
    using th h by blast
  show ?thesis
    using c1 c2 c3 unfolding m by (intro conjI)
qed

subsection \<open>Lists of stock adjustments\<close>

lemma stock_at_adjust:
  "stock_at (adjust P k x) k' =
     (if k' = k \<and> \<not> feq x (Finite 0)
      then map_option (\<lambda>c. py_max (fadd c x) (Finite 0)) (stock_at P k)
      else stock_at P k')"
  by (auto simp: adjust_def stock_at_def split: option.splits sum.splits)

lemma adjust_all_Nil [simp]: "adjust_all [] P = P"
  by (simp add: adjust_all_def)

lemma adjust_all_Cons [simp]:
  "adjust_all (kx # kxs) P = adjust_all kxs (adjust P (fst kx) (snd kx))"
  by (simp add: adjust_all_def)

lemma adjust_all_append [simp]: "adjust_all (xs @ ys) P = adjust_all ys (adjust_all xs P)"
  by (simp add: adjust_all_def)

lemma settle_Nil [simp]: "settle [] k c = c"
  by (simp add: settle_def)

lemma settle_Cons [simp]:
  "settle (kx # kxs) k c =
     settle kxs k (if fst kx = k \<and> \<not> feq (snd kx) (Finite 0)
                   then py_max (fadd c (snd kx)) (Finite 0) else c)"
  by (simp add: settle_def)

lemma settle_append [simp]: "settle (xs @ ys) k c = settle ys k (settle xs k c)"
  by (simp add: settle_def)

lemma settle_untouched: "\<forall>kx\<in>set kxs. fst kx \<noteq> k \<Longrightarrow> settle kxs k c = c"
  by (induction kxs arbitrary: c) simp_all

lemma stock_at_adjust_all:
  "stock_at (adjust_all kxs P) k = map_option (settle kxs k) (stock_at P k)"
proof (induction kxs arbitrary: P)
  case Nil
  show ?case by (simp add: option.map_ident)
next
  case (Cons kx kxs)
  show ?case
    by (cases "stock_at P k")
       (auto simp: Cons.IH stock_at_adjust [of P "fst kx" "snd kx" k])
qed

lemma adjust_untouched: "k \<noteq> k' \<Longrightarrow> adjust P k x k' = P k'"
  by (simp add: adjust_def split: option.split)

lemma adjust_all_untouched: "\<forall>kx\<in>set kxs. fst kx \<noteq> k \<Longrightarrow> adjust_all kxs P k = P k"
  by (induction kxs arbitrary: P) (simp_all add: adjust_untouched)

lemma engine_frame_refl [simp]: "engine_frame w w"
  by (simp add: engine_frame_def)

lemma engine_frame_trans: "engine_frame w w1 \<Longrightarrow> engine_frame w1 w2 \<Longrightarrow> engine_frame w w2"
  by (simp add: engine_frame_def)

lemma update_quantity_false_products:
  assumes "products_write w = Applied"
    and "fst (update_quantity m p d r role w) = Inr False"
  shows "products (snd (update_quantity m p d r role w)) = products w"
  using update_quantity_products [OF assms(1), of m p d r role] assms(2) by simp

text \<open>Whole quantities are taken out and put back without rounding.\<close>

lemma whole_round_trip:
  assumes "no_clamp (debits m ds) k (Finite r)" "whole (Finite r)"
    and "\<forall>d\<in>set ds. (m, di_product_id d) = k \<longrightarrow> whole (di_quantity d)"
  shows "\<exists>s. 0 \<le> s \<and> s \<le> r \<and> whole (Finite (r - s))
           \<and> settle (debits m ds) k (Finite r) = Finite (r - s)
           \<and> (\<forall>b. whole (Finite b) \<and> b + s \<le> 9007199254740992 \<longrightarrow>
                  settle (credits m ds) k (Finite b) = Finite (b + s))"
  using assms
proof (induction ds arbitrary: r)
  case Nil
  then have "0 \<le> r" by (simp add: whole_def)
  then show ?case using Nil by (intro exI [of _ 0]) (simp add: debits_def credits_def)
next
  case (Cons d ds)
  have rest: "\<forall>d\<in>set ds. (m, di_product_id d) = k \<longrightarrow> whole (di_quantity d)"
    using Cons.prems(3) by simp
  show ?case
  proof (cases "(m, di_product_id d) = k \<and> \<not> feq (di_quantity d) (Finite 0)")
    case False
    have z: "(m, di_product_id d) = k \<longrightarrow> feq (fneg (di_quantity d)) (Finite 0)"
      using False by (cases "di_quantity d") auto
    have nc: "no_clamp (debits m ds) k (Finite r)"
      using Cons.prems(1) False z by (auto simp: debits_def)
    from Cons.IH [OF nc Cons.prems(2) rest] obtain s where
      s: "0 \<le> s" "s \<le> r" "whole (Finite (r - s))"
        "settle (debits m ds) k (Finite r) = Finite (r - s)"
        "\<forall>b. whole (Finite b) \<and> b + s \<le> 9007199254740992 \<longrightarrow>
             settle (credits m ds) k (Finite b) = Finite (b + s)"
      by blast
    show ?thesis
      using s False z by (intro exI [of _ s]) (auto simp: debits_def credits_def)
  next
    case True
    then have wq: "whole (di_quantity d)"
      using Cons.prems(3) by simp
    then obtain q where q: "di_quantity d = Finite q"
      by (cases "di_quantity d") (simp_all add: whole_def)
    have q0: "0 \<le> q" using wq q by (simp add: whole_def)
    have nz: "\<not> feq (Finite (- q)) (Finite 0)"
      using True q by simp
    have sub: "fadd (Finite r) (Finite (- q)) = Finite (r - q)"
      using whole_sub [OF Cons.prems(2)] wq q by simp
    have nc: "\<not> flt (Finite (r - q)) (Finite 0)" "no_clamp (debits m ds) k (Finite (r - q))"
      using Cons.prems(1) True q nz sub by (simp_all add: debits_def)
    then have le: "q \<le> r" by simp
    have w': "whole (Finite (r - q))"
      using whole_diff [OF Cons.prems(2) _ le] wq q by simp
    from Cons.IH [OF nc(2) w' rest] obtain s where
      s: "0 \<le> s" "s \<le> r - q" "whole (Finite (r - q - s))"
        "settle (debits m ds) k (Finite (r - q)) = Finite (r - q - s)"
        "\<forall>b. whole (Finite b) \<and> b + s \<le> 9007199254740992 \<longrightarrow>
             settle (credits m ds) k (Finite b) = Finite (b + s)"
      by blast
    have deb: "settle (debits m (d # ds)) k (Finite r) = Finite (r - (q + s))"
      using True q nz sub nc(1) s(4) by (simp add: debits_def py_max_def algebra_simps)
    have wh: "whole (Finite (r - (q + s)))"
      using s(3) by (simp add: algebra_simps)
    have cre: "settle (credits m (d # ds)) k (Finite b) = Finite (b + (q + s))"
      if b: "whole (Finite b)" "b + (q + s) \<le> 9007199254740992" for b
    proof -
      have bq: "b + q \<le> 9007199254740992" using b(2) s(1) by simp
      have wq': "whole (Finite q)" using wq q by simp
      note a = whole_add [OF b(1) wq' bq]
      have "0 \<le> b + q" using a(2) by (simp add: whole_def)
      then have m: "py_max (Finite (b + q)) (Finite 0) = Finite (b + q)"
        by (simp add: py_max_def)
      have "settle (credits m ds) k (Finite (b + q)) = Finite (b + q + s)"
        using s(5) a(2) b(2) by (simp add: algebra_simps)
      then show ?thesis
        using True q a(1) m by (simp add: credits_def algebra_simps)
    qed
    show ?thesis
      using s(1,2) q0 deb cre wh by (intro exI [of _ "q + s"]) auto
  qed
qed

lemma whole_restored:
  assumes "no_clamp (debits m ds) k c" "whole c"
    and "\<forall>d\<in>set ds. (m, di_product_id d) = k \<longrightarrow> whole (di_quantity d)"
  shows "settle (debits m ds @ credits m ds) k c = c"
proof -
  obtain r where r: "c = Finite r"
    using assms(2) by (cases c) (simp_all add: whole_def)
  from whole_round_trip [OF assms(1) [unfolded r] assms(2) [unfolded r] assms(3)] obtain s where
    s: "0 \<le> s" "s \<le> r" "whole (Finite (r - s))"
      "settle (debits m ds) k (Finite r) = Finite (r - s)"
      "\<forall>b. whole (Finite b) \<and> b + s \<le> 9007199254740992 \<longrightarrow>
           settle (credits m ds) k (Finite b) = Finite (b + s)"
    by blast
  have "r \<le> 9007199254740992"
    using assms(2) r by (simp add: whole_def)
  then have "settle (credits m ds) k (Finite (r - s)) = Finite (r - s + s)"
    using s(3) by (intro s(5) [rule_format]) simp
  then show ?thesis
    using s(4) r by simp
qed

subsection \<open>Batch deduction and its rollback\<close>

lemma deduct_loop_frame:
  "engine_frame w (snd (snd (snd (deduct_loop m role its rs ss w))))"
proof (induction its arbitrary: rs ss w)
  case Nil
  show ?case by simp
next
  case (Cons it rest)
  have uq: "engine_frame w (snd (update_quantity m (product_id it) d ''batch_deduction'' role w))"
    for d
    by (rule update_quantity_frame)
  show ?case
    using uq Cons.IH engine_frame_trans
    by (simp add: Let_def split_beta split: sum.split bool.split) blast
qed

lemma batch_quantity_not_negative:
  "batch_quantity j = Inr q \<Longrightarrow> \<not> flt q (Finite 0)"
  by (cases j) (auto simp: batch_quantity_def split: if_splits)

lemma debit_not_negative:
  assumes "\<not> flt q (Finite 0)" "\<not> feq q (Finite 0)"
    and "\<not> (flt (fneg q) (Finite 0) \<and> flt (fadd c (fneg q)) (Finite 0))"
  shows "\<not> flt (fadd c (fneg q)) (Finite 0)"
  using assms by (cases q; cases c) auto

lemma feq_fneg_zero [simp]: "feq (fneg q) (Finite 0) = feq q (Finite 0)"
  by (cases q) auto

lemma deduct_loop_effect:
  assumes "db_initialized w" "products_write w = Applied"
    and "deduct_loop m role its rs ss w = (rs', ss', fs, w1)"
  shows "\<exists>new. ss' = ss @ new
       \<and> products w1 = adjust_all (debits m new) (products w)
       \<and> (\<forall>d\<in>set new. \<not> flt (di_quantity d) (Finite 0) \<and> \<not> feq (di_quantity d) (Finite 0))
       \<and> (\<forall>k c. stock_at (products w) k = Some c \<longrightarrow> no_clamp (debits m new) k c)"
  using assms
proof (induction its arbitrary: rs ss w)
  case Nil
  then show ?case by (simp add: debits_def)
next
  case (Cons it rest)
  show ?case
  proof (cases "batch_quantity (quantity it)")
    case (Inl e)
    then show ?thesis
      using Cons.prems by (auto simp: Let_def debits_def)
  next
    case (Inr q)
    note bq = Inr
    have qn: "\<not> flt q (Finite 0)"
      using Inr by (rule batch_quantity_not_negative)
    show ?thesis
    proof (cases "feq q (Finite 0)")
      case True
      then show ?thesis
        using Cons.prems bq Cons.IH by simp
    next
      case False
      let ?d = "fneg q"
      let ?k = "(m, product_id it)"
      obtain r w' where uq: "update_quantity m (product_id it) ?d ''batch_deduction'' role w = (r, w')"
        by (cases "update_quantity m (product_id it) ?d ''batch_deduction'' role w")
      have fr: "engine_frame w w'"
        using update_quantity_frame [of w m "product_id it" ?d "''batch_deduction''" role] uq
        by simp
      then have ap: "products_write w' = Applied" and ini: "db_initialized w'"
        using Cons.prems(1,2) by (simp_all add: engine_frame_def)
      show ?thesis
      proof (cases r)
        case (Inl e)
        then show ?thesis
          using update_quantity_returns [of m "product_id it" ?d "''batch_deduction''" role w] uq
          by simp
      next
        case (Inr b)
        show ?thesis
        proof (cases b)
          case False
          have "products w' = products w"
            using update_quantity_false_products [OF Cons.prems(2), of m "product_id it" ?d
                "''batch_deduction''" role] uq Inr False by simp
          then show ?thesis
            using Cons.prems(3) bq \<open>\<not> feq q (Finite 0)\<close> uq Inr False
            by (auto simp: Let_def debits_def)
        next
          case True
          have t: "fst (update_quantity m (product_id it) ?d ''batch_deduction'' role w) = Inr True"
            using uq Inr True by simp
          have eff: "products w' = adjust (products w) ?k ?d"
            using update_quantity_products [OF Cons.prems(2), of m "product_id it" ?d
                "''batch_deduction''" role] uq t by simp
          obtain c' where c': "stock_at (products w) ?k = Some c'"
              "\<not> (flt ?d (Finite 0) \<and> flt (fadd c' ?d) (Finite 0))"
            using update_quantity_true_iff [OF Cons.prems(1,2), of m "product_id it" ?d
                "''batch_deduction''" role] t \<open>\<not> feq q (Finite 0)\<close> by auto
          have nneg: "\<not> flt (fadd c' ?d) (Finite 0)"
            using debit_not_negative [OF qn \<open>\<not> feq q (Finite 0)\<close> c'(2)] .
          let ?info = "\<lparr>di_product_id = product_id it, di_quantity = q,
                         di_product_name = name_of_item it\<rparr>"
          have rec: "deduct_loop m role rest
                       (rs @ [\<lparr>res_product_id = product_id it, res_success = True,
                               res_reason = None\<rparr>])
                       (ss @ [?info]) w' = (rs', ss', fs, w1)"
            using Cons.prems(3) bq \<open>\<not> feq q (Finite 0)\<close> uq Inr True by simp
          from Cons.IH [OF ini ap rec] obtain new where
            new: "ss' = (ss @ [?info]) @ new"
              "products w1 = adjust_all (debits m new) (products w')"
              "\<forall>d\<in>set new. \<not> flt (di_quantity d) (Finite 0) \<and> \<not> feq (di_quantity d) (Finite 0)"
              "\<forall>k c. stock_at (products w') k = Some c \<longrightarrow> no_clamp (debits m new) k c"
            by blast
          have nc: "no_clamp (debits m (?info # new)) k c"
            if sc: "stock_at (products w) k = Some c" for k c
          proof (cases "k = ?k")
            case True
            then have cc: "c = c'" using sc c'(1) by simp
            have "stock_at (products w') k = Some (fadd c' ?d)"
              using True c'(1) \<open>\<not> feq q (Finite 0)\<close> nneg
              by (simp add: eff stock_at_adjust py_max_id)
            then have "no_clamp (debits m new) k (fadd c' ?d)"
              using new(4) by blast
            then show ?thesis
              using True cc nneg \<open>\<not> feq q (Finite 0)\<close> by (simp add: debits_def)
          next
            case False
            then have "stock_at (products w') k = Some c"
              using sc by (simp add: eff stock_at_adjust)
            then have "no_clamp (debits m new) k c"
              using new(4) by blast
            then show ?thesis
              using False by (auto simp: debits_def)
          qed
          have c1: "ss' = ss @ (?info # new)"
            using new(1) by simp
          have c2: "products w1 = adjust_all (debits m (?info # new)) (products w)"
            using new(2) eff by (simp add: debits_def)
          have c3: "\<forall>d\<in>set (?info # new).
                      \<not> flt (di_quantity d) (Finite 0) \<and> \<not> feq (di_quantity d) (Finite 0)"
            using new(3) qn \<open>\<not> feq q (Finite 0)\<close> by simp
          have c4: "\<forall>k c. stock_at (products w) k = Some c
                      \<longrightarrow> no_clamp (debits m (?info # new)) k c"
            using nc by blast
          show ?thesis
            using c1 c2 c3 c4 by blast
        qed
      qed
    qed
  qed
qed

lemma rollback_deductions_frame:
  "engine_frame w (snd (rollback_deductions m role ds w))"
proof (induction ds arbitrary: w)
  case Nil
  show ?case by simp
next
  case (Cons d ds)
  show ?case
    using update_quantity_frame [of w m "di_product_id d" "di_quantity d"
        "''batch_deduction_rollback''" role]
      Cons.IH engine_frame_trans
    by (simp add: split_beta)
qed

lemma rollback_deductions_effect:
  assumes "db_initialized w" "products_write w = Applied"
    and "\<forall>d\<in>set ds. \<not> flt (di_quantity d) (Finite 0)"
  shows "products (snd (rollback_deductions m role ds w)) = adjust_all (credits m ds) (products w)"
  using assms
proof (induction ds arbitrary: w)
  case Nil
  show ?case by (simp add: credits_def)
next
  case (Cons d ds)
  let ?u = "update_quantity m (di_product_id d) (di_quantity d) ''batch_deduction_rollback'' role w"
  have q: "\<not> flt (di_quantity d) (Finite 0)"
    using Cons.prems(3) by simp
  have eff: "products (snd ?u) = adjust (products w) (m, di_product_id d) (di_quantity d)"
    using update_quantity_credit [OF Cons.prems(1,2) q] .
  have fr: "engine_frame w (snd ?u)"
    by (rule update_quantity_frame)
  have i: "db_initialized (snd ?u)" and a: "products_write (snd ?u) = Applied"
    using fr Cons.prems(1,2) by (simp_all add: engine_frame_def)
  have rest: "\<forall>d'\<in>set ds. \<not> flt (di_quantity d') (Finite 0)"
    using Cons.prems(3) by simp
  show ?case
    using Cons.IH [OF i a rest] eff by (simp add: split_beta credits_def)
qed

lemma deduct_loop_append:
  "deduct_loop m role (xs @ ys) rs ss w =
     (case deduct_loop m role xs rs ss w of
        (rs1, ss1, fs, w1) \<Rightarrow>
          if fs = [] then deduct_loop m role ys rs1 ss1 w1 else (rs1, ss1, fs, w1))"
proof (induction xs arbitrary: rs ss w)
  case Nil
  show ?case by simp
next
  case (Cons it rest)
  show ?case
  proof (cases "batch_quantity (quantity it)")
    case (Inl e)
    then show ?thesis by (simp add: Let_def)
  next
    case (Inr q)
    show ?thesis
    proof (cases "feq q (Finite 0)")
      case True
      then show ?thesis using Inr by (simp add: Cons.IH)
    next
      case False
      obtain r w' where uq:
        "update_quantity m (product_id it) (fneg q) ''batch_deduction'' role w = (r, w')"
        by (cases "update_quantity m (product_id it) (fneg q) ''batch_deduction'' role w")
      show ?thesis
      proof (cases r)
        case (Inl e)
        then show ?thesis using Inr False uq by (simp add: Let_def)
      next
        case (Inr b)
        then show ?thesis
          using \<open>batch_quantity (quantity it) = Inr q\<close> False uq
          by (cases b) (simp_all add: Cons.IH Let_def)
      qed
    qed
  qed
qed

lemma deduct_loop_all_succeeded:
  assumes "deduct_loop m role its rs ss w = (rs', ss', [], w1)"
    and "\<forall>r\<in>set rs. res_success r"
  shows "(\<forall>r\<in>set rs'. res_success r)
       \<and> map res_product_id rs' = map res_product_id rs @ map product_id its"
  using assms
proof (induction its arbitrary: rs ss w)
  case Nil
  then show ?case by simp
next
  case (Cons it rest)
  show ?case
  proof (cases "batch_quantity (quantity it)")
    case (Inl e)
    then show ?thesis using Cons.prems(1) by (simp add: Let_def)
  next
    case (Inr q)
    show ?thesis
    proof (cases "feq q (Finite 0)")
      case True
      have rec: "deduct_loop m role rest
              (rs @ [\<lparr>res_product_id = product_id it, res_success = True,
                      res_reason = Some ZeroQuantity\<rparr>]) ss w = (rs', ss', [], w1)"
        using Cons.prems(1) Inr True by simp
      show ?thesis
        using Cons.IH [OF rec] Cons.prems(2) by simp
    next
      case False
      obtain r w' where uq:
        "update_quantity m (product_id it) (fneg q) ''batch_deduction'' role w = (r, w')"
        by (cases "update_quantity m (product_id it) (fneg q) ''batch_deduction'' role w")
      show ?thesis
      proof (cases r)
        case (Inl e)
        then show ?thesis using Cons.prems(1) Inr False uq by (simp add: Let_def)
      next
        case b: (Inr b)
        show ?thesis
        proof (cases b)
          case True
          have rec: "deduct_loop m role rest
                  (rs @ [\<lparr>res_product_id = product_id it, res_success = True, res_reason = None\<rparr>])
                  (ss @ [\<lparr>di_product_id = product_id it, di_quantity = q,
                          di_product_name = name_of_item it\<rparr>]) w' = (rs', ss', [], w1)"
            using Cons.prems(1) Inr False uq b True by simp
          show ?thesis
            using Cons.IH [OF rec] Cons.prems(2) by simp
        next
          case False
          then show ?thesis
            using Cons.prems(1) Inr \<open>\<not> feq q (Finite 0)\<close> uq b by (simp add: Let_def)
        qed
      qed
    qed
  qed
qed

lemma deduct_loop_failing_line:
  assumes "line_fails m role bad w1"
  shows "deduct_loop m role (bad # post) rs ss w1
           = (rs @ [failed_result bad (failing_line_reason m role bad w1)], ss,
              [failing_line_reason m role bad w1], failing_line_world m role bad w1)"
proof (cases "batch_quantity (quantity bad)")
  case (Inl e)
  then show ?thesis
    by (simp add: Let_def failed_result_def failing_line_reason_def failing_line_world_def)
next
  case (Inr q)
  obtain r w' where u:
    "update_quantity m (product_id bad) (fneg q) ''batch_deduction'' role w1 = (r, w')"
    by (cases "update_quantity m (product_id bad) (fneg q) ''batch_deduction'' role w1")
  have q: "\<not> feq q (Finite 0)" and r: "r = Inr False"
    using assms Inr u by (simp_all add: line_fails_def)
  show ?thesis
    using Inr q u r
    by (simp add: Let_def failed_result_def failing_line_reason_def failing_line_world_def)
qed

lemma failing_line_world_products:
  assumes "products_write w1 = Applied" "line_fails m role bad w1"
  shows "products (failing_line_world m role bad w1) = products w1"
  using assms update_quantity_false_products [OF assms(1)]
  by (simp add: failing_line_world_def line_fails_def split: sum.splits)

lemma failing_line_world_frame: "engine_frame w1 (failing_line_world m role bad w1)"
  by (simp add: failing_line_world_def update_quantity_frame split: sum.split)

lemma batch_deduct_stock_failing_line:
  assumes "deduct_loop m role pre [] [] w = (rs, ss, [], w1)"
    and "line_fails m role bad w1"
  shows "batch_deduct_stock m (pre @ bad # post) role w =
        ((False,
          rs @ [failed_result bad (failing_line_reason m role bad w1)] @
          map (\<lambda>it. failed_result it BatchStopped)
            (filter (\<lambda>it. product_id it \<notin> set (map product_id (pre @ [bad])))
               (pre @ bad # post))),
         snd (rollback_deductions m role ss (failing_line_world m role bad w1)))"
proof -
  have ids: "map res_product_id rs = map product_id pre"
    using deduct_loop_all_succeeded [OF assms(1)] by simp
  have loop: "deduct_loop m role (pre @ bad # post) [] [] w
             = (rs @ [failed_result bad (failing_line_reason m role bad w1)], ss,
                [failing_line_reason m role bad w1], failing_line_world m role bad w1)"
    by (simp add: deduct_loop_append assms(1) deduct_loop_failing_line [OF assms(2)]
          del: deduct_loop.simps)
  show ?thesis
    unfolding batch_deduct_stock_def loop
    using ids by (simp add: split_beta failed_result_def Let_def)
qed

lemma batch_rollback_products:
  assumes "db_initialized w" "products_write w = Applied"
    and "deduct_loop m role pre [] [] w = (rs, ss, [], w1)"
    and "line_fails m role bad w1"
  shows "products (snd (batch_deduct_stock m (pre @ bad # post) role w))
           = adjust_all (debits m ss @ credits m ss) (products w)
       \<and> (\<forall>k c. stock_at (products w) k = Some c \<longrightarrow> no_clamp (debits m ss) k c)"
proof -
  let ?w1' = "failing_line_world m role bad w1"
  have fr1: "engine_frame w w1"
    using deduct_loop_frame [of w m role pre "[]" "[]"] assms(3) by simp
  then have a1: "products_write w1 = Applied" and i1: "db_initialized w1"
    using assms(1,2) by (simp_all add: engine_frame_def)
  from deduct_loop_effect [OF assms(1,2,3)]
  have eff: "products w1 = adjust_all (debits m ss) (products w)"
    and pos: "\<forall>d\<in>set ss. \<not> flt (di_quantity d) (Finite 0)"
    and nc: "\<forall>k c. stock_at (products w) k = Some c \<longrightarrow> no_clamp (debits m ss) k c"
    by auto
  have p: "products ?w1' = products w1"
    using failing_line_world_products [OF a1 assms(4)] .
  have f: "engine_frame w1 ?w1'"
    by (rule failing_line_world_frame)
  have a1': "products_write ?w1' = Applied" and i1': "db_initialized ?w1'"
    using f a1 i1 by (simp_all add: engine_frame_def)
  have "products (snd (rollback_deductions m role ss ?w1'))
          = adjust_all (debits m ss @ credits m ss) (products w)"
    using rollback_deductions_effect [OF i1' a1' pos] p eff by simp
  then show ?thesis
    using nc by (simp only: batch_deduct_stock_failing_line [OF assms(3,4), of post] snd_conv)
qed

text \<open>
  Claim C4, amended to float arithmetic. On a store that applies its writes, take any item
  list \<open>pre @ bad # post\<close> in which the loop processes the lines \<open>pre\<close> without a failure
  and the line \<open>bad\<close> then fails (malformed quantity, or \<^verbatim>\<open>update_quantity\<close> returns
  \<^verbatim>\<open>False\<close>). Then every line of \<open>pre\<close> has a successful result;
  \<^verbatim>\<open>batch_deduct_stock\<close> returns \<^verbatim>\<open>False\<close> with the results of \<open>pre\<close>, a failed result
  with a reason for \<open>bad\<close>, and a failed result with the reason "Batch stopped" for every
  line whose product was not reached; every failed result carries a reason; and the final
  state is the one reached for \<open>pre @ [bad]\<close> alone: no line after the first failure is
  attempted. The quantity of every product is what the debits of the batch followed by the
  compensating credits make of it, each a float subtraction or addition. When the debited
  quantities and the stocks they were taken from are whole numbers up to \<open>2\<^sup>5\<^sup>3\<close>, that
  is exactly the quantity from before the call, for every product.
\<close>

theorem batch_deduct_stock_rolls_back:
  assumes "db_initialized w" "products_write w = Applied"
    and "deduct_loop m role pre [] [] w = (rs, ss, [], w1)"
    and "line_fails m role bad w1"
  shows "(\<forall>r\<in>set rs. res_success r)
       \<and> fst (batch_deduct_stock m (pre @ bad # post) role w) =
              (False,
               rs @ [failed_result bad (failing_line_reason m role bad w1)] @
               map (\<lambda>it. failed_result it BatchStopped)
                 (filter (\<lambda>it. product_id it \<notin> set (map product_id (pre @ [bad])))
                    (pre @ bad # post)))
       \<and> (\<forall>r\<in>set (snd (fst (batch_deduct_stock m (pre @ bad # post) role w))).
             \<not> res_success r \<longrightarrow> res_reason r \<noteq> None)
       \<and> (\<forall>k. stock_at (products (snd (batch_deduct_stock m (pre @ bad # post) role w))) k
                = map_option (settle (debits m ss @ credits m ss) k) (stock_at (products w) k))
       \<and> ((\<forall>d\<in>set ss. whole (di_quantity d) \<and> whole_stock (products w) (m, di_product_id d))
            \<longrightarrow> (\<forall>k. stock_at (products (snd (batch_deduct_stock m (pre @ bad # post) role w))) k
                       = stock_at (products w) k))
       \<and> snd (batch_deduct_stock m (pre @ bad # post) role w)
           = snd (batch_deduct_stock m (pre @ [bad]) role w)"
proof -
  let ?B = "batch_deduct_stock m (pre @ bad # post) role w"
  have ok: "\<forall>r\<in>set rs. res_success r"
    using deduct_loop_all_succeeded [OF assms(3)] by simp
  note b = batch_deduct_stock_failing_line [OF assms(3,4)]
  note rp = batch_rollback_products [OF assms, of post]
  have c2: "fst ?B =
              (False,
               rs @ [failed_result bad (failing_line_reason m role bad w1)] @
               map (\<lambda>it. failed_result it BatchStopped)
                 (filter (\<lambda>it. product_id it \<notin> set (map product_id (pre @ [bad])))
                    (pre @ bad # post)))"
    by (simp only: b [of post] fst_conv)
  have c3: "\<forall>r\<in>set (snd (fst ?B)). \<not> res_success r \<longrightarrow> res_reason r \<noteq> None"
  proof
    fix r
    assume "r \<in> set (snd (fst ?B))"
    then have "r \<in> set rs \<or> (\<exists>it reason. r = failed_result it reason)"
      unfolding c2 by auto
    then show "\<not> res_success r \<longrightarrow> res_reason r \<noteq> None"
      using ok by (auto simp: failed_result_def)
  qed
  have c4: "stock_at (products (snd ?B)) k
              = map_option (settle (debits m ss @ credits m ss) k) (stock_at (products w) k)" for k
    using rp by (simp only: stock_at_adjust_all)
  have c5: "stock_at (products (snd ?B)) k = stock_at (products w) k"
    if wh: "\<forall>d\<in>set ss. whole (di_quantity d) \<and> whole_stock (products w) (m, di_product_id d)"
    for k
  proof (cases "stock_at (products w) k")
    case None
    then show ?thesis by (simp add: c4)
  next
    case (Some c)
    have "settle (debits m ss @ credits m ss) k c = c"
    proof (cases "\<exists>d\<in>set ss. (m, di_product_id d) = k")
      case True
      then have wc: "whole c"
        using wh Some by (auto simp: whole_stock_def)
      have nc: "no_clamp (debits m ss) k c"
        using rp Some by blast
      show ?thesis
        using whole_restored [OF nc wc] wh by blast
    next
      case False
      then have "\<forall>kx\<in>set (debits m ss @ credits m ss). fst kx \<noteq> k"
        by (auto simp: debits_def credits_def)
      then show ?thesis
        by (rule settle_untouched)
    qed
    then show ?thesis
      using Some by (simp add: c4)
  qed
  have c6: "snd ?B = snd (batch_deduct_stock m (pre @ [bad]) role w)"
    by (simp only: b [of post] b [of "[]"] snd_conv)
  show ?thesis
    using ok c2 c3 c4 c5 c6 by (intro conjI) blast+
qed

text \<open>
  With 10 units of P and 3 of Q, the batch P:4, Q:5, R:1 debits P, fails at Q, never
  attempts R, and leaves 10 units of P and 3 of Q.
\<close>

theorem batch_deduct_stock_rolls_back_witness:
  "fst (batch_deduct_stock ''M1'' [line ''P'' 4, line ''Q'' 5, line ''R'' 1] ''merchant''
          two_product_world)
     = (False,
        [\<lparr>res_product_id = ''P'', res_success = True, res_reason = None\<rparr>,
         \<lparr>res_product_id = ''Q'', res_success = False,
          res_reason = Some (InsufficientStockHave ''Q'' (Finite 5) (Finite 3))\<rparr>,
         \<lparr>res_product_id = ''R'', res_success = False, res_reason = Some BatchStopped\<rparr>])
   \<and> get_product_stock ''M1'' ''P''
        (snd (snd (snd (deduct_loop ''M1'' ''merchant'' [line ''P'' 4] [] [] two_product_world))))
     = Some (Finite 6)
   \<and> stock_at (products (snd (batch_deduct_stock ''M1'' [line ''P'' 4, line ''Q'' 5, line ''R'' 1]
                                ''merchant'' two_product_world))) (''M1'', ''P'')
     = Some (Finite 10)
   \<and> stock_at (products (snd (batch_deduct_stock ''M1'' [line ''P'' 4, line ''Q'' 5, line ''R'' 1]
                                ''merchant'' two_product_world))) (''M1'', ''Q'')
     = Some (Finite 3)"
proof -
  let ?X = "deduct_loop ''M1'' ''merchant'' [line ''P'' 4] [] [] two_product_world"
  have i: "db_initialized two_product_world" and a: "products_write two_product_world = Applied"
    by (simp_all add: two_product_world_def example_world_def)
  have x: "?X = ([\<lparr>res_product_id = ''P'', res_success = True, res_reason = None\<rparr>],
                 [\<lparr>di_product_id = ''P'', di_quantity = Finite 4, di_product_name = ''P''\<rparr>],
                 [], snd (snd (snd ?X)))"
    by (simp add: line_def two_product_world_def example_world_def batch_defs engine_defs
          Let_def tolerance_nonneg)
  have p6: "get_product_stock ''M1'' ''P'' (snd (snd (snd ?X))) = Some (Finite 6)"
    by (simp add: line_def two_product_world_def example_world_def batch_defs engine_defs
          Let_def tolerance_nonneg)
  have f: "line_fails ''M1'' ''merchant'' (line ''Q'' 5) (snd (snd (snd ?X)))"
    by (simp add: line_fails_def line_def two_product_world_def example_world_def batch_defs
          engine_defs Let_def tolerance_nonneg)
  have r: "failing_line_reason ''M1'' ''merchant'' (line ''Q'' 5) (snd (snd (snd ?X)))
             = InsufficientStockHave ''Q'' (Finite 5) (Finite 3)"
    by (simp add: failing_line_reason_def failing_line_world_def line_def two_product_world_def
          example_world_def batch_defs engine_defs Let_def tolerance_nonneg)
  have wh: "\<forall>d\<in>set [\<lparr>di_product_id = ''P'', di_quantity = Finite 4, di_product_name = ''P''\<rparr>].
              whole (di_quantity d)
              \<and> whole_stock (products two_product_world) (''M1'', di_product_id d)"
    by (simp add: whole_def whole_stock_def stock_at_def two_product_world_def example_world_def)
  have s: "stock_at (products two_product_world) (''M1'', ''P'') = Some (Finite 10)"
    "stock_at (products two_product_world) (''M1'', ''Q'') = Some (Finite 3)"
    by (simp_all add: stock_at_def two_product_world_def example_world_def)
  note th = batch_deduct_stock_rolls_back [OF i a x f, of "[line ''R'' 1]", unfolded r]
  have restored: "stock_at (products (snd (batch_deduct_stock ''M1''
                      ([line ''P'' 4] @ line ''Q'' 5 # [line ''R'' 1]) ''merchant''
                      two_product_world))) k
                   = stock_at (products two_product_world) k" for k
    using th wh by blast
  show ?thesis
  proof (intro conjI)
    show "fst (batch_deduct_stock ''M1'' [line ''P'' 4, line ''Q'' 5, line ''R'' 1] ''merchant''
                 two_product_world)
        = (False,
           [\<lparr>res_product_id = ''P'', res_success = True, res_reason = None\<rparr>,
            \<lparr>res_product_id = ''Q'', res_success = False,
             res_reason = Some (InsufficientStockHave ''Q'' (Finite 5) (Finite 3))\<rparr>,
            \<lparr>res_product_id = ''R'', res_success = False, res_reason = Some BatchStopped\<rparr>])"
      using th [THEN conjunct2, THEN conjunct1] by (simp add: failed_result_def line_def)
    show "get_product_stock ''M1'' ''P'' (snd (snd (snd ?X))) = Some (Finite 6)"
      by (rule p6)
    show "stock_at (products (snd (batch_deduct_stock ''M1''
                      [line ''P'' 4, line ''Q'' 5, line ''R'' 1] ''merchant''
                      two_product_world))) (''M1'', ''P'') = Some (Finite 10)"
      using restored [of "(''M1'', ''P'')"] s(1) by simp
    show "stock_at (products (snd (batch_deduct_stock ''M1''
                      [line ''P'' 4, line ''Q'' 5, line ''R'' 1] ''merchant''
                      two_product_world))) (''M1'', ''Q'') = Some (Finite 3)"
      using restored [of "(''M1'', ''Q'')"] s(2) by simp
  qed
qed

text \<open>
  Claim C4 as stated fails in float arithmetic: with 0.9 units of P and 3 of Q, the batch
  P:0.2, Q:5 debits P, fails at Q and adds 0.2 back to P, and P ends one unit in the last
  place below 0.9: \<^verbatim>\<open>(0.9 - 0.2) + 0.2 == 0.8999999999999999\<close>.
\<close>

theorem batch_rollback_rounds:
  "get_product_stock ''M1'' ''P'' fraction_world
     = Some (Finite (8106479329266893 / 9007199254740992))
   \<and> fst (fst (batch_deduct_stock ''M1'' [fline ''P'' (round64 (2 / 10)), line ''Q'' 5]
                 ''merchant'' fraction_world)) = False
   \<and> get_product_stock ''M1'' ''P''
        (snd (batch_deduct_stock ''M1'' [fline ''P'' (round64 (2 / 10)), line ''Q'' 5]
                ''merchant'' fraction_world))
     = Some (Finite (8106479329266892 / 9007199254740992))
   \<and> get_product_stock ''M1'' ''P''
        (snd (batch_deduct_stock ''M1'' [fline ''P'' (round64 (2 / 10)), line ''Q'' 5]
                ''merchant'' fraction_world))
     \<noteq> get_product_stock ''M1'' ''P'' fraction_world"
  by (simp add: fraction_world_def two_product_world_def example_world_def fline_def line_def
        batch_defs engine_defs Let_def tolerance_nonneg round64_eval)

subsection \<open>Acceptance debits the stock\<close>

lemma batch_quantity_InrD:
  "batch_quantity (quantity it) = Inr q \<Longrightarrow>
   py_float (quantity it) (Finite 0) = Inr q \<and> line_qty it = q \<and> \<not> flt q (Finite 0)"
  by (cases "quantity it") (auto simp: batch_quantity_def line_qty_def split: if_splits)

lemma get_product_stock_stock_at:
  "get_product_stock m p w = Some c \<Longrightarrow> stock_at (products w) (m, p) = Some c"
  by (auto simp: get_product_stock_def get_product_def db_get_product_def stock_at_def
        split: option.splits json_num.splits if_splits)

lemma adjust_all_zero:
  "\<forall>kx\<in>set kxs. fst kx = k \<longrightarrow> feq (snd kx) (Finite 0) \<Longrightarrow> adjust_all kxs P k = P k"
proof (induction kxs arbitrary: P)
  case Nil
  show ?case by simp
next
  case (Cons kx kxs)
  have "adjust P (fst kx) (snd kx) k = P k"
  proof (cases "fst kx = k")
    case True
    then have "feq (snd kx) (Finite 0)" using Cons.prems by simp
    then show ?thesis by (simp add: adjust_def)
  next
    case False
    then show ?thesis by (rule adjust_untouched)
  qed
  then show ?case
    using Cons by simp
qed

lemma settle_zero:
  "\<forall>kx\<in>set kxs. fst kx = k \<longrightarrow> feq (snd kx) (Finite 0) \<Longrightarrow> settle kxs k c = c"
  by (induction kxs arbitrary: c) auto

lemma adjust_shape:
  "adjust P k x k' = P k' \<or> (\<exists>pdoc v. adjust P k x k' = Some (pdoc\<lparr>stock_qty := JFloat v\<rparr>))"
  by (auto simp: adjust_def split: option.splits)

lemma adjust_all_shape:
  "adjust_all kxs P k = P k
   \<or> (\<exists>pdoc v. adjust_all kxs P k = Some (pdoc\<lparr>stock_qty := JFloat v\<rparr>))"
proof (induction kxs arbitrary: P)
  case Nil
  show ?case by simp
next
  case (Cons kx kxs)
  let ?Q = "adjust P (fst kx) (snd kx)"
  from Cons.IH [of ?Q] show ?case
  proof (elim disjE exE)
    assume same: "adjust_all kxs ?Q k = ?Q k"
    from adjust_shape [of P "fst kx" "snd kx" k] show ?thesis
    proof (elim disjE exE)
      assume "?Q k = P k"
      then show ?thesis using same by simp
    next
      fix pdoc v
      assume "?Q k = Some (pdoc\<lparr>stock_qty := JFloat v\<rparr>)"
      then have "adjust_all (kx # kxs) P k = Some (pdoc\<lparr>stock_qty := JFloat v\<rparr>)"
        using same by simp
      then show ?thesis by blast
    qed
  next
    fix pdoc v
    assume "adjust_all kxs ?Q k = Some (pdoc\<lparr>stock_qty := JFloat v\<rparr>)"
    then have "adjust_all (kx # kxs) P k = Some (pdoc\<lparr>stock_qty := JFloat v\<rparr>)"
      by simp
    then show ?thesis by blast
  qed
qed

lemma get_product_stock_adjust_all:
  assumes "db_initialized w" "db_initialized w'" "products w' = adjust_all kxs (products w)"
    and "get_product_stock m p w = Some c"
  shows "get_product_stock m p w' = Some (settle kxs (m, p) c)"
proof -
  have s: "stock_at (products w) (m, p) = Some c"
    using assms(4) by (rule get_product_stock_stock_at)
  have s': "stock_at (products w') (m, p) = Some (settle kxs (m, p) c)"
    using s by (simp add: assms(3) stock_at_adjust_all)
  from adjust_all_shape [of kxs "products w" "(m, p)"] show ?thesis
  proof (elim disjE exE)
    assume same: "adjust_all kxs (products w) (m, p) = products w (m, p)"
    then have "stock_at (products w') (m, p) = stock_at (products w) (m, p)"
      by (simp add: assms(3) stock_at_def)
    then have "settle kxs (m, p) c = c"
      using s s' by simp
    moreover have "get_product_stock m p w' = get_product_stock m p w"
      using same assms(1,2)
      by (simp add: assms(3) get_product_stock_def get_product_def db_get_product_def)
    ultimately show ?thesis
      using assms(4) by simp
  next
    fix pdoc v
    assume "adjust_all kxs (products w) (m, p) = Some (pdoc\<lparr>stock_qty := JFloat v\<rparr>)"
    then have d: "products w' (m, p) = Some (pdoc\<lparr>stock_qty := JFloat v\<rparr>)"
      by (simp add: assms(3))
    then have "stock_at (products w') (m, p) = Some v"
      by (simp add: stock_at_def)
    then have "v = settle kxs (m, p) c"
      using s' by simp
    then show ?thesis
      using d assms(2) by (simp add: get_product_stock_def get_product_def db_get_product_def)
  qed
qed

lemma get_product_stock_untouched:
  assumes "db_initialized w" "db_initialized w'" "products w' = adjust_all kxs (products w)"
    and "\<forall>kx\<in>set kxs. fst kx = (m, p) \<longrightarrow> feq (snd kx) (Finite 0)"
  shows "get_product_stock m p w' = get_product_stock m p w"
  using adjust_all_zero [OF assms(4), of "products w"] assms(1,2)
  by (simp add: assms(3) get_product_stock_def get_product_def db_get_product_def)

lemma deduct_loop_no_failure:
  assumes "db_initialized w" "products_write w = Applied"
    and "deduct_loop m role its rs ss w = (rs', ss', [], w1)"
  shows "(\<forall>it\<in>set its. \<exists>q. batch_quantity (quantity it) = Inr q)
       \<and> products w1 = adjust_all (line_debits m its) (products w)
       \<and> (\<forall>k c. stock_at (products w) k = Some c \<longrightarrow> no_clamp (line_debits m its) k c)"
  using assms
proof (induction its arbitrary: rs ss w)
  case Nil
  then show ?case by (simp add: line_debits_def)
next
  case (Cons it rest)
  show ?case
  proof (cases "batch_quantity (quantity it)")
    case (Inl e)
    then show ?thesis using Cons.prems(3) by (simp add: Let_def)
  next
    case (Inr q)
    note bq = Inr
    have lq: "line_qty it = q" and qn: "\<not> flt q (Finite 0)"
      using batch_quantity_InrD [OF Inr] by simp_all
    let ?k = "(m, product_id it)"
    let ?d = "fneg q"
    show ?thesis
    proof (cases "feq q (Finite 0)")
      case True
      have rec: "deduct_loop m role rest
              (rs @ [\<lparr>res_product_id = product_id it, res_success = True,
                      res_reason = Some ZeroQuantity\<rparr>]) ss w = (rs', ss', [], w1)"
        using Cons.prems(3) Inr True by simp
      note ih = Cons.IH [OF Cons.prems(1,2) rec]
      have c1: "\<forall>it'\<in>set (it # rest). \<exists>q. batch_quantity (quantity it') = Inr q"
        using ih bq by simp
      have c2: "products w1 = adjust_all (line_debits m (it # rest)) (products w)"
        using ih [THEN conjunct2, THEN conjunct1] lq True
        by (simp add: line_debits_def adjust_def)
      have c3: "\<forall>k c. stock_at (products w) k = Some c
                  \<longrightarrow> no_clamp (line_debits m (it # rest)) k c"
        using ih [THEN conjunct2, THEN conjunct2] lq True by (simp add: line_debits_def)
      show ?thesis
        using c1 c2 c3 by blast
    next
      case False
      obtain r w' where uq:
        "update_quantity m (product_id it) ?d ''batch_deduction'' role w = (r, w')"
        by (cases "update_quantity m (product_id it) ?d ''batch_deduction'' role w")
      have fr: "engine_frame w w'"
        using update_quantity_frame [of w m "product_id it" ?d "''batch_deduction''" role] uq
        by simp
      then have ap: "products_write w' = Applied" and ini: "db_initialized w'"
        using Cons.prems(1,2) by (simp_all add: engine_frame_def)
      show ?thesis
      proof (cases r)
        case (Inl e)
        then show ?thesis using Cons.prems(3) bq False uq by (simp add: Let_def)
      next
        case b: (Inr b)
        show ?thesis
        proof (cases b)
          case False
          then show ?thesis
            using Cons.prems(3) bq \<open>\<not> feq q (Finite 0)\<close> uq b by (simp add: Let_def)
        next
          case True
          have t: "fst (update_quantity m (product_id it) ?d ''batch_deduction'' role w) = Inr True"
            using uq b True by simp
          have eff: "products w' = adjust (products w) ?k ?d"
            using update_quantity_products [OF Cons.prems(2), of m "product_id it" ?d
                "''batch_deduction''" role] uq t by simp
          obtain c' where c': "stock_at (products w) ?k = Some c'"
              "\<not> (flt ?d (Finite 0) \<and> flt (fadd c' ?d) (Finite 0))"
            using update_quantity_true_iff [OF Cons.prems(1,2), of m "product_id it" ?d
                "''batch_deduction''" role] t \<open>\<not> feq q (Finite 0)\<close> by auto
          have nneg: "\<not> flt (fadd c' ?d) (Finite 0)"
            using debit_not_negative [OF qn \<open>\<not> feq q (Finite 0)\<close> c'(2)] .
          have rec: "deduct_loop m role rest
                  (rs @ [\<lparr>res_product_id = product_id it, res_success = True, res_reason = None\<rparr>])
                  (ss @ [\<lparr>di_product_id = product_id it, di_quantity = q,
                          di_product_name = name_of_item it\<rparr>]) w' = (rs', ss', [], w1)"
            using Cons.prems(3) bq \<open>\<not> feq q (Finite 0)\<close> uq b True by simp
          note ih = Cons.IH [OF ini ap rec]
          have c1: "\<forall>it'\<in>set (it # rest). \<exists>q. batch_quantity (quantity it') = Inr q"
            using ih bq by simp
          have c2: "products w1 = adjust_all (line_debits m (it # rest)) (products w)"
            using ih [THEN conjunct2, THEN conjunct1] lq eff by (simp add: line_debits_def)
          have nc: "no_clamp (line_debits m (it # rest)) k c"
            if sc: "stock_at (products w) k = Some c" for k c
          proof (cases "k = ?k")
            case True
            then have cc: "c = c'" using sc c'(1) by simp
            have "stock_at (products w') k = Some (fadd c' ?d)"
              using True c'(1) \<open>\<not> feq q (Finite 0)\<close> nneg
              by (simp add: eff stock_at_adjust py_max_id)
            then have "no_clamp (line_debits m rest) k (fadd c' ?d)"
              using ih by blast
            then show ?thesis
              using True cc nneg \<open>\<not> feq q (Finite 0)\<close> lq by (simp add: line_debits_def)
          next
            case False
            then have "stock_at (products w') k = Some c"
              using sc by (simp add: eff stock_at_adjust)
            then have "no_clamp (line_debits m rest) k c"
              using ih by blast
            then show ?thesis
              using False by (auto simp: line_debits_def)
          qed
          have c3: "\<forall>k c. stock_at (products w) k = Some c
                      \<longrightarrow> no_clamp (line_debits m (it # rest)) k c"
            using nc by blast
          show ?thesis
            using c1 c2 c3 by blast
        qed
      qed
    qed
  qed
qed

lemma fle_sub_not_negative: "fle q c \<Longrightarrow> \<not> flt (fadd c (fneg q)) (Finite 0)"
  by (cases q; cases c) (auto simp: fle_def round64_nonneg)

lemma deduct_loop_succeeds:
  assumes "db_initialized w" "products_write w = Applied"
    and "distinct (map product_id its)"
    and "\<forall>it\<in>set its. \<exists>q c. batch_quantity (quantity it) = Inr q
            \<and> stock_at (products w) (m, product_id it) = Some c \<and> fle q c"
  shows "fst (snd (snd (deduct_loop m role its rs ss w))) = []"
  using assms
proof (induction its arbitrary: rs ss w)
  case Nil
  show ?case by simp
next
  case (Cons it rest)
  obtain q c where qc: "batch_quantity (quantity it) = Inr q"
      "stock_at (products w) (m, product_id it) = Some c" "fle q c"
    using Cons.prems(4) by auto
  have dr: "distinct (map product_id rest)" and notin: "product_id it \<notin> product_id ` set rest"
    using Cons.prems(3) by simp_all
  show ?case
  proof (cases "feq q (Finite 0)")
    case True
    have av: "\<forall>it'\<in>set rest. \<exists>q c. batch_quantity (quantity it') = Inr q
            \<and> stock_at (products w) (m, product_id it') = Some c \<and> fle q c"
      using Cons.prems(4) by simp
    show ?thesis
      using Cons.IH [OF Cons.prems(1,2) dr av] qc(1) True by simp
  next
    case False
    let ?u = "update_quantity m (product_id it) (fneg q) ''batch_deduction'' role w"
    have t: "fst ?u = Inr True"
      using update_quantity_true_iff [OF Cons.prems(1,2), of m "product_id it" "fneg q"
          "''batch_deduction''" role] qc(2) fle_sub_not_negative [OF qc(3)] by auto
    obtain w' where u: "?u = (Inr True, w')"
      using t by (cases ?u) auto
    have fr: "engine_frame w w'"
      using update_quantity_frame [of w m "product_id it" "fneg q" "''batch_deduction''" role] u
      by simp
    have i: "db_initialized w'" and a: "products_write w' = Applied"
      using fr Cons.prems(1,2) by (simp_all add: engine_frame_def)
    have eff: "products w' = adjust (products w) (m, product_id it) (fneg q)"
      using update_quantity_products [OF Cons.prems(2), of m "product_id it" "fneg q"
          "''batch_deduction''" role] u by simp
    have av: "\<forall>it'\<in>set rest. \<exists>q c. batch_quantity (quantity it') = Inr q
            \<and> stock_at (products w') (m, product_id it') = Some c \<and> fle q c"
    proof
      fix it'
      assume in': "it' \<in> set rest"
      then have ne: "product_id it' \<noteq> product_id it"
        using notin by (metis imageI)
      from in' obtain q' c' where "batch_quantity (quantity it') = Inr q'"
          "stock_at (products w) (m, product_id it') = Some c'" "fle q' c'"
        using Cons.prems(4) by auto
      then show "\<exists>q c. batch_quantity (quantity it') = Inr q
            \<and> stock_at (products w') (m, product_id it') = Some c \<and> fle q c"
        using ne by (simp add: eff stock_at_adjust)
    qed
    note ih = Cons.IH [OF i a dr av]
    have "deduct_loop m role (it # rest) rs ss w
            = deduct_loop m role rest
                (rs @ [\<lparr>res_product_id = product_id it, res_success = True, res_reason = None\<rparr>])
                (ss @ [\<lparr>di_product_id = product_id it, di_quantity = q,
                        di_product_name = name_of_item it\<rparr>]) w'"
      using qc(1) False u by simp
    then show ?thesis
      using ih by simp
  qed
qed

lemma batch_deduct_stock_frame:
  "engine_frame w (snd (batch_deduct_stock m its role w))"
  using deduct_loop_frame [of w m role its "[]" "[]"]
    rollback_deductions_frame [of "snd (snd (snd (deduct_loop m role its [] [] w)))" m role
       "fst (snd (deduct_loop m role its [] [] w))"]
    engine_frame_trans
  by (simp add: batch_deduct_stock_def split_beta Let_def)

lemma batch_deduct_stock_true:
  assumes "db_initialized w" "products_write w = Applied"
    and "fst (fst (batch_deduct_stock m its role w)) = True"
  shows "(\<forall>it\<in>set its. \<exists>q. batch_quantity (quantity it) = Inr q)
       \<and> products (snd (batch_deduct_stock m its role w))
            = adjust_all (line_debits m its) (products w)
       \<and> (\<forall>k c. stock_at (products w) k = Some c \<longrightarrow> no_clamp (line_debits m its) k c)"
proof (cases "its = []")
  case True
  then show ?thesis by (simp add: batch_deduct_stock_def line_debits_def)
next
  case False
  obtain rs' ss' fs w1 where l: "deduct_loop m role its [] [] w = (rs', ss', fs, w1)"
    by (metis prod.collapse)
  have "fs = []"
    using assms(3) False l by (simp add: batch_deduct_stock_def split_beta Let_def split: if_splits)
  then have b: "snd (batch_deduct_stock m its role w) = w1"
    using False l by (simp add: batch_deduct_stock_def)
  show ?thesis
    unfolding b using deduct_loop_no_failure [OF assms(1,2) l [unfolded \<open>fs = []\<close>]] .
qed

lemma batch_deduct_stock_succeeds:
  assumes "db_initialized w" "products_write w = Applied"
    and "distinct (map product_id its)"
    and "\<forall>it\<in>set its. \<exists>q c. batch_quantity (quantity it) = Inr q
            \<and> get_product_stock m (product_id it) w = Some c \<and> fle q c"
  shows "fst (fst (batch_deduct_stock m its role w)) = True"
proof -
  have av: "\<forall>it\<in>set its. \<exists>q c. batch_quantity (quantity it) = Inr q
            \<and> stock_at (products w) (m, product_id it) = Some c \<and> fle q c"
    using assms(4) get_product_stock_stock_at by blast
  show ?thesis
    using deduct_loop_succeeds [OF assms(1,2,3) av, of role "[]" "[]"]
    by (simp add: batch_deduct_stock_def split_beta Let_def)
qed

lemma accept_expiry_check_passes: "accept_expiry_check oid ord w = (Inr (), w)"
  by (simp add: accept_expiry_check_def self_parse_iso_datetime_def)

lemma accept_order_commit_pending:
  assumes "db_initialized w" "\<not> orders_write_raises w" "oid \<noteq> []"
    and "orders w oid = Some cur" "status cur = PENDING"
  shows "accept_order_commit oid mid acceptance_note None ord w =
           (Inr (accepted_order (clock w) acceptance_note cur),
            w\<lparr>orders := (orders w)(oid \<mapsto> accepted_order (clock w) acceptance_note cur)\<rparr>)"
  using assms
  by (simp add: accept_order_commit_def db_get_order_def update_order_def db_update_order_def
        accepted_order_def)

lemma settle_single:
  assumes "distinct (map product_id its)" "it \<in> set its"
  shows "settle (line_debits m its) (m, product_id it) c =
           (if feq (line_qty it) (Finite 0) then c
            else py_max (fadd c (fneg (line_qty it))) (Finite 0))"
  using assms
proof (induction its arbitrary: c)
  case Nil
  then show ?case by simp
next
  case (Cons a its)
  show ?case
  proof (cases "a = it")
    case True
    have "product_id it \<notin> product_id ` set its"
      using Cons.prems(1) True by simp
    then have "\<forall>it'\<in>set its. product_id it' \<noteq> product_id it"
      by (metis imageI)
    then have "\<forall>kx\<in>set (line_debits m its). fst kx \<noteq> (m, product_id it)"
      by (auto simp: line_debits_def)
    then have "settle (line_debits m its) (m, product_id it) v = v" for v
      by (rule settle_untouched)
    then show ?thesis
      using True by (simp add: line_debits_def)
  next
    case False
    then have in': "it \<in> set its"
      using Cons.prems(2) by simp
    have "product_id a \<notin> product_id ` set its"
      using Cons.prems(1) by simp
    then have "product_id a \<noteq> product_id it"
      using in' by (metis imageI)
    with in' have "it \<in> set its" "product_id a \<noteq> product_id it"
      by simp_all
    then show ?thesis
      using Cons.IH [of c] Cons.prems(1) by (simp add: line_debits_def)
  qed
qed

text \<open>
  Claim C1, amended to float arithmetic. On a healthy store and with no other task
  interfering, let O be an order in status \<^verbatim>\<open>PENDING\<close>, not past its expiry time, that
  belongs to merchant M and has one line per product (as the orders built from a cart
  have), such that every line carries a numeric quantity that is not negative and is at
  most the current stock of its product. Then \<^verbatim>\<open>accept_order(O, M)\<close> returns the order
  with status \<^verbatim>\<open>ACCEPTED\<close> and \<^verbatim>\<open>inventory_deducted\<close> true, that order is the stored one,
  the stock of every product of a line is the float difference of the stock and the
  requested quantity, and no other product of M changes. For whole numbers up to
  \<open>2\<^sup>5\<^sup>3\<close> the float difference is the exact one: with 10 in stock and 4 requested, 6.
\<close>

theorem accept_order_deducts_stock:
  assumes "db_initialized w" "products_write w = Applied" "\<not> orders_write_raises w"
    and "oid \<noteq> []" "mid \<noteq> []"
    and "orders w oid = Some ord" "status ord = PENDING" "merchant_id ord = mid"
    and "not_past_expiry ord w"
    and "distinct (map product_id (items ord))"
    and "\<forall>it\<in>set (items ord). \<exists>q c. batch_quantity (quantity it) = Inr q
            \<and> get_product_stock mid (product_id it) w = Some c \<and> fle q c"
  shows "fst (accept_order id oid mid acceptance_note None w)
           = Inr (accepted_order (clock w) acceptance_note ord)
       \<and> status (accepted_order (clock w) acceptance_note ord) = ACCEPTED
       \<and> inventory_deducted (accepted_order (clock w) acceptance_note ord) = True
       \<and> orders (snd (accept_order id oid mid acceptance_note None w)) oid
           = Some (accepted_order (clock w) acceptance_note ord)
       \<and> (\<forall>it\<in>set (items ord).
             get_product_stock mid (product_id it)
                 (snd (accept_order id oid mid acceptance_note None w))
               = map_option (\<lambda>c. if feq (line_qty it) (Finite 0) then c
                                  else fsub c (line_qty it))
                   (get_product_stock mid (product_id it) w))
       \<and> (\<forall>p. p \<notin> product_id ` set (items ord) \<longrightarrow>
             get_product_stock mid p (snd (accept_order id oid mid acceptance_note None w))
               = get_product_stock mid p w)
       \<and> (\<forall>it\<in>set (items ord). \<forall>c q.
             get_product_stock mid (product_id it) w = Some (Finite c)
             \<and> line_qty it = Finite q \<and> whole (Finite c) \<and> whole (Finite q) \<longrightarrow>
             get_product_stock mid (product_id it)
                 (snd (accept_order id oid mid acceptance_note None w))
               = Some (Finite (c - q)))"
proof -
  let ?A = "accept_order id oid mid acceptance_note None w"
  obtain ok res w1 where b: "batch_deduct_stock mid (items ord) ''merchant'' w = ((ok, res), w1)"
    by (cases "batch_deduct_stock mid (items ord) ''merchant'' w") auto
  have t: "ok = True"
    using batch_deduct_stock_succeeds [OF assms(1,2,10,11), of "''merchant''"] b by simp
  have fr: "engine_frame w w1"
    using batch_deduct_stock_frame [of w mid "items ord" "''merchant''"] b by simp
  have eff: "products w1 = adjust_all (line_debits mid (items ord)) (products w)"
    using batch_deduct_stock_true [OF assms(1,2), of mid "items ord" "''merchant''"] b t by simp
  have i1: "db_initialized w1" and o1: "\<not> orders_write_raises w1"
    and ord1: "orders w1 oid = Some ord" and c1: "clock w1 = clock w"
    using fr assms(1,3,6) by (simp_all add: engine_frame_def)
  note commit = accept_order_commit_pending [OF i1 o1 assms(4) ord1 assms(7),
      of mid acceptance_note ord, unfolded c1]
  have acc: "?A = accept_order_commit oid mid acceptance_note None ord w1"
    using assms(1,4,5,6,7,8)
    by (simp add: accept_order_def b t db_get_order_def accept_expiry_check_passes)
  have r: "?A =
           (Inr (accepted_order (clock w) acceptance_note ord),
            w1\<lparr>orders := (orders w1)(oid \<mapsto> accepted_order (clock w) acceptance_note ord)\<rparr>)"
    using acc commit by simp
  have gps: "get_product_stock mid p (snd ?A) = get_product_stock mid p w1" for p
    by (simp add: r get_product_stock_def get_product_def db_get_product_def)
  have line: "get_product_stock mid (product_id it) (snd ?A)
               = map_option (\<lambda>c. if feq (line_qty it) (Finite 0) then c
                                  else fsub c (line_qty it))
                   (get_product_stock mid (product_id it) w)"
    if it: "it \<in> set (items ord)" for it
  proof -
    obtain q c where qc: "batch_quantity (quantity it) = Inr q"
        "get_product_stock mid (product_id it) w = Some c" "fle q c"
      using assms(11) it by blast
    have lq: "line_qty it = q"
      using batch_quantity_InrD [OF qc(1)] by simp
    have nn: "\<not> flt (fadd c (fneg q)) (Finite 0)"
      using qc(3) by (rule fle_sub_not_negative)
    have "get_product_stock mid (product_id it) w1
            = Some (settle (line_debits mid (items ord)) (mid, product_id it) c)"
      using get_product_stock_adjust_all [OF assms(1) i1 eff qc(2)] .
    also have "settle (line_debits mid (items ord)) (mid, product_id it) c
            = (if feq q (Finite 0) then c else fsub c q)"
      using settle_single [OF assms(10) it, of mid c] nn
      by (simp add: lq py_max_id fsub_def)
    finally show ?thesis
      by (simp add: gps qc(2) lq)
  qed
  have other: "get_product_stock mid p (snd ?A) = get_product_stock mid p w"
    if "p \<notin> product_id ` set (items ord)" for p
  proof -
    have "\<forall>kx\<in>set (line_debits mid (items ord)). fst kx = (mid, p) \<longrightarrow> feq (snd kx) (Finite 0)"
      using that by (auto simp: line_debits_def)
    then show ?thesis
      using get_product_stock_untouched [OF assms(1) i1 eff] by (simp add: gps)
  qed
  have exact: "get_product_stock mid (product_id it) (snd ?A) = Some (Finite (c - q))"
    if it: "it \<in> set (items ord)"
      and h: "get_product_stock mid (product_id it) w = Some (Finite c)"
        "line_qty it = Finite q" "whole (Finite c)" "whole (Finite q)"
    for it c q
  proof (cases "q = 0")
    case True
    then show ?thesis using line [OF it] h(1,2) by simp
  next
    case False
    then show ?thesis
      using line [OF it] h(1,2) whole_sub [OF h(3,4)] by (simp add: fsub_def)
  qed
  show ?thesis
    using line other exact by (simp add: r accepted_order_def)
qed

text \<open>
  The scenario of the specification: P has 10, O1 requests 4 and expires at 86400; at time
  1000 the acceptance succeeds and P becomes 6.
\<close>

theorem accept_order_deducts_stock_witness:
  "fst (accept_order id ''O1'' ''M1'' None None pending_world)
     = Inr (accepted_order 1000 None example_order)
   \<and> orders (snd (accept_order id ''O1'' ''M1'' None None pending_world)) ''O1''
     = Some (accepted_order 1000 None example_order)
   \<and> inventory_deducted (accepted_order 1000 None example_order) = True
   \<and> not_past_expiry example_order pending_world
   \<and> get_product_stock ''M1'' ''P'' pending_world = Some (Finite 10)
   \<and> get_product_stock ''M1'' ''P''
        (snd (accept_order id ''O1'' ''M1'' None None pending_world)) = Some (Finite 6)"
proof -
  have h: "db_initialized pending_world" "products_write pending_world = Applied"
    "\<not> orders_write_raises pending_world" "''O1'' \<noteq> []" "''M1'' \<noteq> []"
    "orders pending_world ''O1'' = Some example_order" "status example_order = PENDING"
    "merchant_id example_order = ''M1''"
    "not_past_expiry example_order pending_world"
    "distinct (map product_id (items example_order))"
    by (simp_all add: pending_world_def example_world_def example_order_def
          not_past_expiry_def)
  have st: "get_product_stock ''M1'' ''P'' pending_world = Some (Finite 10)"
    by (simp add: get_product_stock_def get_product_def db_get_product_def pending_world_def
          example_world_def)
  have av: "\<forall>it\<in>set (items example_order).
              \<exists>q c. batch_quantity (quantity it) = Inr q
                \<and> get_product_stock ''M1'' (product_id it) pending_world = Some c \<and> fle q c"
    using st by (simp add: example_order_def batch_quantity_def fle_def)
  note th = accept_order_deducts_stock [OF h av, of None]
  have c: "clock pending_world = 1000"
    by (simp add: pending_world_def example_world_def)
  have it: "\<lparr>product_id = ''P'', item_name = Some ''Rice'', quantity = JInt 4\<rparr>
              \<in> set (items example_order)"
    by (simp add: example_order_def)
  have lq: "line_qty \<lparr>product_id = ''P'', item_name = Some ''Rice'', quantity = JInt 4\<rparr>
              = Finite 4"
    by (simp add: line_qty_def)
  have wh: "whole (Finite 10)" "whole (Finite 4)"
    by (simp_all add: whole_def)
  from th have "\<forall>it\<in>set (items example_order). \<forall>c q.
             get_product_stock ''M1'' (product_id it) pending_world = Some (Finite c)
             \<and> line_qty it = Finite q \<and> whole (Finite c) \<and> whole (Finite q) \<longrightarrow>
             get_product_stock ''M1'' (product_id it)
                 (snd (accept_order id ''O1'' ''M1'' None None pending_world))
               = Some (Finite (c - q))"
    by blast
  from this [rule_format, OF it, of 10 4]
  have "get_product_stock ''M1'' ''P''
        (snd (accept_order id ''O1'' ''M1'' None None pending_world)) = Some (Finite 6)"
    using st lq wh by simp
  then show ?thesis
    using th st h(9) by (simp add: c)
qed

text \<open>
  Claim C1 as stated fails in float arithmetic: P holds \<open>10\<^sup>1\<^sup>6\<close> units, O1 is pending, not
  expired, and requests 1 unit; \<^verbatim>\<open>accept_order\<close> succeeds and the stock of P is still
  \<open>10\<^sup>1\<^sup>6\<close>, not reduced by 1: \<^verbatim>\<open>1e16 - 1 == 1e16\<close>.
\<close>

theorem accept_order_rounds:
  "orders large_world ''O1'' = Some large_order
   \<and> status large_order = PENDING
   \<and> merchant_id large_order = ''M1''
   \<and> not_past_expiry large_order large_world
   \<and> map (\<lambda>it. (product_id it, quantity it)) (items large_order) = [(''P'', JInt 1)]
   \<and> get_product_stock ''M1'' ''P'' large_world = Some (Finite 10000000000000000)
   \<and> fst (accept_order id ''O1'' ''M1'' None None large_world)
       = Inr (accepted_order 1000 None large_order)
   \<and> get_product_stock ''M1'' ''P'' (snd (accept_order id ''O1'' ''M1'' None None large_world))
       = Some (Finite 10000000000000000)
   \<and> get_product_stock ''M1'' ''P'' (snd (accept_order id ''O1'' ''M1'' None None large_world))
       \<noteq> Some (Finite (10000000000000000 - 1))"
  by (simp add: accept_order_def accept_order_commit_def accept_expiry_check_def
        self_parse_iso_datetime_def large_world_def large_order_def example_world_def
        example_order_def not_past_expiry_def accepted_order_def note_or_def
        batch_defs engine_defs order_defs Let_def tolerance_nonneg round64_eval)

subsection \<open>A status change detected inside the lock\<close>

lemma rollback_args_lines:
  "\<forall>it\<in>set its. \<exists>q. batch_quantity (quantity it) = Inr q \<Longrightarrow>
   rollback_args its = Inr (map (\<lambda>it. (product_id it, line_qty it)) its)"
proof (induction its)
  case Nil
  show ?case by simp
next
  case (Cons it its)
  obtain q where "batch_quantity (quantity it) = Inr q"
    using Cons.prems by auto
  then have "py_float (quantity it) (Finite 0) = Inr q" "line_qty it = q"
    using batch_quantity_InrD by blast+
  then show ?case
    using Cons by simp
qed

lemma deduct_loop_lines_well_formed:
  "fst (snd (snd (deduct_loop m role its rs ss w))) = [] \<Longrightarrow>
   \<forall>it\<in>set its. \<exists>q. batch_quantity (quantity it) = Inr q"
proof (induction its arbitrary: rs ss w)
  case Nil
  show ?case by simp
next
  case (Cons it rest)
  show ?case
  proof (cases "batch_quantity (quantity it)")
    case (Inl e)
    then show ?thesis using Cons.prems by (simp add: Let_def)
  next
    case (Inr q)
    have "\<exists>rs' ss' w'. fst (snd (snd (deduct_loop m role rest rs' ss' w'))) = []"
      using Cons.prems Inr
      by (auto simp: Let_def split_beta split: if_splits sum.splits bool.splits)
    then show ?thesis
      using Cons.IH Inr by auto
  qed
qed

lemma batch_deduct_stock_lines_well_formed:
  assumes "fst (fst (batch_deduct_stock m its role w)) = True"
  shows "\<forall>it\<in>set its. \<exists>q. batch_quantity (quantity it) = Inr q"
proof (cases "its = []")
  case True
  then show ?thesis by simp
next
  case False
  have "fst (snd (snd (deduct_loop m role its [] [] w))) = []"
    using assms False
    by (simp add: batch_deduct_stock_def split_beta Let_def split: if_splits)
  then show ?thesis
    by (rule deduct_loop_lines_well_formed)
qed

lemma return_all_frame: "engine_frame w (snd (return_all m args r role w))"
proof (induction args arbitrary: w)
  case Nil
  show ?case by simp
next
  case (Cons a args)
  obtain p q where a: "a = (p, q)" by (cases a)
  show ?case
    using update_quantity_frame [of w m p q r role] Cons.IH engine_frame_trans
    by (simp add: a split_beta)
qed

lemma return_all_effect:
  assumes "db_initialized w" "products_write w = Applied"
    and "\<forall>a\<in>set args. \<not> flt (snd a) (Finite 0)"
  shows "products (snd (return_all m args r role w))
           = adjust_all (map (\<lambda>a. ((m, fst a), snd a)) args) (products w)"
  using assms
proof (induction args arbitrary: w)
  case Nil
  show ?case by simp
next
  case (Cons a args)
  obtain p q where a: "a = (p, q)" by (cases a)
  let ?u = "update_quantity m p q r role w"
  have q: "\<not> flt q (Finite 0)"
    using Cons.prems(3) a by simp
  have eff: "products (snd ?u) = adjust (products w) (m, p) q"
    using update_quantity_credit [OF Cons.prems(1,2) q] .
  have fr: "engine_frame w (snd ?u)"
    by (rule update_quantity_frame)
  have i: "db_initialized (snd ?u)" and ap: "products_write (snd ?u) = Applied"
    using fr Cons.prems(1,2) by (simp_all add: engine_frame_def)
  have rest: "\<forall>a\<in>set args. \<not> flt (snd a) (Finite 0)"
    using Cons.prems(3) by simp
  show ?case
    using Cons.IH [OF i ap rest] eff by (simp add: a split_beta)
qed

lemma settle_add_back:
  assumes "\<forall>it\<in>set its. \<not> flt (line_qty it) (Finite 0)"
    and "(\<exists>it\<in>set its. product_id it = p \<and> \<not> feq (line_qty it) (Finite 0))
           \<longrightarrow> \<not> flt c (Finite 0)"
  shows "settle (line_credits m its) (m, p) c = add_back its p c"
  using assms
proof (induction its arbitrary: c)
  case Nil
  show ?case by (simp add: line_credits_def add_back_def)
next
  case (Cons it its)
  have q: "\<not> flt (line_qty it) (Finite 0)"
    and rest: "\<forall>it\<in>set its. \<not> flt (line_qty it) (Finite 0)"
    using Cons.prems(1) by simp_all
  have unfold_ab: "add_back (it # its) p c =
      add_back its p (if product_id it = p \<and> \<not> feq (line_qty it) (Finite 0)
                      then fadd c (line_qty it) else c)"
    by (simp add: add_back_def)
  show ?case
  proof (cases "product_id it = p \<and> \<not> feq (line_qty it) (Finite 0)")
    case True
    then have c0: "\<not> flt c (Finite 0)"
      using Cons.prems(2) by auto
    have nn: "\<not> flt (fadd c (line_qty it)) (Finite 0)"
      using fadd_nonneg [OF c0 q] .
    have "settle (line_credits m its) (m, p) (fadd c (line_qty it))
            = add_back its p (fadd c (line_qty it))"
      using Cons.IH [OF rest, of "fadd c (line_qty it)"] nn by simp
    then show ?thesis
      using True nn by (simp add: unfold_ab line_credits_def py_max_id)
  next
    case False
    have "(\<exists>it\<in>set its. product_id it = p \<and> \<not> feq (line_qty it) (Finite 0))
           \<longrightarrow> \<not> flt c (Finite 0)"
      using Cons.prems(2) by auto
    then have "settle (line_credits m its) (m, p) c = add_back its p c"
      using Cons.IH [OF rest] by blast
    then show ?thesis
      using False by (auto simp: unfold_ab line_credits_def)
  qed
qed

lemma race_rollback_effect:
  assumes "db_initialized w2" "products_write w2 = Applied"
    and "\<forall>it\<in>set its. \<exists>q. batch_quantity (quantity it) = Inr q"
    and "list_all
           (\<lambda>it. feq (line_qty it) (Finite 0) \<or>
                 (case get_product_stock m (product_id it) w2 of
                    None \<Rightarrow> False
                  | Some c \<Rightarrow> fle (Finite 0) c)) its"
  shows "rollback_args its = Inr (map (\<lambda>it. (product_id it, line_qty it)) its)
       \<and> products (snd (return_all m (map (\<lambda>it. (product_id it, line_qty it)) its) r role w2))
           = adjust_all (line_credits m its) (products w2)
       \<and> orders (snd (return_all m (map (\<lambda>it. (product_id it, line_qty it)) its) r role w2))
           = orders w2
       \<and> (\<forall>p. get_product_stock m p
                 (snd (return_all m (map (\<lambda>it. (product_id it, line_qty it)) its) r role w2))
               = map_option (add_back its p) (get_product_stock m p w2))"
proof -
  let ?args = "map (\<lambda>it. (product_id it, line_qty it)) its"
  let ?w3 = "snd (return_all m ?args r role w2)"
  have nonneg: "\<forall>it\<in>set its. \<not> flt (line_qty it) (Finite 0)"
    using assms(3) batch_quantity_InrD by blast
  then have pre: "\<forall>a\<in>set ?args. \<not> flt (snd a) (Finite 0)"
    by auto
  have fr: "engine_frame w2 ?w3"
    by (rule return_all_frame)
  have eff: "products ?w3 = adjust_all (line_credits m its) (products w2)"
    using return_all_effect [OF assms(1,2) pre, of m r role]
    by (simp add: line_credits_def comp_def)
  have i3: "db_initialized ?w3"
    using fr assms(1) by (simp add: engine_frame_def)
  have stock: "get_product_stock m p ?w3 = map_option (add_back its p) (get_product_stock m p w2)"
    for p
  proof (cases "get_product_stock m p w2")
    case (Some c)
    have "(\<exists>it\<in>set its. product_id it = p \<and> \<not> feq (line_qty it) (Finite 0))
           \<longrightarrow> \<not> flt c (Finite 0)"
      using assms(4) Some by (auto simp: list_all_iff fle_not_flt)
    then have "settle (line_credits m its) (m, p) c = add_back its p c"
      using settle_add_back [OF nonneg] by blast
    then show ?thesis
      using get_product_stock_adjust_all [OF assms(1) i3 eff Some] Some by simp
  next
    case None
    have "\<forall>kx\<in>set (line_credits m its). fst kx = (m, p) \<longrightarrow> feq (snd kx) (Finite 0)"
      using assms(4) None by (auto simp: list_all_iff line_credits_def)
    then show ?thesis
      using get_product_stock_untouched [OF assms(1) i3 eff] None by simp
  qed
  show ?thesis
    using rollback_args_lines [OF assms(3)] fr eff stock by (simp add: engine_frame_def)
qed

lemma whole_lines_restored:
  assumes "db_initialized w" "products_write w = Applied"
    and "fst (fst (batch_deduct_stock m its role w)) = True"
    and "whole_lines m its w"
  shows "stock_at (adjust_all (line_credits m its)
                     (products (snd (batch_deduct_stock m its role w)))) k
           = stock_at (products w) k"
proof -
  let ?ds = "map (\<lambda>it. \<lparr>di_product_id = product_id it, di_quantity = line_qty it,
                        di_product_name = name_of_item it\<rparr>) its"
  have d: "debits m ?ds = line_debits m its" and c: "credits m ?ds = line_credits m its"
    by (simp_all add: debits_def credits_def line_debits_def line_credits_def comp_def)
  note bt = batch_deduct_stock_true [OF assms(1,2,3)]
  have eff: "products (snd (batch_deduct_stock m its role w))
               = adjust_all (line_debits m its) (products w)"
    using bt by blast
  have st: "stock_at (adjust_all (line_credits m its)
                        (products (snd (batch_deduct_stock m its role w)))) k
              = map_option (settle (debits m ?ds @ credits m ?ds) k) (stock_at (products w) k)"
    unfolding eff d c
    by (cases "stock_at (products w) k") (simp_all add: stock_at_adjust_all)
  show ?thesis
  proof (cases "stock_at (products w) k")
    case None
    then show ?thesis by (simp add: st)
  next
    case (Some cur)
    have "settle (debits m ?ds @ credits m ?ds) k cur = cur"
    proof (cases "\<exists>it\<in>set its. (m, product_id it) = k")
      case True
      then have wc: "whole cur"
        using assms(4) Some by (auto simp: whole_lines_def list_all_iff whole_stock_def)
      have nc: "no_clamp (debits m ?ds) k cur"
        unfolding d using bt Some by blast
      have wq: "\<forall>d\<in>set ?ds. (m, di_product_id d) = k \<longrightarrow> whole (di_quantity d)"
        using assms(4) by (auto simp: whole_lines_def list_all_iff)
      show ?thesis
        using whole_restored [OF nc wc wq] .
    next
      case False
      then have "\<forall>kx\<in>set (debits m ?ds @ credits m ?ds). fst kx \<noteq> k"
        by (auto simp: debits_def credits_def)
      then show ?thesis
        by (rule settle_untouched)
    qed
    then show ?thesis
      using Some by (simp add: st)
  qed
qed

lemma adjust_names:
  "map_option product_name (adjust P k x k') = map_option product_name (P k')"
  by (auto simp: adjust_def stock_at_def split: option.splits sum.splits)

lemma adjust_all_names:
  "map_option product_name (adjust_all kxs P k) = map_option product_name (P k)"
proof (induction kxs arbitrary: P)
  case Nil
  show ?case by simp
next
  case (Cons kx kxs)
  show ?case
    using Cons.IH [of "adjust P (fst kx) (snd kx)"] by (simp add: adjust_names)
qed

lemma rollback_keeps_names:
  assumes "db_initialized w" "products_write w = Applied"
    and "fst (fst (batch_deduct_stock m its role w)) = True"
  shows "map_option product_name
           (adjust_all (line_credits m its) (products (snd (batch_deduct_stock m its role w))) k)
         = map_option product_name (products w k)"
proof -
  have "products (snd (batch_deduct_stock m its role w))
          = adjust_all (line_debits m its) (products w)"
    using batch_deduct_stock_true [OF assms] by blast
  then show ?thesis
    by (simp add: adjust_all_names)
qed

lemma accept_order_race:
  assumes "deducted_then_changed env oid mid ''merchant'' [PENDING] ord w"
    and "\<not> (case est of None \<Rightarrow> False | Some t \<Rightarrow> t \<le> clock w)"
  shows "fst (accept_order env oid mid acceptance_note est w) = Inl race_error
       \<and> orders (snd (accept_order env oid mid acceptance_note est w))
           = orders (after_deduction env mid ''merchant'' ord w)
       \<and> (\<forall>p. get_product_stock mid p (snd (accept_order env oid mid acceptance_note est w))
               = map_option (add_back (items ord) p)
                   (get_product_stock mid p (after_deduction env mid ''merchant'' ord w)))
       \<and> (products_write w = Applied
            \<and> products (after_deduction env mid ''merchant'' ord w)
                = products (snd (batch_deduct_stock mid (items ord) ''merchant'' w))
            \<and> whole_lines mid (items ord) w
            \<longrightarrow> (\<forall>k. stock_at (products
                       (snd (accept_order env oid mid acceptance_note est w))) k
                     = stock_at (products w) k
                   \<and> map_option product_name
                       (products (snd (accept_order env oid mid acceptance_note est w)) k)
                     = map_option product_name (products w k)))"
proof -
  let ?w2 = "after_deduction env mid ''merchant'' ord w"
  let ?args = "map (\<lambda>it. (product_id it, line_qty it)) (items ord)"
  let ?w3 = "snd (return_all mid ?args ''order_accept_race_condition_rollback'' ''merchant'' ?w2)"
  note d = assms(1) [unfolded deducted_then_changed_def]
  obtain ok res w1 where b: "batch_deduct_stock mid (items ord) ''merchant'' w = ((ok, res), w1)"
    by (cases "batch_deduct_stock mid (items ord) ''merchant'' w") auto
  have t: "ok = True" using d b by simp
  have bt: "fst (fst (batch_deduct_stock mid (items ord) ''merchant'' w)) = True"
    using d by simp
  have w2: "?w2 = env w1" using b by (simp add: after_deduction_def)
  have wf: "\<forall>it\<in>set (items ord). \<exists>q. batch_quantity (quantity it) = Inr q"
    using batch_deduct_stock_lines_well_formed [OF bt] .
  obtain cur where cur: "orders ?w2 oid = Some cur" "status cur \<noteq> PENDING"
    using d by (auto split: option.splits)
  have i0: "db_initialized w" using d by simp
  have i2: "db_initialized ?w2" and a2: "products_write ?w2 = Applied"
    using d by simp_all
  have la: "list_all
           (\<lambda>it. feq (line_qty it) (Finite 0) \<or>
                 (case get_product_stock mid (product_id it) ?w2 of
                    None \<Rightarrow> False
                  | Some c \<Rightarrow> fle (Finite 0) c)) (items ord)"
    using d by simp
  note rb = race_rollback_effect [OF i2 a2 wf la,
      of "''order_accept_race_condition_rollback''" "''merchant''"]
  have commit: "accept_order_commit oid mid acceptance_note est ord ?w2 = (Inl race_error, ?w3)"
    using i2 cur rb
    by (simp add: accept_order_commit_def db_get_order_def race_error_def)
  have acc: "accept_order env oid mid acceptance_note est w =
          accept_order_commit oid mid acceptance_note est ord ?w2"
    using d assms(2)
    by (simp add: accept_order_def b t w2 db_get_order_def accept_expiry_check_passes)
  have r: "accept_order env oid mid acceptance_note est w = (Inl race_error, ?w3)"
    using acc commit by simp
  have undone: "stock_at (products ?w3) k = stock_at (products w) k
                \<and> map_option product_name (products ?w3 k) = map_option product_name (products w k)"
    if "products_write w = Applied"
      "products ?w2 = products (snd (batch_deduct_stock mid (items ord) ''merchant'' w))"
      "whole_lines mid (items ord) w" for k
    using whole_lines_restored [OF i0 that(1) bt that(3), of k]
      rollback_keeps_names [OF i0 that(1) bt, of k] rb that(2) by simp
  have c1: "fst (accept_order env oid mid acceptance_note est w) = Inl race_error"
    by (simp add: r)
  have c2: "orders (snd (accept_order env oid mid acceptance_note est w)) = orders ?w2"
    using rb by (simp add: r)
  have c3: "\<forall>p. get_product_stock mid p (snd (accept_order env oid mid acceptance_note est w))
               = map_option (add_back (items ord) p) (get_product_stock mid p ?w2)"
    using rb by (simp add: r)
  have c4: "products_write w = Applied
            \<and> products ?w2 = products (snd (batch_deduct_stock mid (items ord) ''merchant'' w))
            \<and> whole_lines mid (items ord) w
            \<longrightarrow> (\<forall>k. stock_at (products
                       (snd (accept_order env oid mid acceptance_note est w))) k
                     = stock_at (products w) k
                   \<and> map_option product_name
                       (products (snd (accept_order env oid mid acceptance_note est w)) k)
                     = map_option product_name (products w k))"
    using undone by (simp add: r)
  show ?thesis
    using c1 c2 c3 c4 by (intro conjI)
qed

lemma approve_order_admin_race:
  assumes "deducted_then_changed env oid (merchant_id ord) ''admin'' approve_valid_statuses ord w"
    and "admin_user \<noteq> []"
  shows "fst (approve_order_admin env oid admin_user admin_note w) = Inl race_error
       \<and> orders (snd (approve_order_admin env oid admin_user admin_note w))
           = orders (after_deduction env (merchant_id ord) ''admin'' ord w)
       \<and> (\<forall>p. get_product_stock (merchant_id ord) p
                 (snd (approve_order_admin env oid admin_user admin_note w))
               = map_option (add_back (items ord) p)
                   (get_product_stock (merchant_id ord) p
                      (after_deduction env (merchant_id ord) ''admin'' ord w)))
       \<and> (products_write w = Applied
            \<and> products (after_deduction env (merchant_id ord) ''admin'' ord w)
                = products (snd (batch_deduct_stock (merchant_id ord) (items ord) ''admin'' w))
            \<and> whole_lines (merchant_id ord) (items ord) w
            \<longrightarrow> (\<forall>k. stock_at (products
                       (snd (approve_order_admin env oid admin_user admin_note w))) k
                     = stock_at (products w) k
                   \<and> map_option product_name
                       (products (snd (approve_order_admin env oid admin_user admin_note w)) k)
                     = map_option product_name (products w k)))"
proof -
  let ?mid = "merchant_id ord"
  let ?w2 = "after_deduction env ?mid ''admin'' ord w"
  let ?args = "map (\<lambda>it. (product_id it, line_qty it)) (items ord)"
  let ?w3 = "snd (return_all ?mid ?args ''admin_approve_race_condition_rollback'' ''admin'' ?w2)"
  note d = assms(1) [unfolded deducted_then_changed_def]
  obtain ok res w1 where b: "batch_deduct_stock ?mid (items ord) ''admin'' w = ((ok, res), w1)"
    by (cases "batch_deduct_stock ?mid (items ord) ''admin'' w") auto
  have t: "ok = True" using d b by simp
  have bt: "fst (fst (batch_deduct_stock ?mid (items ord) ''admin'' w)) = True"
    using d by simp
  have w2: "?w2 = env w1" using b by (simp add: after_deduction_def)
  have wf: "\<forall>it\<in>set (items ord). \<exists>q. batch_quantity (quantity it) = Inr q"
    using batch_deduct_stock_lines_well_formed [OF bt] .
  obtain cur where cur: "orders ?w2 oid = Some cur" "status cur \<notin> set approve_valid_statuses"
    using d by (auto split: option.splits)
  have i0: "db_initialized w" using d by simp
  have i2: "db_initialized ?w2" and a2: "products_write ?w2 = Applied"
    using d by simp_all
  have la: "list_all
           (\<lambda>it. feq (line_qty it) (Finite 0) \<or>
                 (case get_product_stock ?mid (product_id it) ?w2 of
                    None \<Rightarrow> False
                  | Some c \<Rightarrow> fle (Finite 0) c)) (items ord)"
    using d by simp
  note rb = race_rollback_effect [OF i2 a2 wf la,
      of "''admin_approve_race_condition_rollback''" "''admin''"]
  have commit: "approve_order_commit oid ?mid admin_user admin_note ord ?w2 = (Inl race_error, ?w3)"
    using i2 cur rb
    by (simp add: approve_order_commit_def db_get_order_def race_error_def)
  have acc: "approve_order_admin env oid admin_user admin_note w =
          approve_order_commit oid ?mid admin_user admin_note ord ?w2"
    using d assms(2)
    by (simp add: approve_order_admin_def b t w2 db_get_order_def)
  have r: "approve_order_admin env oid admin_user admin_note w = (Inl race_error, ?w3)"
    using acc commit by simp
  have undone: "stock_at (products ?w3) k = stock_at (products w) k
                \<and> map_option product_name (products ?w3 k) = map_option product_name (products w k)"
    if "products_write w = Applied"
      "products ?w2 = products (snd (batch_deduct_stock ?mid (items ord) ''admin'' w))"
      "whole_lines ?mid (items ord) w" for k
    using whole_lines_restored [OF i0 that(1) bt that(3), of k]
      rollback_keeps_names [OF i0 that(1) bt, of k] rb that(2) by simp
  have c1: "fst (approve_order_admin env oid admin_user admin_note w) = Inl race_error"
    by (simp add: r)
  have c2: "orders (snd (approve_order_admin env oid admin_user admin_note w)) = orders ?w2"
    using rb by (simp add: r)
  have c3: "\<forall>p. get_product_stock ?mid p (snd (approve_order_admin env oid admin_user admin_note w))
               = map_option (add_back (items ord) p) (get_product_stock ?mid p ?w2)"
    using rb by (simp add: r)
  have c4: "products_write w = Applied
            \<and> products ?w2 = products (snd (batch_deduct_stock ?mid (items ord) ''admin'' w))
            \<and> whole_lines ?mid (items ord) w
            \<longrightarrow> (\<forall>k. stock_at (products
                       (snd (approve_order_admin env oid admin_user admin_note w))) k
                     = stock_at (products w) k
                   \<and> map_option product_name
                       (products (snd (approve_order_admin env oid admin_user admin_note w)) k)
                     = map_option product_name (products w k))"
    using undone by (simp add: r)
  show ?thesis
    using c1 c2 c3 c4 by (intro conjI)
qed

lemma expire_order_products: "products (snd (expire_order oid w)) = products w"
  by (simp add: expire_order_def update_order_def db_update_order_def db_get_order_def
        split: option.split sum.split)

text \<open>
  Claim C6. In \<^verbatim>\<open>accept_order\<close>, when the batch deduction has succeeded and the re-read
  inside the order-transition lock finds a status other than \<^verbatim>\<open>PENDING\<close>, the call raises
  the validation error, leaves the orders exactly as the re-read found them (no status
  \<^verbatim>\<open>ACCEPTED\<close>, no \<^verbatim>\<open>inventory_deducted\<close> is written), and adds back to every product of
  the merchant, line by line, the quantity of every line of the order, each a float
  addition; when the other task did not touch the products and the quantities and stocks
  are whole numbers up to \<open>2\<^sup>5\<^sup>3\<close>, every product has the name and the quantity it had before the
  call.
  The same holds for \<^verbatim>\<open>approve_order_admin\<close> with the statuses \<^verbatim>\<open>PENDING\<close> and \<^verbatim>\<open>REVIEW\<close>.
\<close>

theorem status_change_during_deduction_rolls_back:
  "(deducted_then_changed env oid mid ''merchant'' [PENDING] ord w
      \<and> \<not> (case est of None \<Rightarrow> False | Some t \<Rightarrow> t \<le> clock w) \<longrightarrow>
        fst (accept_order env oid mid acceptance_note est w) = Inl race_error
      \<and> orders (snd (accept_order env oid mid acceptance_note est w))
          = orders (after_deduction env mid ''merchant'' ord w)
      \<and> (\<forall>p. get_product_stock mid p (snd (accept_order env oid mid acceptance_note est w))
              = map_option (add_back (items ord) p)
                  (get_product_stock mid p (after_deduction env mid ''merchant'' ord w)))
      \<and> (products_write w = Applied
           \<and> products (after_deduction env mid ''merchant'' ord w)
               = products (snd (batch_deduct_stock mid (items ord) ''merchant'' w))
           \<and> whole_lines mid (items ord) w
           \<longrightarrow> (\<forall>k. stock_at (products
                      (snd (accept_order env oid mid acceptance_note est w))) k
                    = stock_at (products w) k
                  \<and> map_option product_name
                      (products (snd (accept_order env oid mid acceptance_note est w)) k)
                    = map_option product_name (products w k))))
   \<and> (deducted_then_changed env oid (merchant_id ord') ''admin'' approve_valid_statuses ord' w
      \<and> admin_user \<noteq> [] \<longrightarrow>
        fst (approve_order_admin env oid admin_user admin_note w) = Inl race_error
      \<and> orders (snd (approve_order_admin env oid admin_user admin_note w))
          = orders (after_deduction env (merchant_id ord') ''admin'' ord' w)
      \<and> (\<forall>p. get_product_stock (merchant_id ord') p
                (snd (approve_order_admin env oid admin_user admin_note w))
              = map_option (add_back (items ord') p)
                  (get_product_stock (merchant_id ord') p
                     (after_deduction env (merchant_id ord') ''admin'' ord' w)))
      \<and> (products_write w = Applied
           \<and> products (after_deduction env (merchant_id ord') ''admin'' ord' w)
               = products (snd (batch_deduct_stock (merchant_id ord') (items ord') ''admin'' w))
           \<and> whole_lines (merchant_id ord') (items ord') w
           \<longrightarrow> (\<forall>k. stock_at (products
                      (snd (approve_order_admin env oid admin_user admin_note w))) k
                    = stock_at (products w) k
                  \<and> map_option product_name
                      (products (snd (approve_order_admin env oid admin_user admin_note w)) k)
                    = map_option product_name (products w k))))"
  using accept_order_race [of env oid mid ord w est acceptance_note]
    approve_order_admin_race [of env oid ord' w admin_user admin_note]
  by blast

text \<open>
  O1 expires while its acceptance (or its approval) is deducting stock: the call raises,
  P is back at 10 and the order stays \<^verbatim>\<open>EXPIRED\<close> without the deduction flag.
\<close>

theorem status_change_during_deduction_rolls_back_witness:
  "fst (accept_order expiry_wins ''O1'' ''M1'' None None pending_world) = Inl race_error
   \<and> stock_at (products (snd (accept_order expiry_wins ''O1'' ''M1'' None None pending_world)))
        (''M1'', ''P'')
       = Some (Finite 10)
   \<and> map_option status
        (orders (snd (accept_order expiry_wins ''O1'' ''M1'' None None pending_world)) ''O1'')
       = Some EXPIRED
   \<and> map_option inventory_deducted
        (orders (snd (accept_order expiry_wins ''O1'' ''M1'' None None pending_world)) ''O1'')
       = Some False
   \<and> fst (approve_order_admin expiry_wins ''O1'' ''root'' None pending_world) = Inl race_error
   \<and> stock_at (products (snd (approve_order_admin expiry_wins ''O1'' ''root'' None pending_world)))
        (''M1'', ''P'')
       = Some (Finite 10)
   \<and> map_option status
        (orders (snd (approve_order_admin expiry_wins ''O1'' ''root'' None pending_world)) ''O1'')
       = Some EXPIRED"
proof -
  have m: "merchant_id example_order = ''M1''"
    by (simp add: example_order_def)
  have d1: "deducted_then_changed expiry_wins ''O1'' ''M1'' ''merchant'' [PENDING]
              example_order pending_world"
    by (simp add: deducted_then_changed_def after_deduction_def expiry_wins_def line_qty_def
          pending_world_def example_world_def example_order_def batch_defs engine_defs
          order_defs Let_def tolerance_nonneg fle_def)
  have d2: "deducted_then_changed expiry_wins ''O1'' (merchant_id example_order) ''admin''
              approve_valid_statuses example_order pending_world"
    by (simp add: deducted_then_changed_def after_deduction_def expiry_wins_def line_qty_def
          approve_valid_statuses_def pending_world_def example_world_def example_order_def
          batch_defs engine_defs order_defs Let_def tolerance_nonneg fle_def)
  have e: "\<not> (case None :: int option of None \<Rightarrow> False | Some t \<Rightarrow> t \<le> clock pending_world)"
    by simp
  have a: "products_write pending_world = Applied"
    by (simp add: pending_world_def example_world_def)
  have p: "products (after_deduction expiry_wins mid role example_order pending_world)
             = products (snd (batch_deduct_stock mid (items example_order) role pending_world))"
    for mid role
    by (simp add: after_deduction_def expiry_wins_def expire_order_products)
  have wl: "whole_lines ''M1'' (items example_order) pending_world"
    by (simp add: whole_lines_def whole_def whole_stock_def stock_at_def line_qty_def
          example_order_def pending_world_def example_world_def)
  have s0: "stock_at (products pending_world) (''M1'', ''P'') = Some (Finite 10)"
    by (simp add: stock_at_def pending_world_def example_world_def)
  have o1: "map_option status
              (orders (after_deduction expiry_wins ''M1'' ''merchant'' example_order pending_world)
                 ''O1'') = Some EXPIRED"
    "map_option inventory_deducted
              (orders (after_deduction expiry_wins ''M1'' ''merchant'' example_order pending_world)
                 ''O1'') = Some False"
    by (simp_all add: after_deduction_def expiry_wins_def pending_world_def example_world_def
          example_order_def batch_defs engine_defs order_defs Let_def tolerance_nonneg)
  have o2: "map_option status
              (orders (after_deduction expiry_wins ''M1'' ''admin'' example_order pending_world)
                 ''O1'') = Some EXPIRED"
    by (simp add: after_deduction_def expiry_wins_def pending_world_def example_world_def
          example_order_def batch_defs engine_defs order_defs Let_def tolerance_nonneg)
  note th = status_change_during_deduction_rolls_back
      [of expiry_wins "''O1''" "''M1''" example_order pending_world None None
          example_order "''root''" None]
  have r: "''root'' \<noteq> []" by simp
  from th d1 e have acc:
    "fst (accept_order expiry_wins ''O1'' ''M1'' None None pending_world) = Inl race_error"
    "orders (snd (accept_order expiry_wins ''O1'' ''M1'' None None pending_world))
       = orders (after_deduction expiry_wins ''M1'' ''merchant'' example_order pending_world)"
    "\<forall>k. stock_at (products (snd (accept_order expiry_wins ''O1'' ''M1'' None None
                                     pending_world))) k
       = stock_at (products pending_world) k"
    using a p [of "''M1''" "''merchant''"] wl by blast+
  from th d2 r have app:
    "fst (approve_order_admin expiry_wins ''O1'' ''root'' None pending_world) = Inl race_error"
    "orders (snd (approve_order_admin expiry_wins ''O1'' ''root'' None pending_world))
       = orders (after_deduction expiry_wins ''M1'' ''admin'' example_order pending_world)"
    "\<forall>k. stock_at (products (snd (approve_order_admin expiry_wins ''O1'' ''root'' None
                                     pending_world))) k
       = stock_at (products pending_world) k"
    using a p [of "''M1''" "''admin''"] wl unfolding m by blast+
  show ?thesis
    by (simp only: acc app o1 o2 s0 simp_thms)
qed

subsection \<open>Cancellation of an accepted order\<close>

text \<open>
  For an order with at least one line the flag \<^verbatim>\<open>inventory_returned\<close> is never set,
  whatever the compensating calls did.
\<close>

lemma rollback_args_length: "rollback_args its = Inr args \<Longrightarrow> length args = length its"
  by (induction its arbitrary: args) (auto split: sum.splits)

lemma return_all_first_result:
  "\<exists>b rs. fst (return_all m (a # args) r role w) = Inr b # rs"
proof -
  obtain p q where a: "a = (p, q)" by (cases a)
  obtain b where "fst (update_quantity m p q r role w) = Inr b"
    using update_quantity_returns by blast
  then show ?thesis
    by (simp add: a split_beta)
qed

lemma return_inventory_flag_never_set:
  assumes "items ord \<noteq> []"
  shows "fst (return_inventory ord cancelled_by_v w) = False"
proof (cases "rollback_args (items ord)")
  case (Inl e)
  then show ?thesis by (simp add: return_inventory_def)
next
  case (Inr args)
  then have "args \<noteq> []"
    using rollback_args_length assms by fastforce
  then obtain a rest where ar: "args = a # rest"
    by (cases args) auto
  obtain b rs where
    "fst (return_all (merchant_id ord) (a # rest) ''order_cancellation_rollback'' cancelled_by_v w)
       = Inr b # rs"
    using return_all_first_result by blast
  then show ?thesis
    using Inr ar by (simp add: return_inventory_def split_beta)
qed

text \<open>
  Claim C5 at a failing input. O1 is \<^verbatim>\<open>ACCEPTED\<close> with \<^verbatim>\<open>inventory_deducted\<close> true, it
  holds 4 units of P, and P has 6 left. \<^verbatim>\<open>cancel_order\<close> returns the 4 units (P is back at
  10) and sets the status to \<^verbatim>\<open>CANCELLED\<close>, but the stored \<^verbatim>\<open>inventory_deducted\<close> flag is
  still true: the results of the compensating calls are booleans, the test of
  \<open>any_failed\<close> raises on the first of them, and the flag \<^verbatim>\<open>inventory_returned\<close> is never set.
\<close>

theorem cancel_order_keeps_deducted_flag:
  "map_option status
     (orders (snd (cancel_order ''O1'' ''changed mind'' ''customer'' accepted_world)) ''O1'')
     = Some CANCELLED
   \<and> get_product_stock ''M1'' ''P''
       (snd (cancel_order ''O1'' ''changed mind'' ''customer'' accepted_world))
     = Some (Finite 10)
   \<and> map_option inventory_deducted
       (orders (snd (cancel_order ''O1'' ''changed mind'' ''customer'' accepted_world)) ''O1'')
     = Some True"
  by (simp add: cancel_order_def return_inventory_def accepted_world_def example_world_def
        example_order_def engine_defs order_defs Let_def tolerance_nonneg)

subsection \<open>Expiry is idempotent\<close>

text \<open>
  Claim C8, amended to the two pending statuses of \<^verbatim>\<open>expire_order\<close>. For a stored order
  and an initialised store: when the status is neither \<^verbatim>\<open>pending\<close> nor the legacy
  \<^verbatim>\<open>pending_confirmation\<close>, \<^verbatim>\<open>expire_order\<close> returns the order as it is, changes nothing
  and raises nothing; when the status is one of the two and the write succeeds, the first
  call stores and returns the order with status \<^verbatim>\<open>EXPIRED\<close> and exactly one more timeline
  entry (an \<^verbatim>\<open>EXPIRED\<close> one), and a second call returns that order and changes nothing.
\<close>

theorem expire_order_idempotent:
  assumes "db_initialized w" "oid \<noteq> []" "orders w oid = Some ord"
  shows "(status ord \<notin> set valid_pending_statuses \<longrightarrow>
            expire_order oid w = (Inr (Some ord), w))
       \<and> (status ord \<in> set valid_pending_statuses \<and> \<not> orders_write_raises w \<longrightarrow>
            expire_order oid w =
              (Inr (Some (expired_order (clock w) ord)),
               w\<lparr>orders := (orders w)(oid \<mapsto> expired_order (clock w) ord)\<rparr>)
          \<and> expire_order oid (snd (expire_order oid w)) =
              (Inr (Some (expired_order (clock w) ord)), snd (expire_order oid w))
          \<and> length (filter (\<lambda>e. tl_status e = EXPIRED)
                (timeline (expired_order (clock w) ord)))
              = length (filter (\<lambda>e. tl_status e = EXPIRED) (timeline ord)) + 1)"
proof -
  have noop: "expire_order oid w' = (Inr (Some ord'), w')"
    if "db_initialized w'" "orders w' oid = Some ord'" "status ord' \<notin> set valid_pending_statuses"
    for w' ord'
    using that assms(2) by (simp add: expire_order_def db_get_order_def)
  have first: "expire_order oid w =
              (Inr (Some (expired_order (clock w) ord)),
               w\<lparr>orders := (orders w)(oid \<mapsto> expired_order (clock w) ord)\<rparr>)"
    if "status ord \<in> set valid_pending_statuses" "\<not> orders_write_raises w"
    using that assms
    by (simp add: expire_order_def db_get_order_def update_order_def db_update_order_def
          expired_order_def)
  have closed: "status (expired_order (clock w) ord) \<notin> set valid_pending_statuses"
    by (simp add: expired_order_def valid_pending_statuses_def EXPIRED_def PENDING_def)
  have second: "expire_order oid (snd (expire_order oid w)) =
              (Inr (Some (expired_order (clock w) ord)), snd (expire_order oid w))"
    if "status ord \<in> set valid_pending_statuses" "\<not> orders_write_raises w"
    using first [OF that] noop [OF _ _ closed, of "w\<lparr>orders := (orders w)(oid \<mapsto> expired_order (clock w) ord)\<rparr>"] assms(1)
    by simp
  have count: "length (filter (\<lambda>e. tl_status e = EXPIRED)
                (timeline (expired_order (clock w) ord)))
              = length (filter (\<lambda>e. tl_status e = EXPIRED) (timeline ord)) + 1"
    by (simp add: expired_order_def expired_entry_def)
  show ?thesis
    using noop [OF assms(1) assms(3)] first second count by blast
qed

text \<open>
  Two calls on the pending O1 leave one \<^verbatim>\<open>EXPIRED\<close> timeline entry; a call on the accepted
  O1 is a no-op.
\<close>

theorem expire_order_idempotent_witness:
  "expire_order ''O1'' pending_world
     = (Inr (Some (expired_order 1000 example_order)),
        pending_world\<lparr>orders := (orders pending_world)(''O1'' \<mapsto> expired_order 1000 example_order)\<rparr>)
   \<and> expire_order ''O1'' (snd (expire_order ''O1'' pending_world))
     = (Inr (Some (expired_order 1000 example_order)), snd (expire_order ''O1'' pending_world))
   \<and> timeline (expired_order 1000 example_order) = [expired_entry 1000]
   \<and> expire_order ''O1'' accepted_world
     = (Inr (Some (example_order\<lparr>status := ACCEPTED, inventory_deducted := True\<rparr>)),
        accepted_world)"
proof -
  have h: "db_initialized pending_world" "''O1'' \<noteq> []"
    "orders pending_world ''O1'' = Some example_order"
    by (simp_all add: pending_world_def example_world_def)
  have h': "db_initialized accepted_world"
    "orders accepted_world ''O1''
       = Some (example_order\<lparr>status := ACCEPTED, inventory_deducted := True\<rparr>)"
    by (simp_all add: accepted_world_def example_world_def)
  have p: "status example_order \<in> set valid_pending_statuses"
    "\<not> orders_write_raises pending_world" "clock pending_world = 1000"
    by (simp_all add: example_order_def valid_pending_statuses_def pending_world_def
          example_world_def)
  have q: "status (example_order\<lparr>status := ACCEPTED, inventory_deducted := True\<rparr>)
             \<notin> set valid_pending_statuses"
    by (simp add: valid_pending_statuses_def ACCEPTED_def PENDING_def)
  have t: "timeline (expired_order 1000 example_order) = [expired_entry 1000]"
    by (simp add: expired_order_def example_order_def)
  note first = expire_order_idempotent [OF h, unfolded p(3)]
  note other = expire_order_idempotent [OF h'(1) h(2) h'(2)]
  show ?thesis
    using first other p(1,2) q t by blast
qed

text \<open>
  Claim C8 as stated fails for the legacy status: the status \<^verbatim>\<open>pending_confirmation\<close> is
  not \<^verbatim>\<open>pending\<close>, yet the call is not a no-op: the order is expired.
\<close>

theorem expire_order_legacy_pending:
  "status (example_order\<lparr>status := ''pending_confirmation''\<rparr>) \<noteq> PENDING
   \<and> orders legacy_world ''O1'' = Some (example_order\<lparr>status := ''pending_confirmation''\<rparr>)
   \<and> fst (expire_order ''O1'' legacy_world)
       \<noteq> Inr (Some (example_order\<lparr>status := ''pending_confirmation''\<rparr>))
   \<and> map_option status (orders (snd (expire_order ''O1'' legacy_world)) ''O1'') = Some EXPIRED"
  by (simp add: legacy_world_def example_world_def example_order_def order_defs)

subsection \<open>One reminder per cycle, the smallest that is due\<close>















end
